theory Spec2Isabelle
  imports Complex_Main "HOL-Library.Sublist" "HOL-Library.AList" "HOL-Library.Multiset"
begin

section \<open>Python values used by the multi-year orchestrator\<close>

text \<open>
  The module \<open>cemo/multi.py\<close> drives a multi-year simulation. Its functions are
  embedded here as HOL functions. Exceptions are values of the type \<open>error\<close> on the
  left of a sum; Python's unbounded integers are \<open>int\<close>; the capacity and policy
  numbers (Python floats read from JSON or from the solver) are idealised as exact
  rationals; text is \<open>string\<close>.
\<close>

datatype error =
    FileNotFoundError string
  | ValueError string
  | Exception string
  | OSError string
  | IndexError
  | KeyError string
  | ExternalFailure string

subsection \<open>\<open>str\<close> of an integer, \<open>str.join\<close> and \<open>str.replace\<close>\<close>

definition digit_char :: "nat \<Rightarrow> char" where
  "digit_char d = ''0123456789'' ! d"

function str_nat :: "nat \<Rightarrow> string" where
  "str_nat n = (if n < 10 then [digit_char n] else str_nat (n div 10) @ [digit_char (n mod 10)])"
  by pat_completeness auto
termination
  by (relation "measure (\<lambda>n. n)") auto

declare str_nat.simps [simp del]

definition str_int :: "int \<Rightarrow> string" where
  "str_int i = (if i < 0 then CHR ''-'' # str_nat (nat (- i)) else str_nat (nat i))"

fun join :: "string \<Rightarrow> string list \<Rightarrow> string" where
  "join sep [] = []"
| "join sep [x] = x"
| "join sep (x # y # ys) = x @ sep @ join sep (y # ys)"

text \<open>
  \<open>s.replace(old, new)\<close>: every non-overlapping occurrence of \<open>old\<close>, scanning from
  the left. With an empty \<open>old\<close> Python puts \<open>new\<close> before every character and at the
  end.
\<close>

function replace :: "string \<Rightarrow> string \<Rightarrow> string \<Rightarrow> string" where
  "replace old new [] = (if old = [] then new else [])"
| "replace old new (c # cs) =
     (if old = [] then new @ c # replace old new cs
      else if prefix old (c # cs) then new @ replace old new (drop (length old) (c # cs))
      else c # replace old new cs)"
  by pat_completeness auto
termination
  by (relation "measure (\<lambda>(old, new, s). length s)") (auto simp: less_Suc_eq_le neq_Nil_conv)

section \<open>Module-level helpers\<close>

subsection \<open>\<open>sqllist\<close> and \<open>dclist\<close>\<close>

text \<open>
  A technology set is a dict from a zone to the list of its technologies; the dict keeps
  insertion order, so it is an association list. \<open>str((i, j))\<close> of two integers is
  \<open>(i, j)\<close>.
\<close>

type_synonym techset = "(int \<times> int list) list"

definition str_tuple :: "int \<times> int \<Rightarrow> string" where
  "str_tuple p = ''('' @ str_int (fst p) @ '', '' @ str_int (snd p) @ '')''"

text \<open>The two nested loops that both helpers run, appending one pair at a time.\<close>

definition techset_pairs :: "techset \<Rightarrow> (int \<times> int) list" where
  "techset_pairs techset =
     foldl (\<lambda>out (i, js). foldl (\<lambda>out j. out @ [(i, j)]) out js) [] techset"

definition sqllist :: "techset \<Rightarrow> string" where
  "sqllist techset =
     (let out = techset_pairs techset;
          out = (if out = [] then out @ [(99, 99)] else out)
      in ''('' @ join '', '' (map str_tuple out) @ '')'')"

definition dclist :: "techset \<Rightarrow> string" where
  "dclist techset =
     foldl (\<lambda>out (i, js).
              foldl (\<lambda>out j. out @ str_int i @ '' '' @ str_int j @ [CHR 0x0A]) out js)
       [] techset"

subsection \<open>\<open>roundup\<close>\<close>

text \<open>
  \<open>round(cap, 2)\<close> rounds to the nearest multiple of 0.01, a tie going to the even
  neighbour. The function has no \<open>raise\<close>: both of its branches return. Capacities,
  Python floats in the source, are taken as exact rationals: a NaN, an infinity and the
  binary rounding of a float are outside the model.
\<close>

definition round_half_even :: "rat \<Rightarrow> int" where
  "round_half_even q =
     (let f = \<lfloor>q\<rfloor>; d = q - of_int f
      in if d < 1 / 2 then f else if 1 / 2 < d then f + 1 else if even f then f else f + 1)"

definition py_round2 :: "rat \<Rightarrow> rat" where
  "py_round2 x = of_int (round_half_even (x * 100)) / 100"

definition roundup :: "rat \<Rightarrow> error + rat" where
  "roundup cap = (if cap > - (1 / 1000000) \<and> cap < 0 then Inr 0 else Inr (py_round2 cap))"

section \<open>The configuration model: \<open>SolveTemplate.__init__\<close> and its validators\<close>

subsection \<open>Data\<close>

text \<open>
  The scenario file after \<open>configparser\<close> and \<open>json.loads\<close>: the required keys are
  present, an optional key is an \<open>option\<close>. \<open>region_ret_ratio\<close> and
  \<open>all_tech_per_zone\<close> are JSON lists of pairs, turned into dicts by the constructor.
\<close>

record scenario =
  cfg_Name :: string
  cfg_Years :: "int list"
  cfg_nem_ret_ratio :: "rat list option"
  cfg_nem_ret_gwh :: "rat list option"
  cfg_region_ret_ratio :: "(int \<times> rat list) list option"
  cfg_emitlimit :: "rat list option"
  cfg_nem_disp_ratio :: "rat list option"
  cfg_nem_re_disp_ratio :: "rat list option"
  cfg_discountrate :: string
  cfg_cost_emit :: "rat list option"
  cfg_Description :: "string option"
  cfg_Template :: string
  cfg_custom_costs :: "string option"
  cfg_exogenous_capacity :: "string option"
  cfg_cluster :: bool
  cfg_cluster_sets :: int
  cfg_regions :: "int list option"
  cfg_zones :: "int list option"
  cfg_all_tech :: "int list option"
  cfg_all_tech_per_zone :: "(int \<times> int list) list"

text \<open>JSON values, as \<open>json.dump\<close> writes them and \<open>json.load\<close> reads them back.\<close>

datatype json =
    JNull
  | JBool bool
  | JInt int
  | JNum rat
  | JStr string
  | JList "json list"
  | JDict "(string \<times> json) list"

text \<open>
  The override tables as \<open>pandas.read_csv\<close> parses them. A cost row holds its value
  per year column; a missing cell (NaN) is absent from the list.
\<close>

record cost_row =
  cost_name :: string
  cost_tech :: int
  cost_zone :: int
  cost_values :: "(string \<times> rat) list"

record cost_table =
  cost_columns :: "string list"
  cost_rows :: "cost_row list"

record exo_row =
  exo_name :: string
  exo_tech :: int
  exo_zone :: int
  exo_year :: int
  exo_value :: rat

text \<open>
  The files the orchestrator touches. A table file carries, beside its rows, the
  records that \<open>read_csv(...).to_dict(orient='records')\<close> gives for the metadata.
\<close>

datatype file_content =
    ScenarioFile scenario
  | TextFile string
  | CostCsv cost_table json
  | CapacityCsv "exo_row list" json
  | JsonFile json

type_synonym filesys = "string \<Rightarrow> file_content option"

definition isfile :: "filesys \<Rightarrow> string \<Rightarrow> bool" where
  "isfile fs a = (fs a \<noteq> None)"

text \<open>
  What Python and pandas do to numbers and tables, taken as given: \<open>float(s)\<close> (absent
  when it raises), \<open>str\<close> of a number, and \<open>DataFrame.to_string\<close> for the three
  shapes of block.
\<close>

record pyenv =
  py_float :: "string \<Rightarrow> rat option"
  str_num :: "rat \<Rightarrow> string"
  tech_to_string :: "(int \<times> rat) list \<Rightarrow> string"
  zonetech_to_string :: "(int \<times> int \<times> rat) list \<Rightarrow> string"
  capacity_to_string :: "(int \<times> int \<times> rat) list \<Rightarrow> string"

text \<open>The constants of \<open>cemo.const\<close> that the module reads: dict keys and lists, in order.\<close>

record cemo_const =
  REGION :: "int list"
  ZONE :: "int list"
  TECH_TYPE :: "int list"
  FUEL_TECH :: "int list"
  COMMIT_TECH :: "int list"
  RE_GEN_TECH :: "int list"
  DISP_GEN_TECH :: "int list"
  RE_DISP_GEN_TECH :: "int list"
  HYB_TECH :: "int list"
  GEN_TECH :: "int list"
  STOR_TECH :: "int list"
  RETIRE_TECH :: "int list"
  NOBUILD_TECH :: "int list"

text \<open>The attributes of a \<open>SolveTemplate\<close> object.\<close>

record solve_template =
  cfgfile :: string
  Name :: string
  Years :: "int list"
  nem_ret_ratio :: "rat list option"
  nem_ret_gwh :: "rat list option"
  region_ret_ratio :: "(int \<times> rat list) list option"
  emitlimit :: "rat list option"
  nem_disp_ratio :: "rat list option"
  nem_re_disp_ratio :: "rat list option"
  model_options :: "(string \<times> bool) list"
  discountrate :: string
  cost_emit :: "rat list option"
  description :: "string option"
  Template :: string
  custom_costs :: "string option"
  exogenous_capacity :: "string option"
  cluster :: bool
  cluster_max_d :: int
  regions :: "int list"
  zones :: "int list"
  all_tech :: "int list"
  all_tech_per_zone :: techset
  tmpdir :: string
  solver :: string
  log_opt :: bool
  fueltech :: techset
  committech :: techset
  regentech :: techset
  dispgentech :: techset
  redispgentech :: techset
  hybtech :: techset
  gentech :: techset
  stortech :: techset
  retiretech :: techset

subsection \<open>Sequencing of steps that may raise\<close>

definition and_then :: "error + 'a \<Rightarrow> ('a \<Rightarrow> error + 'b) \<Rightarrow> error + 'b" where
  "and_then m f = (case m of Inl e \<Rightarrow> Inl e | Inr v \<Rightarrow> f v)"

text \<open>\<open>dict(pairs)\<close>: a later pair replaces the value of an equal earlier key.\<close>

definition py_dict :: "('k \<times> 'v) list \<Rightarrow> ('k \<times> 'v) list" where
  "py_dict ps = foldl (\<lambda>d (k, v). AList.update k v d) [] ps"

definition py_max :: "int list \<Rightarrow> error + int" where
  "py_max y = (case y of [] \<Rightarrow> Inl (ValueError ''max() arg is an empty sequence'')
               | x # xs \<Rightarrow> Inr (fold max xs x))"

definition py_min :: "int list \<Rightarrow> error + int" where
  "py_min y = (case y of [] \<Rightarrow> Inl (ValueError ''min() arg is an empty sequence'')
               | x # xs \<Rightarrow> Inr (fold min xs x))"

subsection \<open>The property setters\<close>

definition Years_setter :: "int list \<Rightarrow> error + int list" where
  "Years_setter y =
     and_then (py_max y) (\<lambda>mx.
       if mx > 2050 then Inl (ValueError ''openCEM-Years: Last full year of data is fy2050'')
       else and_then (py_min y) (\<lambda>mn.
         if mn < 2018 then Inl (Exception ''openCEM-Years: No historical data available'')
         else Inr (sort y)))"

definition discountrate_setter :: "pyenv \<Rightarrow> string \<Rightarrow> error + string" where
  "discountrate_setter env data =
     (case py_float env data of
        None \<Rightarrow> Inl (ValueError ''could not convert string to float'')
      | Some v \<Rightarrow>
          if v < 0 \<or> v > 1
          then Inl (ValueError ''openCEM-discountrate: Value must be between 0 and 1'')
          else Inr data)"

definition cost_emit_setter :: "int list \<Rightarrow> rat list option \<Rightarrow> error + rat list option" where
  "cost_emit_setter years data =
     (case data of
        None \<Rightarrow> Inr data
      | Some d \<Rightarrow>
          if length d \<noteq> length years
          then Inl (ValueError ''openCEM-cost_emit: List length does not match Years list'')
          else if list_ex (\<lambda>x. x < 0) d
          then Inl (ValueError ''openCEM-cost_emit: Value must be greater than 0'')
          else Inr data)"

definition nem_ret_ratio_setter :: "int list \<Rightarrow> rat list option \<Rightarrow> error + rat list option" where
  "nem_ret_ratio_setter years data =
     (case data of
        None \<Rightarrow> Inr data
      | Some d \<Rightarrow>
          if length d \<noteq> length years
          then Inl (ValueError ''openCEM-nem_ret_ratio: List length does not match Years list'')
          else if list_ex (\<lambda>x. x < 0) d \<or> list_ex (\<lambda>x. x > 1) d
          then Inl (ValueError ''openCEM-nem_ret_ratio: List element(s) outside range [0,1]'')
          else Inr data)"

definition nem_ret_gwh_setter :: "int list \<Rightarrow> rat list option \<Rightarrow> error + rat list option" where
  "nem_ret_gwh_setter years data =
     (case data of
        None \<Rightarrow> Inr data
      | Some d \<Rightarrow>
          if length d \<noteq> length years
          then Inl (ValueError ''openCEM-nem_ret_gwh: List length does not match Years list'')
          else if list_ex (\<lambda>x. x < 0) d
          then Inl (ValueError ''openCEM-nem_ret_gwh: List element(s) outside range [0,1]'')
          else Inr data)"

text \<open>The loop of the regional setter: the first region that fails raises.\<close>

fun region_ret_ratio_check :: "int list \<Rightarrow> (int \<times> rat list) list \<Rightarrow> error + unit" where
  "region_ret_ratio_check years [] = Inr ()"
| "region_ret_ratio_check years ((d, xs) # rest) =
     (if length xs \<noteq> length years
      then Inl (ValueError (''openCEM-region_ret_ratio: List '' @ str_int d
                  @ '' length does not match Years list''))
      else if list_ex (\<lambda>x. x < 0) xs \<or> list_ex (\<lambda>x. x > 1) xs
      then Inl (ValueError (''openCEM-region_ret_ratio: Element(s) in list '' @ str_int d
                  @ '' outside range [0,1]''))
      else region_ret_ratio_check years rest)"

definition region_ret_ratio_setter ::
  "int list \<Rightarrow> (int \<times> rat list) list option \<Rightarrow> error + (int \<times> rat list) list option" where
  "region_ret_ratio_setter years data =
     (case data of
        None \<Rightarrow> Inr data
      | Some d \<Rightarrow> and_then (region_ret_ratio_check years d) (\<lambda>_. Inr data))"

definition emitlimit_setter :: "int list \<Rightarrow> rat list option \<Rightarrow> error + rat list option" where
  "emitlimit_setter years data =
     (case data of
        None \<Rightarrow> Inr data
      | Some d \<Rightarrow>
          if length d \<noteq> length years
          then Inl (ValueError ''openCEM-emitlimit: List %s length does not match Years list'')
          else if list_ex (\<lambda>x. x < 0) d
          then Inl (ValueError ''openCEM-emitlimit: Element(s) in list must be positive'')
          else Inr data)"

definition nem_disp_ratio_setter :: "int list \<Rightarrow> rat list option \<Rightarrow> error + rat list option" where
  "nem_disp_ratio_setter years data =
     (case data of
        None \<Rightarrow> Inr data
      | Some d \<Rightarrow>
          if length d \<noteq> length years
          then Inl (ValueError ''openCEM-nem_disp_ratio: List %s length does not match Years list'')
          else if list_ex (\<lambda>x. x < 0) d \<or> list_ex (\<lambda>x. x > 1) d
          then Inl (ValueError
                 ''openCEM-nem_disp_ratio: Element(s) in list must be between 0 and 1'')
          else Inr data)"

definition nem_re_disp_ratio_setter ::
  "int list \<Rightarrow> rat list option \<Rightarrow> error + rat list option" where
  "nem_re_disp_ratio_setter years data =
     (case data of
        None \<Rightarrow> Inr data
      | Some d \<Rightarrow>
          if length d \<noteq> length years
          then Inl (ValueError
                 ''openCEM-nem_re_disp_ratio: List %s length does not match Years list'')
          else if list_ex (\<lambda>x. x < 0) d \<or> list_ex (\<lambda>x. x > 1) d
          then Inl (ValueError
                 ''openCEM-nem_re_disp_ratio: Element(s) in list must be between 0 and 1'')
          else Inr data)"

definition Template_setter :: "filesys \<Rightarrow> string \<Rightarrow> error + string" where
  "Template_setter fs a =
     (if \<not> isfile fs a then Inl (OSError ''openCEM-Template: File not found'') else Inr a)"

definition custom_costs_setter :: "filesys \<Rightarrow> string option \<Rightarrow> error + string option" where
  "custom_costs_setter fs a =
     (case a of
        None \<Rightarrow> Inr a
      | Some p \<Rightarrow>
          if \<not> isfile fs p then Inl (OSError ''openCEM-custom_costs: File not found'')
          else Inr a)"

definition exogenous_capacity_setter :: "filesys \<Rightarrow> string option \<Rightarrow> error + string option" where
  "exogenous_capacity_setter fs a =
     (case a of
        None \<Rightarrow> Inr a
      | Some p \<Rightarrow>
          if \<not> isfile fs p then Inl (OSError ''openCEM-exogenous_capacity: File not found'')
          else Inr a)"

subsection \<open>\<open>tracetechs\<close>\<close>

text \<open>
  One technology set per category: for every zone of \<open>all_tech_per_zone\<close>, the zone's
  technologies that belong to the category, in the zone's order.
\<close>

definition tracetech :: "techset \<Rightarrow> int list \<Rightarrow> techset" where
  "tracetech per_zone category =
     foldl (\<lambda>d (i, js). AList.update i (filter (\<lambda>j. j \<in> set category) js) d) [] per_zone"

definition tracetechs :: "cemo_const \<Rightarrow> solve_template \<Rightarrow> solve_template" where
  "tracetechs c self =
     self\<lparr>fueltech := tracetech (all_tech_per_zone self) (FUEL_TECH c),
          committech := tracetech (all_tech_per_zone self) (COMMIT_TECH c),
          regentech := tracetech (all_tech_per_zone self) (RE_GEN_TECH c),
          dispgentech := tracetech (all_tech_per_zone self) (DISP_GEN_TECH c),
          redispgentech := tracetech (all_tech_per_zone self) (RE_DISP_GEN_TECH c),
          hybtech := tracetech (all_tech_per_zone self) (HYB_TECH c),
          gentech := tracetech (all_tech_per_zone self) (GEN_TECH c),
          stortech := tracetech (all_tech_per_zone self) (STOR_TECH c),
          retiretech := tracetech (all_tech_per_zone self) (RETIRE_TECH c)\<rparr>"

subsection \<open>The constructor\<close>

text \<open>
  The assignments of \<open>__init__\<close> in their order; the first setter that raises ends the
  construction and no object is returned.
\<close>

definition SolveTemplate_init ::
  "pyenv \<Rightarrow> cemo_const \<Rightarrow> filesys \<Rightarrow> string \<Rightarrow> string \<Rightarrow> bool \<Rightarrow> string \<Rightarrow> error + solve_template" where
  "SolveTemplate_init env c fs cfg solver' log' tmpdir' =
     (case fs cfg of
        Some (ScenarioFile config) \<Rightarrow>
          and_then (Years_setter (cfg_Years config)) (\<lambda>ys.
          and_then (nem_ret_ratio_setter ys (cfg_nem_ret_ratio config)) (\<lambda>v_nem_ret_ratio.
          and_then (nem_ret_gwh_setter ys (cfg_nem_ret_gwh config)) (\<lambda>v_nem_ret_gwh.
          and_then (region_ret_ratio_setter ys (map_option py_dict (cfg_region_ret_ratio config)))
            (\<lambda>v_region_ret_ratio.
          and_then (emitlimit_setter ys (cfg_emitlimit config)) (\<lambda>v_emitlimit.
          and_then (nem_disp_ratio_setter ys (cfg_nem_disp_ratio config)) (\<lambda>v_nem_disp_ratio.
          and_then (nem_re_disp_ratio_setter ys (cfg_nem_re_disp_ratio config))
            (\<lambda>v_nem_re_disp_ratio.
          and_then (discountrate_setter env (cfg_discountrate config)) (\<lambda>v_discountrate.
          and_then (cost_emit_setter ys (cfg_cost_emit config)) (\<lambda>v_cost_emit.
          and_then (Template_setter fs (cfg_Template config)) (\<lambda>v_Template.
          and_then (custom_costs_setter fs (cfg_custom_costs config)) (\<lambda>v_custom_costs.
          and_then (exogenous_capacity_setter fs (cfg_exogenous_capacity config))
            (\<lambda>v_exogenous_capacity.
          Inr (tracetechs c
            \<lparr>cfgfile = cfg,
             Name = cfg_Name config,
             Years = ys,
             nem_ret_ratio = v_nem_ret_ratio,
             nem_ret_gwh = v_nem_ret_gwh,
             region_ret_ratio = v_region_ret_ratio,
             emitlimit = v_emitlimit,
             nem_disp_ratio = v_nem_disp_ratio,
             nem_re_disp_ratio = v_nem_re_disp_ratio,
             model_options =
               [(''nem_ret_ratio'', v_nem_ret_ratio \<noteq> None),
                (''nem_ret_gwh'', v_nem_ret_gwh \<noteq> None),
                (''region_ret_ratio'', v_region_ret_ratio \<noteq> None),
                (''emitlimit'', v_emitlimit \<noteq> None),
                (''nem_disp_ratio'', v_nem_disp_ratio \<noteq> None),
                (''nem_re_disp_ratio'', v_nem_re_disp_ratio \<noteq> None)],
             discountrate = v_discountrate,
             cost_emit = v_cost_emit,
             description = cfg_Description config,
             Template = v_Template,
             custom_costs = v_custom_costs,
             exogenous_capacity = v_exogenous_capacity,
             cluster = cfg_cluster config,
             cluster_max_d = cfg_cluster_sets config,
             regions = (case cfg_regions config of None \<Rightarrow> REGION c | Some r \<Rightarrow> r),
             zones = (case cfg_zones config of None \<Rightarrow> ZONE c | Some z \<Rightarrow> z),
             all_tech = (case cfg_all_tech config of None \<Rightarrow> TECH_TYPE c | Some t \<Rightarrow> t),
             all_tech_per_zone = py_dict (cfg_all_tech_per_zone config),
             tmpdir = tmpdir',
             solver = solver',
             log_opt = log',
             fueltech = [], committech = [], regentech = [], dispgentech = [],
             redispgentech = [], hybtech = [], gentech = [], stortech = [],
             retiretech = []\<rparr>)))))))))))))
      | Some _ \<Rightarrow> Inl (ExternalFailure ''configparser: the file is not a scenario'')
      | None \<Rightarrow> Inl (FileNotFoundError ''openCEM Scenario config file not found''))"

section \<open>The template generator\<close>

subsection \<open>Lists, dates and lines\<close>

text \<open>\<open>xs.index(x)\<close> is the first position of \<open>x\<close>; it raises when \<open>x\<close> is absent.\<close>

fun index_of :: "'a \<Rightarrow> 'a list \<Rightarrow> nat option" where
  "index_of x [] = None"
| "index_of x (y # ys) = (if x = y then Some 0 else map_option Suc (index_of x ys))"

definition Years_index :: "solve_template \<Rightarrow> int \<Rightarrow> error + nat" where
  "Years_index self year =
     (case index_of year (Years self) of
        None \<Rightarrow> Inl (ValueError (str_int year @ '' is not in list''))
      | Some i \<Rightarrow> Inr i)"

text \<open>\<open>xs[i]\<close>: a negative index counts from the end of the list.\<close>

definition py_getitem :: "'a list \<Rightarrow> int \<Rightarrow> error + 'a" where
  "py_getitem xs i =
     (let n = int (length xs); j = (if i < 0 then i + n else i)
      in if 0 \<le> j \<and> j < n then Inr (xs ! nat j) else Inl IndexError)"

definition nl :: string where
  "nl = [CHR 0x0A]"

definition sq :: string where
  "sq = [CHR 0x27]"

definition dq :: string where
  "dq = [CHR 0x22]"

text \<open>
  \<open>str(datetime.datetime(y, ...))\<close>: the year must lie in 1..9999 and prints on four
  digits; the rest of the date is fixed by the caller.
\<close>

definition str_datetime :: "int \<Rightarrow> string \<Rightarrow> error + string" where
  "str_datetime y rest =
     (if y < 1 \<or> 9999 < y then Inl (ValueError ''year is out of range'')
      else Inr (replicate (4 - length (str_int y)) (CHR ''0'') @ str_int y @ rest))"

text \<open>Iterating over an open text file gives its lines, each with its line end.\<close>

fun py_lines_from :: "string \<Rightarrow> string \<Rightarrow> string list" where
  "py_lines_from cur [] = (if cur = [] then [] else [cur])"
| "py_lines_from cur (c # cs) =
     (if c = CHR 0x0A then (cur @ [c]) # py_lines_from [] cs else py_lines_from (cur @ [c]) cs)"

definition py_lines :: "string \<Rightarrow> string list" where
  "py_lines s = py_lines_from [] s"

definition join_ints :: "string \<Rightarrow> int list \<Rightarrow> string" where
  "join_ints sep xs = join sep (map str_int xs)"

subsection \<open>The carry-forward clauses\<close>

definition bootstrap_query :: "string \<Rightarrow> string \<Rightarrow> string \<Rightarrow> string" where
  "bootstrap_query comment column techlist =
     comment @ nl
     @ ''load '' @ dq @ ''opencem.ckvu5hxg6w5z.ap-southeast-1.rds.amazonaws.com'' @ dq
     @ '' database=opencem_input'' @ nl
     @ ''user=select password=select_password using=pymysql'' @ nl
     @ ''query='' @ dq
     @ ''select ntndp_zone_id as zones, technology_type_id as all_tech, sum(reg_cap) as ''
     @ column @ nl
     @ ''from capacity'' @ nl
     @ ''where (ntndp_zone_id,technology_type_id) in'' @ nl
     @ techlist @ nl
     @ ''and commissioning_year is NULL'' @ nl
     @ ''group by zones,all_tech;'' @ dq @ '' : [zones,all_tech] '' @ column @ '';'' @ nl"

definition carry_forward_path :: "solve_template \<Rightarrow> int \<Rightarrow> string" where
  "carry_forward_path self y = tmpdir self @ ''gen_cap_op'' @ str_int y @ ''.json''"

definition carryforwardcap :: "solve_template \<Rightarrow> int \<Rightarrow> error + string" where
  "carryforwardcap self year =
     and_then (Years_index self year) (\<lambda>i.
       if i \<noteq> 0 then
         and_then (Years_index self year) (\<lambda>i.
         and_then (py_getitem (Years self) (int i - 1)) (\<lambda>prevyear.
           Inr (''load '' @ sq @ tmpdir self @ ''gen_cap_op'' @ str_int prevyear @ ''.json'' @ sq
                @ '' : [zones,all_tech] gen_cap_initial stor_cap_initial hyb_cap_initial;'')))
       else
         Inr (bootstrap_query ''#operating capacity for all technilogies and regions''
                ''gen_cap_initial'' (sqllist (gentech self))
              @ nl
              @ bootstrap_query ''# operating capacity for all technilogies and regions''
                ''stor_cap_initial'' (sqllist (stortech self))
              @ nl
              @ bootstrap_query ''# operating capacity for all technilogies and regions''
                ''hyb_cap_initial'' (sqllist (hybtech self))))"

definition carry_forward_cap_costs :: "solve_template \<Rightarrow> int \<Rightarrow> error + string" where
  "carry_forward_cap_costs self year =
     and_then (Years_index self year) (\<lambda>i.
       if i \<noteq> 0 then
         and_then (Years_index self year) (\<lambda>i.
         and_then (py_getitem (Years self) (int i - 1)) (\<lambda>prevyear.
           Inr (''#Carry forward annualised capital costs'' @ nl
                @ ''load '' @ sq @ tmpdir self @ ''gen_cap_op'' @ str_int prevyear @ ''.json'' @ sq
                @ '' : cost_cap_carry_forward;'' @ nl)))
       else Inr [])"

subsection \<open>The override tables\<close>

datatype cost_shape = Zonetech | Tech

definition custom_cost_keywords :: "(string \<times> cost_shape) list" where
  "custom_cost_keywords =
     [(''cost_gen_build'', Zonetech), (''cost_hyb_build'', Zonetech),
      (''cost_stor_build'', Zonetech), (''cost_fuel'', Zonetech),
      (''cost_gen_fom'', Tech), (''cost_gen_vom'', Tech),
      (''cost_hyb_fom'', Tech), (''cost_hyb_vom'', Tech),
      (''cost_stor_fom'', Tech), (''cost_stor_vom'', Tech)]"

definition read_cost_csv :: "filesys \<Rightarrow> string \<Rightarrow> error + cost_table" where
  "read_cost_csv fs p =
     (case fs p of
        None \<Rightarrow> Inl (FileNotFoundError p)
      | Some (CostCsv t _) \<Rightarrow> Inr t
      | Some _ \<Rightarrow> Inl (ExternalFailure ''pandas: not a cost table''))"

definition read_capacity_csv :: "filesys \<Rightarrow> string \<Rightarrow> error + exo_row list" where
  "read_capacity_csv fs p =
     (case fs p of
        None \<Rightarrow> Inl (FileNotFoundError p)
      | Some (CapacityCsv t _) \<Rightarrow> Inr t
      | Some _ \<Rightarrow> Inl (ExternalFailure ''pandas: not a capacity table''))"

text \<open>The rows selected for one cost keyword: the year column must exist and hold a value.\<close>

definition custom_cost_rows :: "solve_template \<Rightarrow> cost_table \<Rightarrow> string \<Rightarrow> string \<Rightarrow> cost_row list" where
  "custom_cost_rows self costs year key =
     (if year \<in> set (cost_columns costs)
      then filter (\<lambda>r. map_of (cost_values r) year \<noteq> None)
             (filter (\<lambda>r. cost_name r = key \<and> cost_tech r \<in> set (all_tech self)
                          \<and> cost_zone r \<in> set (zones self))
                (cost_rows costs))
      else [])"

definition custom_cost_block ::
  "pyenv \<Rightarrow> solve_template \<Rightarrow> cost_table \<Rightarrow> string \<Rightarrow> string \<times> cost_shape \<Rightarrow> string" where
  "custom_cost_block env self costs year kw =
     (let key = fst kw; cost = custom_cost_rows self costs year key
      in if cost \<noteq> [] then
           ''#Custom cost entry for '' @ key @ nl
           @ ''param '' @ key @ '':='' @ nl
           @ (if snd kw = Tech
              then tech_to_string env
                     (map (\<lambda>r. (cost_tech r, the (map_of (cost_values r) year))) cost)
              else zonetech_to_string env
                     (map (\<lambda>r. (cost_zone r, cost_tech r, the (map_of (cost_values r) year))) cost))
           @ nl @ '';'' @ nl
         else [])"

definition produce_custom_costs :: "pyenv \<Rightarrow> filesys \<Rightarrow> solve_template \<Rightarrow> int \<Rightarrow> error + string" where
  "produce_custom_costs env fs self y =
     (let year = str_int y in
      case custom_costs self of
        None \<Rightarrow> Inr nl
      | Some p \<Rightarrow>
          and_then (read_cost_csv fs p) (\<lambda>costs.
            Inr (foldl (\<lambda>out kw. out @ custom_cost_block env self costs year kw)
                   nl custom_cost_keywords)))"

definition exogenous_keywords :: "string list" where
  "exogenous_keywords = [''gen_cap_exo'', ''stor_cap_exo'', ''hyb_cap_exo'', ''ret_gen_cap_exo'']"

text \<open>The rows selected for one capacity keyword, between \<open>prevyear\<close> and \<open>year\<close>.\<close>

definition exogenous_rows ::
  "solve_template \<Rightarrow> exo_row list \<Rightarrow> int \<Rightarrow> int \<Rightarrow> string \<Rightarrow> exo_row list" where
  "exogenous_rows self capacity prevyear year key =
     filter (\<lambda>r. exo_year r > prevyear \<and> exo_year r \<le> year \<and> exo_name r = key
                 \<and> exo_tech r \<in> set (all_tech self) \<and> exo_zone r \<in> set (zones self))
       capacity"

definition exogenous_block ::
  "pyenv \<Rightarrow> solve_template \<Rightarrow> exo_row list \<Rightarrow> int \<Rightarrow> int \<Rightarrow> string \<Rightarrow> string" where
  "exogenous_block env self capacity prevyear year key =
     (let cap = exogenous_rows self capacity prevyear year key
      in if cap \<noteq> [] then
           ''#Exogenous capacity entry '' @ key @ nl
           @ ''param '' @ key @ '':='' @ nl
           @ capacity_to_string env (map (\<lambda>r. (exo_zone r, exo_tech r, exo_value r)) cap)
           @ nl @ '';'' @ nl
         else [])"

definition produce_exogenous_capacity ::
  "pyenv \<Rightarrow> filesys \<Rightarrow> solve_template \<Rightarrow> int \<Rightarrow> error + string" where
  "produce_exogenous_capacity env fs self year =
     (case exogenous_capacity self of
        None \<Rightarrow> Inr nl
      | Some p \<Rightarrow>
          and_then (read_capacity_csv fs p) (\<lambda>capacity.
          and_then (Years_index self year) (\<lambda>i.
          and_then (py_getitem (Years self) (int i - 1)) (\<lambda>prevyear.
            Inr (foldl (\<lambda>out key. out @ exogenous_block env self capacity prevyear year key)
                   nl exogenous_keywords)))))"

subsection \<open>The policy parameters\<close>

text \<open>
  Each policy block of \<open>generateyeartemplate\<close> has the same shape: nothing when the
  series is \<open>None\<close> or empty, otherwise a header followed by \<open>str\<close> of
  \<open>series[self.Years.index(year)]\<close>.
\<close>

definition policy_block ::
  "pyenv \<Rightarrow> solve_template \<Rightarrow> int \<Rightarrow> string \<Rightarrow> rat list option \<Rightarrow> error + string" where
  "policy_block env self year header series =
     (case series of
        None \<Rightarrow> Inr []
      | Some d \<Rightarrow>
          if d = [] then Inr []
          else and_then (Years_index self year) (\<lambda>i.
               and_then (py_getitem d (int i)) (\<lambda>v.
                 Inr (header @ str_num env v @ '';'' @ nl))))"

fun map_result :: "('a \<Rightarrow> error + 'b) \<Rightarrow> 'a list \<Rightarrow> error + 'b list" where
  "map_result f [] = Inr []"
| "map_result f (x # xs) =
     and_then (f x) (\<lambda>y. and_then (map_result f xs) (\<lambda>ys. Inr (y # ys)))"

definition region_policy_block ::
  "pyenv \<Rightarrow> solve_template \<Rightarrow> int \<Rightarrow> (int \<times> rat list) list option \<Rightarrow> error + string" where
  "region_policy_block env self year series =
     (case series of
        None \<Rightarrow> Inr []
      | Some d \<Rightarrow>
          if d = [] then Inr []
          else and_then
                 (map_result
                    (\<lambda>(i, xs). and_then (Years_index self year) (\<lambda>k.
                                and_then (py_getitem xs (int k)) (\<lambda>v.
                                  Inr (str_int i @ '' '' @ str_num env v))))
                    d)
                 (\<lambda>entries.
                    Inr (nl @ '' #Regional based RET'' @ nl @ ''param region_ret_ratio := ''
                         @ join '' '' entries @ '';'' @ nl)))"

subsection \<open>\<open>generateyeartemplate\<close>\<close>

text \<open>The replacements made on one line of the template, in the order of the source.\<close>

definition fill_line ::
  "cemo_const \<Rightarrow> solve_template \<Rightarrow> int \<Rightarrow> int \<Rightarrow> string \<Rightarrow> string \<Rightarrow> string \<Rightarrow> string" where
  "fill_line c self year prevyear opcap0 drange line0 =
     (let line = replace ''[regions]'' (join_ints '' '' (regions self)) line0;
          line = replace ''[zones]'' (join_ints '' '' (zones self)) line;
          line = replace ''[alltech]'' (join_ints '' '' (all_tech self)) line;
          line = replace ''XXXX'' (str_int year) line;
          line = replace ''WWWW'' (str_int prevyear) line;
          line = replace ''[gentech]'' (dclist (gentech self)) line;
          line = replace ''[gentechdb]'' (sqllist (gentech self)) line;
          line = replace ''[gentechlist]''
                   (join_ints '', '' (filter (\<lambda>i. i \<in> set (all_tech self)) (GEN_TECH c))) line;
          line = replace ''[stortech]'' (dclist (stortech self)) line;
          line = replace ''[stortechdb]'' (sqllist (stortech self)) line;
          line = replace ''[stortechlist]''
                   (join_ints '', '' (filter (\<lambda>i. i \<in> set (all_tech self)) (STOR_TECH c))) line;
          line = replace ''[hybtech]'' (dclist (hybtech self)) line;
          line = replace ''[hybtechdb]'' (sqllist (hybtech self)) line;
          line = replace ''[hybtechlist]''
                   (join_ints '', '' (filter (\<lambda>i. i \<in> set (all_tech self)) (HYB_TECH c))) line;
          line = replace ''[retiretech]'' (dclist (retiretech self)) line;
          line = replace ''[retiretechdb]'' (sqllist (retiretech self)) line;
          line = replace ''[retiretechset]'' (join_ints '' '' (RETIRE_TECH c)) line;
          line = replace ''[fueltech]'' (dclist (fueltech self)) line;
          line = replace ''[fueltechdb]'' (sqllist (fueltech self)) line;
          line = replace ''[fueltechset]'' (join_ints '' '' (FUEL_TECH c)) line;
          line = replace ''[committech]'' (dclist (committech self)) line;
          line = replace ''[regentech]'' (dclist (regentech self)) line;
          line = replace ''[dispgentech]'' (dclist (dispgentech self)) line;
          line = replace ''[redispgentech]'' (dclist (redispgentech self)) line;
          line = replace ''[stortechset]'' (join_ints '' '' (STOR_TECH c)) line;
          line = replace ''[hybtechset]'' (join_ints '' '' (HYB_TECH c)) line;
          line = replace ''[nobuildset]'' (join_ints '' '' (NOBUILD_TECH c)) line;
          line = replace ''[carryforwardcap]'' opcap0 line;
          line = replace ''[timerange]'' drange line
      in line)"

definition read_text :: "filesys \<Rightarrow> string \<Rightarrow> error + string" where
  "read_text fs p =
     (case fs p of
        None \<Rightarrow> Inl (FileNotFoundError p)
      | Some (TextFile t) \<Rightarrow> Inr t
      | Some _ \<Rightarrow> Inl (ExternalFailure ''not a text file''))"

text \<open>
  The text written to the data command file: the filled lines of the template, then
  the blocks in the order of the \<open>fo.write\<close> calls. The output file is opened for
  writing before the template is read, so a template that is the output file itself
  gives no line.
\<close>

definition template_text ::
  "pyenv \<Rightarrow> cemo_const \<Rightarrow> filesys \<Rightarrow> solve_template \<Rightarrow> int \<Rightarrow> bool \<Rightarrow> error + string" where
  "template_text env c fs self year test =
     and_then (str_datetime (year - 1) ''-07-01 00:00:00'') (\<lambda>date1.
     and_then (str_datetime year ''-06-30 23:00:00'') (\<lambda>date2.
     and_then (if test then str_datetime (year - 1) ''-07-03 23:00:00'' else Inr date2) (\<lambda>date2.
     let strd1 = sq @ date1 @ sq;
         strd2 = sq @ date2 @ sq;
         drange = ''BETWEEN '' @ strd1 @ '' AND '' @ strd2;
         dcfName = tmpdir self @ ''Sim'' @ str_int year @ ''.dat'';
         fcr = nl @ ''#Discount rate for project'' @ nl
               @ ''param all_tech_discount_rate := '' @ discountrate self @ '';'' @ nl
     in
     and_then (carryforwardcap self year) (\<lambda>opcap0.
     and_then (carry_forward_cap_costs self year) (\<lambda>carry_fwd_cap.
     and_then (produce_custom_costs env fs self year) (\<lambda>custom_costs.
     and_then (produce_exogenous_capacity env fs self year) (\<lambda>exogenous_capacity.
     and_then (policy_block env self year
                 (''#Cost of emissions $/Mhw'' @ nl @ ''param cost_emit:= '') (cost_emit self))
       (\<lambda>cemit.
     and_then (policy_block env self year
                 (nl @ '' # NEM wide RET'' @ nl @ ''param nem_ret_ratio :='') (nem_ret_ratio self))
       (\<lambda>v_nem_ret_ratio.
     and_then (policy_block env self year
                 (nl @ '' # NEM wide RET'' @ nl @ ''param nem_ret_gwh :='') (nem_ret_gwh self))
       (\<lambda>v_nem_ret_gwh.
     and_then (region_policy_block env self year (region_ret_ratio self)) (\<lambda>v_region_ret_ratio.
     and_then (policy_block env self year
                 (nl @ '' #NEM wide emission limit (in GT)'' @ nl
                  @ ''param nem_year_emit_limit := '') (emitlimit self))
       (\<lambda>v_emitlimit.
     and_then (policy_block env self year
                 (nl @ '' #NEM wide minimum generation ratio from dispatchable tech'' @ nl
                  @ ''param nem_disp_ratio := '') (nem_disp_ratio self))
       (\<lambda>v_nem_disp_ratio.
     and_then (policy_block env self year
                 (nl @ '' #NEM wide minimum generation ratio from dispatchable tech'' @ nl
                  @ ''param nem_re_disp_ratio := '') (nem_re_disp_ratio self))
       (\<lambda>v_nem_re_disp_ratio.
     and_then (Years_index self year) (\<lambda>i.
     and_then (if i = 0 then Inr 2017 else py_getitem (Years self) (int i - 1)) (\<lambda>prevyear.
     and_then (read_text fs (Template self)) (\<lambda>fin.
       Inr (concat (map (fill_line c self year prevyear opcap0 drange)
                      (if dcfName = Template self then [] else py_lines fin))
            @ custom_costs @ exogenous_capacity @ fcr @ cemit @ carry_fwd_cap
            @ v_nem_ret_ratio @ v_nem_ret_gwh @ v_region_ret_ratio @ v_emitlimit
            @ v_nem_disp_ratio @ v_nem_re_disp_ratio))))))))))))))))))"

text \<open>The method writes the text to \<open>tmpdir + 'Sim' + str(year) + '.dat'\<close> and returns that name.\<close>

definition generateyeartemplate ::
  "pyenv \<Rightarrow> cemo_const \<Rightarrow> filesys \<Rightarrow> solve_template \<Rightarrow> int \<Rightarrow> bool \<Rightarrow> error + (filesys \<times> string)" where
  "generateyeartemplate env c fs self year test =
     and_then (template_text env c fs self year test) (\<lambda>text.
       let dcfName = tmpdir self @ ''Sim'' @ str_int year @ ''.dat''
       in Inr (fs(dcfName := Some (TextFile text)), dcfName))"

section \<open>The sequential solve and the final report\<close>

subsection \<open>The external collaborators\<close>

text \<open>
  The model builder, the clustering run, the solver and the marshalling of pyomo
  components are outside this module. They are taken as given, over an abstract type of
  instances; each may raise. They read the file store and do not write it.
  \<^item> \<open>create_instance y options fs template\<close> is
    \<open>create_model(y, ...).create_instance(year_template)\<close>;
  \<^item> \<open>run_cluster inst max_d template options solver log fs\<close> is
    \<open>ClusterRun(InstanceCluster(inst, max_d), ...).run_cluster().data\<close>, each entry
    reduced to its \<open>'solution'\<close>;
  \<^item> \<open>set_var inst name (z, n) v\<close> is the assignment \<open>inst.name[z, n] = v\<close>, and
    \<open>fix_var inst name\<close> is \<open>inst.name.fix()\<close>;
  \<^item> \<open>opt_solve solver inst log\<close> is \<open>SolverFactory(solver).solve(inst, ...)\<close>;
  \<^item> \<open>sets_of\<close>, \<open>params_of\<close>, \<open>vars_of\<close>, \<open>srmc_of\<close> and \<open>objective_of\<close>
    evaluate the entries of the dict literal of \<open>jsonify\<close>, and \<open>optional_param\<close> is
    \<open>hasattr\<close> with the entry it adds;
  \<^item> \<open>carry_forward_of\<close> evaluates the dict of \<open>json_carry_forward_cap\<close>.
\<close>

record 'inst external =
  create_instance :: "int \<Rightarrow> (string \<times> bool) list \<Rightarrow> filesys \<Rightarrow> string \<Rightarrow> error + 'inst"
  run_cluster ::
    "'inst \<Rightarrow> int \<Rightarrow> string \<Rightarrow> (string \<times> bool) list \<Rightarrow> string \<Rightarrow> bool \<Rightarrow> filesys
       \<Rightarrow> error + (string \<times> rat) list"
  inst_zones :: "'inst \<Rightarrow> int list"
  gen_tech_per_zone :: "'inst \<Rightarrow> int \<Rightarrow> int list"
  stor_tech_per_zone :: "'inst \<Rightarrow> int \<Rightarrow> int list"
  hyb_tech_per_zone :: "'inst \<Rightarrow> int \<Rightarrow> int list"
  retire_gen_tech_per_zone :: "'inst \<Rightarrow> int \<Rightarrow> int list"
  set_var :: "'inst \<Rightarrow> string \<Rightarrow> int \<times> int \<Rightarrow> rat \<Rightarrow> error + 'inst"
  fix_var :: "'inst \<Rightarrow> string \<Rightarrow> 'inst"
  opt_solve :: "string \<Rightarrow> 'inst \<Rightarrow> bool \<Rightarrow> error + 'inst"
  sets_of :: "'inst \<Rightarrow> error + (string \<times> json) list"
  params_of :: "'inst \<Rightarrow> error + (string \<times> json) list"
  vars_of :: "'inst \<Rightarrow> error + (string \<times> json) list"
  srmc_of :: "'inst \<Rightarrow> error + json"
  objective_of :: "'inst \<Rightarrow> error + json"
  optional_param :: "'inst \<Rightarrow> string \<Rightarrow> (string \<times> json) option"
  carry_forward_of :: "'inst \<Rightarrow> error + json"
  printstats :: "'inst \<Rightarrow> error + unit"

subsection \<open>\<open>setinstancecapacity\<close>\<close>

fun fold_result :: "('a \<Rightarrow> 's \<Rightarrow> error + 's) \<Rightarrow> 'a list \<Rightarrow> 's \<Rightarrow> error + 's" where
  "fold_result f [] s = Inr s"
| "fold_result f (x # xs) s = and_then (f x s) (\<lambda>s'. fold_result f xs s')"

definition cluster_solution :: "(string \<times> rat) list \<Rightarrow> string \<Rightarrow> error + rat" where
  "cluster_solution data key =
     (case map_of data key of None \<Rightarrow> Inl (KeyError key) | Some v \<Rightarrow> Inr v)"

definition set_capacity ::
  "'inst external \<Rightarrow> (string \<times> rat) list \<Rightarrow> string \<Rightarrow> int \<Rightarrow> int \<Rightarrow> 'inst \<Rightarrow> error + 'inst" where
  "set_capacity ext data name z n inst =
     (let key = str_int z @ '','' @ str_int n in
      and_then (cluster_solution data (name @ ''['' @ key @ '']'')) (\<lambda>v.
      and_then (roundup v) (\<lambda>r. set_var ext inst name (z, n) r)))"

definition setinstancecapacity ::
  "'inst external \<Rightarrow> 'inst \<Rightarrow> (string \<times> rat) list \<Rightarrow> error + 'inst" where
  "setinstancecapacity ext instance data =
     and_then
       (fold_result
          (\<lambda>z inst.
             and_then (fold_result (set_capacity ext data ''gen_cap_new'' z)
                         (gen_tech_per_zone ext instance z) inst) (\<lambda>inst.
             and_then (fold_result (set_capacity ext data ''stor_cap_new'' z)
                         (stor_tech_per_zone ext instance z) inst) (\<lambda>inst.
             and_then (fold_result (set_capacity ext data ''hyb_cap_new'' z)
                         (hyb_tech_per_zone ext instance z) inst) (\<lambda>inst.
             fold_result (set_capacity ext data ''gen_cap_ret'' z)
               (retire_gen_tech_per_zone ext instance z) inst))))
          (inst_zones ext instance) instance)
       (\<lambda>inst.
          Inr (fix_var ext (fix_var ext (fix_var ext (fix_var ext inst ''gen_cap_new'')
                 ''stor_cap_new'') ''hyb_cap_new'') ''gen_cap_ret''))"

subsection \<open>\<open>jsonify\<close>\<close>

text \<open>\<open>out['params'].update({name: value})\<close> on the dict under construction.\<close>

definition update_params :: "(string \<times> json) list \<Rightarrow> string \<times> json \<Rightarrow> (string \<times> json) list" where
  "update_params out kv =
     (case map_of out ''params'' of
        Some (JDict ps) \<Rightarrow> AList.update ''params'' (JDict (AList.update (fst kv) (snd kv) ps)) out
      | _ \<Rightarrow> out)"

definition add_optional ::
  "'inst external \<Rightarrow> 'inst \<Rightarrow> string \<Rightarrow> (string \<times> json) list \<Rightarrow> (string \<times> json) list" where
  "add_optional ext inst name out =
     (case optional_param ext inst name of None \<Rightarrow> out | Some kv \<Rightarrow> update_params out kv)"

definition jsonify :: "'inst external \<Rightarrow> 'inst \<Rightarrow> error + json" where
  "jsonify ext inst =
     and_then (sets_of ext inst) (\<lambda>v_sets.
     and_then (params_of ext inst) (\<lambda>v_params.
     and_then (vars_of ext inst) (\<lambda>v_vars.
     and_then (srmc_of ext inst) (\<lambda>v_srmc.
     and_then (objective_of ext inst) (\<lambda>v_objective.
       let out = [(''sets'', JDict v_sets),
                  (''params'', JDict v_params),
                  (''vars'', JDict v_vars),
                  (''duals'', JDict [(''srmc'', v_srmc)]),
                  (''objective_value'', v_objective)];
           out = add_optional ext inst ''nem_year_emit_limit'' out;
           out = add_optional ext inst ''nem_ret_ratio'' out;
           out = add_optional ext inst ''nem_ret_gwh'' out;
           out = add_optional ext inst ''region_ret_ratio'' out;
           out = add_optional ext inst ''nem_disp_ratio'' out;
           out = add_optional ext inst ''nem_re_disp_ratio'' out
       in Inr (JDict out))))))"

definition json_carry_forward_cap :: "'inst external \<Rightarrow> 'inst \<Rightarrow> error + json" where
  "json_carry_forward_cap ext inst = carry_forward_of ext inst"

subsection \<open>The file store and its writes\<close>

text \<open>
  The orchestrator's only effect is on the file store. Beside the store, the model
  keeps the list of the writes made, each with the year and the kind of artifact.
\<close>

datatype event =
    TemplateWritten int string
  | CarryForwardWritten int string
  | YearResultWritten int string
  | ReportWritten string

type_synonym store = "filesys \<times> event list"

definition write_file :: "store \<Rightarrow> string \<Rightarrow> file_content \<Rightarrow> event \<Rightarrow> store" where
  "write_file st p content ev = ((fst st)(p := Some content), snd st @ [ev])"

definition read_json :: "filesys \<Rightarrow> string \<Rightarrow> error + json" where
  "read_json fs p =
     (case fs p of
        None \<Rightarrow> Inl (FileNotFoundError p)
      | Some (JsonFile j) \<Rightarrow> Inr j
      | Some _ \<Rightarrow> Inl (ExternalFailure ''json: not a JSON document''))"

subsection \<open>\<open>generate_metadata\<close> and \<open>mergejsonyears\<close>\<close>

definition json_series :: "rat list option \<Rightarrow> json" where
  "json_series series = (case series of None \<Rightarrow> JNull | Some d \<Rightarrow> JList (map JNum d))"

definition table_records :: "filesys \<Rightarrow> string option \<Rightarrow> error + json" where
  "table_records fs a =
     (case a of
        None \<Rightarrow> Inr JNull
      | Some p \<Rightarrow>
          (case fs p of
             None \<Rightarrow> Inl (FileNotFoundError p)
           | Some (CostCsv _ j) \<Rightarrow> Inr j
           | Some (CapacityCsv _ j) \<Rightarrow> Inr j
           | Some _ \<Rightarrow> Inl (ExternalFailure ''pandas: not a table'')))"

definition generate_metadata :: "filesys \<Rightarrow> solve_template \<Rightarrow> error + (string \<times> json) list" where
  "generate_metadata fs self =
     and_then (table_records fs (custom_costs self)) (\<lambda>v_custom.
     and_then (table_records fs (exogenous_capacity self)) (\<lambda>v_exogenous.
       let meta =
         [(''Name'', JStr (Name self)),
          (''Years'', JList (map JInt (Years self))),
          (''Template'', JStr (Template self)),
          (''Clustering'', JBool (cluster self)),
          (''Cluster_number'', if cluster self then JInt (cluster_max_d self) else JStr ''N/A''),
          (''Solver'', JStr (solver self)),
          (''Discount_rate'', JStr (discountrate self)),
          (''Emission_cost'', json_series (cost_emit self)),
          (''Description'', (case description self of None \<Rightarrow> JNull | Some d \<Rightarrow> JStr d)),
          (''NEM wide RET as ratio'', json_series (nem_ret_ratio self)),
          (''NEM wide RET as GWh'', json_series (nem_ret_gwh self)),
          (''Regional based RET'',
             (case region_ret_ratio self of
                None \<Rightarrow> JNull
              | Some d \<Rightarrow> JDict (map (\<lambda>(r, xs). (str_int r, JList (map JNum xs))) d))),
          (''System emission limit'', json_series (emitlimit self)),
          (''Dispatchable generation ratio '', json_series (nem_disp_ratio self)),
          (''Renewable Dispatchable generation ratio '', json_series (nem_re_disp_ratio self)),
          (''Custom costs'', v_custom),
          (''Exogenous Capacity decisions'', v_exogenous)]
       in Inr [(''meta'', JDict meta)]))"

definition report_path :: "solve_template \<Rightarrow> string" where
  "report_path self = takeWhile (\<lambda>ch. ch \<noteq> CHR ''.'') (cfgfile self) @ ''.json''"

definition mergejsonyears :: "solve_template \<Rightarrow> store \<Rightarrow> error + store" where
  "mergejsonyears self st =
     and_then (generate_metadata (fst st) self) (\<lambda>data.
     and_then
       (fold_result
          (\<lambda>y data.
             and_then (read_json (fst st) (tmpdir self @ str_int y @ ''.json'')) (\<lambda>yeardata.
               Inr (AList.update (str_int y) yeardata data)))
          (Years self) data)
       (\<lambda>data.
          Inr (write_file st (report_path self) (JsonFile (JDict data))
                 (ReportWritten (report_path self)))))"

subsection \<open>\<open>solve\<close>\<close>

text \<open>One turn of the loop over the years.\<close>

definition solve_year ::
  "'inst external \<Rightarrow> pyenv \<Rightarrow> cemo_const \<Rightarrow> solve_template \<Rightarrow> int \<Rightarrow> store \<Rightarrow> error + store" where
  "solve_year ext env c self y st =
     and_then (generateyeartemplate env c (fst st) self y False) (\<lambda>(fs1, year_template).
     let st1 = (fs1, snd st @ [TemplateWritten y year_template]) in
     and_then (create_instance ext y (model_options self) fs1 year_template) (\<lambda>inst.
     and_then
       (if cluster self
        then and_then (run_cluster ext inst (cluster_max_d self) year_template
                         (model_options self) (solver self) (log_opt self) fs1)
               (\<lambda>ccap. setinstancecapacity ext inst ccap)
        else Inr inst) (\<lambda>inst.
     and_then (opt_solve ext (solver self) inst (log_opt self)) (\<lambda>inst.
     and_then (json_carry_forward_cap ext inst) (\<lambda>opcap.
     and_then (py_getitem (Years self) (- 1)) (\<lambda>lastyear.
     let st2 = (if y \<noteq> lastyear
                then write_file st1 (tmpdir self @ ''gen_cap_op'' @ str_int y @ ''.json'')
                       (JsonFile opcap)
                       (CarryForwardWritten y (tmpdir self @ ''gen_cap_op'' @ str_int y @ ''.json''))
                else st1) in
     and_then (jsonify ext inst) (\<lambda>out.
     let st3 = write_file st2 (tmpdir self @ str_int y @ ''.json'') (JsonFile out)
                 (YearResultWritten y (tmpdir self @ str_int y @ ''.json'')) in
     and_then (printstats ext inst) (\<lambda>_. Inr st3))))))))"

definition solve ::
  "'inst external \<Rightarrow> pyenv \<Rightarrow> cemo_const \<Rightarrow> filesys \<Rightarrow> solve_template \<Rightarrow> error + store" where
  "solve ext env c fs self =
     and_then (fold_result (solve_year ext env c self) (Years self) (fs, []))
       (\<lambda>st. mergejsonyears self st)"

text \<open>The carry-forward writes of a run, in order: the year and the path of each.\<close>

fun carry_forward_writes :: "event list \<Rightarrow> (int \<times> string) list" where
  "carry_forward_writes [] = []"
| "carry_forward_writes (CarryForwardWritten y p # es) = (y, p) # carry_forward_writes es"
| "carry_forward_writes (e # es) = carry_forward_writes es"

section \<open>A small scenario\<close>

text \<open>
  A concrete environment, used to run the definitions: numbers print with one decimal,
  a table block prints one row per line, and the file system holds a scenario file, a
  two-line template, an empty template, a capacity table and two copies of one
  carry-forward artifact.
\<close>

definition example_str_num :: "rat \<Rightarrow> string" where
  "example_str_num q = str_int \<lfloor>q\<rfloor> @ ''.'' @ str_int (\<lfloor>q * 10\<rfloor> mod 10)"

definition example_rows_to_string :: "(int \<times> int \<times> rat) list \<Rightarrow> string" where
  "example_rows_to_string rows =
     join [CHR 0x0A]
       (map (\<lambda>(z, t, v). str_int z @ '' '' @ str_int t @ '' '' @ example_str_num v) rows)"

definition example_env :: pyenv where
  "example_env =
     \<lparr>py_float = (\<lambda>s. if s = ''0.05'' then Some (1 / 20) else None),
      str_num = example_str_num,
      tech_to_string =
        (\<lambda>rows. join [CHR 0x0A] (map (\<lambda>(t, v). str_int t @ '' '' @ example_str_num v) rows)),
      zonetech_to_string = example_rows_to_string,
      capacity_to_string = example_rows_to_string\<rparr>"

definition example_const :: cemo_const where
  "example_const =
     \<lparr>REGION = [1, 2], ZONE = [1, 2, 3], TECH_TYPE = [1, 2, 3, 4, 5],
      FUEL_TECH = [1, 2], COMMIT_TECH = [1], RE_GEN_TECH = [3], DISP_GEN_TECH = [1, 2],
      RE_DISP_GEN_TECH = [3], HYB_TECH = [5], GEN_TECH = [1, 2, 3], STOR_TECH = [4],
      RETIRE_TECH = [1], NOBUILD_TECH = [2]\<rparr>"

definition example_scenario :: scenario where
  "example_scenario =
     \<lparr>cfg_Name = ''example'', cfg_Years = [2022, 2020],
      cfg_nem_ret_ratio = None, cfg_nem_ret_gwh = None, cfg_region_ret_ratio = None,
      cfg_emitlimit = None, cfg_nem_disp_ratio = None, cfg_nem_re_disp_ratio = None,
      cfg_discountrate = ''0.05'', cfg_cost_emit = None, cfg_Description = None,
      cfg_Template = ''template.dat'', cfg_custom_costs = None,
      cfg_exogenous_capacity = None, cfg_cluster = False, cfg_cluster_sets = 6,
      cfg_regions = None, cfg_zones = None, cfg_all_tech = None,
      cfg_all_tech_per_zone = [(1, [1, 3]), (2, [4]), (3, [])]\<rparr>"

definition example_capacity :: "exo_row list" where
  "example_capacity =
     [\<lparr>exo_name = ''gen_cap_exo'', exo_tech = 1, exo_zone = 1, exo_year = 2020, exo_value = 100\<rparr>,
      \<lparr>exo_name = ''gen_cap_exo'', exo_tech = 3, exo_zone = 2, exo_year = 2021, exo_value = 50\<rparr>]"

definition example_fs :: "scenario \<Rightarrow> filesys" where
  "example_fs sc =
     (\<lambda>p. if p = ''scenario.cfg'' then Some (ScenarioFile sc)
          else if p = ''template.dat'' then Some (TextFile (''#year XXXX'' @ [CHR 0x0A] @ ''[carryforwardcap]'' @ [CHR 0x0A]))
          else if p = ''empty.dat'' then Some (TextFile [])
          else if p = ''capacity.csv'' then Some (CapacityCsv example_capacity JNull)
          else if p = ''/tmp/a/gen_cap_op2020.json'' \<or> p = ''/tmp/b/gen_cap_op2020.json''
          then Some (JsonFile (JDict [(''gen_cap_initial'', JList [])]))
          else None)"

definition example_init :: "scenario \<Rightarrow> string \<Rightarrow> error + solve_template" where
  "example_init sc dir =
     SolveTemplate_init example_env example_const (example_fs sc) ''scenario.cfg'' ''cbc'' False dir"

text \<open>The scenario of the policy-alignment test: two years and one series.\<close>

definition policy_scenario :: scenario where
  "policy_scenario =
     example_scenario\<lparr>cfg_Years := [2030, 2040], cfg_nem_ret_ratio := Some [1 / 10, 1 / 2]\<rparr>"

text \<open>The same scenario over a template with no line.\<close>

definition bare_scenario :: scenario where
  "bare_scenario = example_scenario\<lparr>cfg_Template := ''empty.dat''\<rparr>"

text \<open>A scenario with the capacity table as its exogenous-capacity override.\<close>

definition capacity_scenario :: scenario where
  "capacity_scenario = example_scenario\<lparr>cfg_exogenous_capacity := Some ''capacity.csv''\<rparr>"

text \<open>A scenario that lists the year 2020 twice.\<close>

definition repeated_year_scenario :: scenario where
  "repeated_year_scenario = example_scenario\<lparr>cfg_Years := [2020, 2020]\<rparr>"

text \<open>
  Collaborators that always succeed, over instances that are just the year: enough to
  run the orchestrator on the small scenario.
\<close>

definition example_external :: "int external" where
  "example_external =
     \<lparr>create_instance = (\<lambda>y opts fs template. Inr y),
      run_cluster = (\<lambda>inst d template opts sv lg fs. Inr []),
      inst_zones = (\<lambda>inst. []),
      gen_tech_per_zone = (\<lambda>inst z. []),
      stor_tech_per_zone = (\<lambda>inst z. []),
      hyb_tech_per_zone = (\<lambda>inst z. []),
      retire_gen_tech_per_zone = (\<lambda>inst z. []),
      set_var = (\<lambda>inst name zn v. Inr inst),
      fix_var = (\<lambda>inst name. inst),
      opt_solve = (\<lambda>sv inst lg. Inr inst),
      sets_of = (\<lambda>inst. Inr [(''zones'', JList [JInt 1, JInt 2, JInt 3])]),
      params_of = (\<lambda>inst. Inr [(''cost_unserved'', JInt 9800)]),
      vars_of = (\<lambda>inst. Inr [(''gen_cap_new'', JList [])]),
      srmc_of = (\<lambda>inst. Inr (JList [])),
      objective_of = (\<lambda>inst. Inr (JInt inst)),
      optional_param = (\<lambda>inst name. None),
      carry_forward_of = (\<lambda>inst. Inr (JDict [(''gen_cap_initial'', JList [])])),
      printstats = (\<lambda>inst. Inr ())\<rparr>"

section \<open>Properties of the helpers\<close>

subsection \<open>The technology list of an SQL clause\<close>

lemma inner_pairs: "foldl (\<lambda>out j. out @ [(i, j)]) acc js = acc @ map (\<lambda>j. (i, j)) js"
  by (induction js arbitrary: acc) auto

lemma outer_pairs:
  "foldl (\<lambda>out (i, js). foldl (\<lambda>out j. out @ [(i, j)]) out js) acc ts
     = acc @ concat (map (\<lambda>(i, js). map (\<lambda>j. (i, j)) js) ts)"
  by (induction ts arbitrary: acc) (auto simp: inner_pairs)

lemma techset_pairs_eq:
  "techset_pairs ts = concat (map (\<lambda>(i, js). map (\<lambda>j. (i, j)) js) ts)"
  by (simp add: techset_pairs_def outer_pairs)

lemma techset_pairs_empty_iff: "techset_pairs ts = [] \<longleftrightarrow> (\<forall>p \<in> set ts. snd p = [])"
  by (auto simp: techset_pairs_eq)

lemma str_tuple_99: "str_tuple (99, 99) = ''(99, 99)''"
  by code_simp

text \<open>
  Claim C9. When every zone of the technology set has an empty list (or there is no zone
  at all), \<open>sqllist\<close> returns the placeholder text \<open>((99, 99))\<close>, which keeps the SQL
  clause well formed. When some zone has a technology, the result is the parenthesised,
  comma-separated list of exactly the (zone, technology) pairs, zones in the order of the
  mapping and technologies in the order of each zone's list, and no placeholder is added.
\<close>

theorem sqllist_placeholder:
  "((\<forall>p \<in> set techset. snd p = []) \<longrightarrow> sqllist techset = ''((99, 99))'') \<and>
   ((\<exists>p \<in> set techset. snd p \<noteq> []) \<longrightarrow>
      sqllist techset =
        ''('' @ join '', '' (map str_tuple (concat (map (\<lambda>(i, js). map (\<lambda>j. (i, j)) js) techset))) @ '')'')"
proof (intro conjI impI)
  assume "\<forall>p \<in> set techset. snd p = []"
  then have "techset_pairs techset = []" by (simp add: techset_pairs_empty_iff)
  then show "sqllist techset = ''((99, 99))''"
    by (simp add: sqllist_def str_tuple_99)
next
  assume "\<exists>p \<in> set techset. snd p \<noteq> []"
  then have "techset_pairs techset \<noteq> []" by (simp add: techset_pairs_empty_iff)
  then show "sqllist techset =
        ''('' @ join '', '' (map str_tuple (concat (map (\<lambda>(i, js). map (\<lambda>j. (i, j)) js) techset))) @ '')''"
    unfolding sqllist_def Let_def techset_pairs_eq [symmetric] by simp
qed

theorem sqllist_placeholder_witness:
  "sqllist [(1, []), (2, [])] = ''((99, 99))'' \<and>
   sqllist [(1, [2, 3]), (4, []), (5, [6])] = ''((1, 2), (1, 3), (5, 6))''"
proof -
  have a: "\<forall>p \<in> set [(1::int, []::int list), (2, [])]. snd p = []" by simp
  have b: "\<exists>p \<in> set [(1::int, [2, 3::int]), (4, []), (5, [6])]. snd p \<noteq> []" by simp
  have c: "''('' @ join '', '' (map str_tuple (concat (map (\<lambda>(i, js). map (\<lambda>j. (i, j)) js)
              [(1::int, [2, 3::int]), (4, []), (5, [6])]))) @ '')'' = ''((1, 2), (1, 3), (5, 6))''"
    by code_simp
  from sqllist_placeholder [of "[(1, []), (2, [])]"] a
  have 1: "sqllist [(1, []), (2, [])] = ''((99, 99))''" by blast
  from sqllist_placeholder [of "[(1, [2, 3]), (4, []), (5, [6])]"] b
  have 2: "sqllist [(1, [2, 3]), (4, []), (5, [6])] =
     ''('' @ join '', '' (map str_tuple (concat (map (\<lambda>(i, js). map (\<lambda>j. (i, j)) js)
              [(1::int, [2, 3::int]), (4, []), (5, [6])]))) @ '')''" by blast
  from 1 2 c show ?thesis by simp
qed

subsection \<open>The rounding policy\<close>

lemma rhe_near: "\<bar>of_int (round_half_even q) - q\<bar> \<le> 1 / 2"
proof -
  have "of_int \<lfloor>q\<rfloor> \<le> q" "q < of_int \<lfloor>q\<rfloor> + 1" by linarith+
  then show ?thesis by (auto simp: round_half_even_def Let_def)
qed

lemma rhe_nonpos: "q \<le> 0 \<Longrightarrow> round_half_even q \<le> 0"
proof -
  assume q: "q \<le> 0"
  have fl: "of_int \<lfloor>q\<rfloor> \<le> q" "q < of_int \<lfloor>q\<rfloor> + 1" by linarith+
  have f0: "\<lfloor>q\<rfloor> \<le> 0" using q by (simp add: floor_le_zero)
  show ?thesis
  proof (cases "\<lfloor>q\<rfloor> = 0")
    case True
    with fl q have "q = 0" by simp
    then show ?thesis by (simp add: round_half_even_def)
  next
    case False
    with f0 have "\<lfloor>q\<rfloor> + 1 \<le> 0" by linarith
    then show ?thesis using f0 by (auto simp: round_half_even_def Let_def)
  qed
qed

lemma rhe_neg: "q < - (1 / 2) \<Longrightarrow> round_half_even q < 0"
proof -
  assume q: "q < - (1 / 2)"
  have n: "\<bar>of_int (round_half_even q) - q\<bar> \<le> 1 / 2" by (rule rhe_near)
  then have "(of_int (round_half_even q) :: rat) < 0" using q by linarith
  then show ?thesis by simp
qed

text \<open>
  Between \<open>-0.005\<close> and \<open>-1e-6\<close> the rounding to two decimals gives zero, although
  the guard of \<open>roundup\<close> stops at \<open>-1e-6\<close>.
\<close>

lemma roundup_small_negative_zeroed: "roundup (- (1 / 100000)) = Inr 0"
  by code_simp

text \<open>
  Claim C1, as amended. \<open>roundup(-0.0000005) = 0\<close>, \<open>roundup(0) = 0\<close> and
  \<open>roundup(1.2345) = 1.23\<close>. For every \<open>x < -0.005\<close> the function raises nothing: it
  lets the value pass, rounded to two decimals, as a strictly negative multiple of 0.01
  within 0.005 of \<open>x\<close>. Nothing is said of the inputs between \<open>-0.005\<close> and \<open>-1e-6\<close>.
\<close>

theorem roundup_policy:
  assumes "x < - (1 / 200)"
  shows "roundup (- (5 / 10000000)) = Inr 0 \<and> roundup 0 = Inr 0 \<and>
         roundup (12345 / 10000) = Inr (123 / 100) \<and>
         (\<exists>k. roundup x = Inr (of_int k / 100) \<and> k < 0 \<and>
              \<bar>of_int k / 100 - x\<bar> \<le> 1 / 200)"
proof -
  have 1: "roundup (- (5 / 10000000)) = Inr 0" by code_simp
  have 2: "roundup 0 = Inr 0" by code_simp
  have 3: "roundup (12345 / 10000) = Inr (123 / 100)" by code_simp
  define k where "k = round_half_even (x * 100)"
  have 4: "roundup x = Inr (of_int k / 100)"
    using assms by (simp add: roundup_def py_round2_def k_def)
  have "x * 100 < - (1 / 2)" using assms by simp
  then have 5: "k < 0" unfolding k_def by (rule rhe_neg)
  have "\<bar>of_int k - x * 100\<bar> \<le> 1 / 2" unfolding k_def by (rule rhe_near)
  then have 6: "\<bar>of_int k / 100 - x\<bar> \<le> 1 / 200"
    by (simp add: abs_le_iff field_simps)
  from 1 2 3 4 5 6 show ?thesis by blast
qed

theorem roundup_policy_witness:
  "(- 5 :: rat) < - (1 / 200) \<and> (\<exists>k. roundup (- 5) = Inr (of_int k / 100) \<and> k < 0)"
proof -
  have h: "(- 5 :: rat) < - (1 / 200)" by simp
  from roundup_policy [OF h] show ?thesis using h by auto
qed

text \<open>
  Claim C1 as first stated says that \<open>roundup\<close> raises for every \<open>x \<le> -1e-6\<close>.
  At \<open>-5\<close> it returns \<open>-5\<close>.
\<close>

theorem roundup_raises_counterexample:
  "(- 5 :: rat) \<le> - (1 / 1000000) \<and> \<not> isl (roundup (- 5)) \<and> roundup (- 5) = Inr (- 5)"
  by code_simp

section \<open>Properties of the configuration model\<close>

lemma and_then_Inr_iff: "and_then m f = Inr r \<longleftrightarrow> (\<exists>v. m = Inr v \<and> f v = Inr r)"
  by (cases m) (simp_all add: and_then_def)

lemma fold_max_Max: "fold max xs x = Max (set (x # xs))"
  by (simp only: Max.set_eq_fold)

lemma fold_min_Min: "fold min xs x = Min (set (x # xs))"
  by (simp only: Min.set_eq_fold)

lemma py_max_Inr_iff: "py_max y = Inr m \<longleftrightarrow> y \<noteq> [] \<and> m = Max (set y)"
  by (cases y) (auto simp: py_max_def fold_max_Max simp del: set_simps)

lemma py_min_Inr_iff: "py_min y = Inr m \<longleftrightarrow> y \<noteq> [] \<and> m = Min (set y)"
  by (cases y) (auto simp: py_min_def fold_min_Min simp del: set_simps)

lemma Years_setter_Inr_iff:
  "Years_setter y = Inr ys \<longleftrightarrow>
     y \<noteq> [] \<and> (\<forall>v \<in> set y. 2018 \<le> v \<and> v \<le> 2050) \<and> ys = sort y"
  by (auto simp: Years_setter_def and_then_Inr_iff py_max_Inr_iff py_min_Inr_iff
      not_less Min_ge_iff Max_le_iff Min_less_iff Max_gr_iff split: if_splits) force+

lemma init_Inr_D:
  assumes "SolveTemplate_init env c fs cfg sv lg td = Inr self"
  shows "\<exists>config. fs cfg = Some (ScenarioFile config) \<and>
     Years_setter (cfg_Years config) = Inr (Years self) \<and>
     nem_ret_ratio_setter (Years self) (cfg_nem_ret_ratio config) = Inr (nem_ret_ratio self) \<and>
     nem_ret_gwh_setter (Years self) (cfg_nem_ret_gwh config) = Inr (nem_ret_gwh self) \<and>
     region_ret_ratio_setter (Years self) (map_option py_dict (cfg_region_ret_ratio config))
       = Inr (region_ret_ratio self) \<and>
     emitlimit_setter (Years self) (cfg_emitlimit config) = Inr (emitlimit self) \<and>
     nem_disp_ratio_setter (Years self) (cfg_nem_disp_ratio config) = Inr (nem_disp_ratio self) \<and>
     nem_re_disp_ratio_setter (Years self) (cfg_nem_re_disp_ratio config)
       = Inr (nem_re_disp_ratio self) \<and>
     discountrate_setter env (cfg_discountrate config) = Inr (discountrate self) \<and>
     cost_emit_setter (Years self) (cfg_cost_emit config) = Inr (cost_emit self) \<and>
     Template_setter fs (cfg_Template config) = Inr (Template self) \<and>
     custom_costs_setter fs (cfg_custom_costs config) = Inr (custom_costs self) \<and>
     exogenous_capacity_setter fs (cfg_exogenous_capacity config) = Inr (exogenous_capacity self) \<and>
     tmpdir self = td \<and> cfgfile self = cfg"
  using assms
  by (auto simp: SolveTemplate_init_def and_then_Inr_iff tracetechs_def
      split: option.splits file_content.splits)

lemma region_check_Inr:
  "region_ret_ratio_check years d = Inr u \<Longrightarrow> \<forall>p \<in> set d. length (snd p) = length years"
  by (induction years d rule: region_ret_ratio_check.induct) (auto split: if_splits)

lemma length_sort_years: "Years_setter y = Inr ys \<Longrightarrow> length ys = length y"
  by (simp add: Years_setter_Inr_iff)

lemma series_setter_lengths:
  "cost_emit_setter ys (Some d) = Inr v \<Longrightarrow> length d = length ys"
  "nem_ret_ratio_setter ys (Some d) = Inr v \<Longrightarrow> length d = length ys"
  "nem_ret_gwh_setter ys (Some d) = Inr v \<Longrightarrow> length d = length ys"
  "emitlimit_setter ys (Some d) = Inr v \<Longrightarrow> length d = length ys"
  "nem_disp_ratio_setter ys (Some d) = Inr v \<Longrightarrow> length d = length ys"
  "nem_re_disp_ratio_setter ys (Some d) = Inr v \<Longrightarrow> length d = length ys"
  by (auto simp: cost_emit_setter_def nem_ret_ratio_setter_def nem_ret_gwh_setter_def
      emitlimit_setter_def nem_disp_ratio_setter_def nem_re_disp_ratio_setter_def
      split: if_splits)

lemma region_setter_lengths:
  "region_ret_ratio_setter ys (Some d) = Inr v \<Longrightarrow> \<forall>p \<in> set d. length (snd p) = length ys"
  by (auto simp: region_ret_ratio_setter_def and_then_Inr_iff dest: region_check_Inr)

text \<open>
  Claim C5. When the constructor accepts a scenario, the stored \<open>Years\<close> is the input
  list sorted ascending (a permutation of the input, duplicates kept), and every year
  lies between 2018 and 2050. When some input year lies outside that range, the
  constructor raises and returns no object, so no solve can start.
\<close>

theorem Years_sorted_in_range:
  assumes "fs cfg = Some (ScenarioFile config)"
  shows "(SolveTemplate_init env c fs cfg sv lg td = Inr self \<longrightarrow>
            Years self = sort (cfg_Years config) \<and> sorted (Years self) \<and>
            mset (Years self) = mset (cfg_Years config) \<and>
            (\<forall>y \<in> set (Years self). 2018 \<le> y \<and> y \<le> 2050)) \<and>
         ((\<exists>y \<in> set (cfg_Years config). y < 2018 \<or> 2050 < y) \<longrightarrow>
            (\<exists>e. SolveTemplate_init env c fs cfg sv lg td = Inl e))"
proof (intro conjI impI)
  assume ok: "SolveTemplate_init env c fs cfg sv lg td = Inr self"
  from init_Inr_D [OF ok] assms
  have "Years_setter (cfg_Years config) = Inr (Years self)" by auto
  then have y: "Years self = sort (cfg_Years config)"
    and r: "\<forall>v \<in> set (cfg_Years config). 2018 \<le> v \<and> v \<le> 2050"
    by (simp_all add: Years_setter_Inr_iff)
  from y show "Years self = sort (cfg_Years config)" .
  from y show "sorted (Years self)" by simp
  from y show "mset (Years self) = mset (cfg_Years config)" by simp
  from y r show "\<forall>y \<in> set (Years self). 2018 \<le> y \<and> y \<le> 2050" by simp
next
  assume bad: "\<exists>y \<in> set (cfg_Years config). y < 2018 \<or> 2050 < y"
  show "\<exists>e. SolveTemplate_init env c fs cfg sv lg td = Inl e"
  proof (cases "SolveTemplate_init env c fs cfg sv lg td")
    case (Inl e)
    then show ?thesis by blast
  next
    case (Inr self')
    from init_Inr_D [OF Inr] assms
    have "Years_setter (cfg_Years config) = Inr (Years self')" by auto
    then have "\<forall>v \<in> set (cfg_Years config). 2018 \<le> v \<and> v \<le> 2050"
      by (simp add: Years_setter_Inr_iff)
    with bad show ?thesis by force
  qed
qed

lemma example_fs_cfg: "example_fs sc ''scenario.cfg'' = Some (ScenarioFile sc)"
  by (simp add: example_fs_def)

lemma example_init_ok: "\<not> isl (example_init example_scenario ''/tmp/'')"
  by code_simp

theorem Years_sorted_in_range_witness:
  "(\<exists>self. example_init example_scenario ''/tmp/'' = Inr self \<and> Years self = [2020, 2022]) \<and>
   (\<exists>e. example_init (example_scenario\<lparr>cfg_Years := [2020, 2051]\<rparr>) ''/tmp/'' = Inl e)"
proof -
  obtain self where s: "example_init example_scenario ''/tmp/'' = Inr self"
    using example_init_ok by (cases "example_init example_scenario ''/tmp/''") auto
  have srt: "sort (cfg_Years example_scenario) = [2020, 2022]"
    by (simp add: example_scenario_def)
  from Years_sorted_in_range [where fs = "example_fs example_scenario" and cfg = "''scenario.cfg''"
      and config = example_scenario and env = example_env and c = example_const
      and sv = "''cbc''" and lg = False and td = "''/tmp/''" and self = self] s srt
  have 1: "Years self = [2020, 2022]" by (simp add: example_init_def example_fs_cfg)
  have bad: "\<exists>y \<in> set (cfg_Years (example_scenario\<lparr>cfg_Years := [2020, 2051]\<rparr>)). y < 2018 \<or> 2050 < y"
    by simp
  from Years_sorted_in_range [where fs = "example_fs (example_scenario\<lparr>cfg_Years := [2020, 2051]\<rparr>)"
      and cfg = "''scenario.cfg''" and config = "example_scenario\<lparr>cfg_Years := [2020, 2051]\<rparr>"
      and env = example_env and c = example_const
      and sv = "''cbc''" and lg = False and td = "''/tmp/''"] bad
  have 2: "\<exists>e. example_init (example_scenario\<lparr>cfg_Years := [2020, 2051]\<rparr>) ''/tmp/'' = Inl e"
    unfolding example_init_def using example_fs_cfg by blast
  from s 1 2 show ?thesis by blast
qed

text \<open>
  Claim C10. With an empty list of years the constructor raises: \<open>max\<close> of the empty
  list fails before anything is stored. Hence every constructed object has at least one
  year.
\<close>

theorem empty_Years_raises:
  "(fs cfg = Some (ScenarioFile config) \<and> cfg_Years config = [] \<longrightarrow>
      SolveTemplate_init env c fs cfg sv lg td = Inl (ValueError ''max() arg is an empty sequence'')) \<and>
   (SolveTemplate_init env c fs cfg sv lg td = Inr self \<longrightarrow> Years self \<noteq> [])"
proof (intro conjI impI)
  assume "fs cfg = Some (ScenarioFile config) \<and> cfg_Years config = []"
  then show "SolveTemplate_init env c fs cfg sv lg td = Inl (ValueError ''max() arg is an empty sequence'')"
    by (simp add: SolveTemplate_init_def Years_setter_def py_max_def and_then_def)
next
  assume ok: "SolveTemplate_init env c fs cfg sv lg td = Inr self"
  from init_Inr_D [OF ok] obtain config' :: scenario where
    "Years_setter (cfg_Years config') = Inr (Years self)" by auto
  then have ne: "cfg_Years config' \<noteq> []" and "Years self = sort (cfg_Years config')"
    by (simp_all add: Years_setter_Inr_iff)
  then have "length (Years self) = length (cfg_Years config')" by simp
  with ne show "Years self \<noteq> []" by auto
qed

theorem empty_Years_raises_witness:
  "example_init (example_scenario\<lparr>cfg_Years := []\<rparr>) ''/tmp/''
     = Inl (ValueError ''max() arg is an empty sequence'') \<and>
   (\<exists>self. example_init example_scenario ''/tmp/'' = Inr self \<and> Years self \<noteq> [])"
proof -
  obtain self where s: "example_init example_scenario ''/tmp/'' = Inr self"
    using example_init_ok by (cases "example_init example_scenario ''/tmp/''") auto
  have h: "example_fs (example_scenario\<lparr>cfg_Years := []\<rparr>) ''scenario.cfg''
             = Some (ScenarioFile (example_scenario\<lparr>cfg_Years := []\<rparr>)) \<and>
           cfg_Years (example_scenario\<lparr>cfg_Years := []\<rparr>) = []"
    by (simp add: example_fs_cfg)
  from empty_Years_raises [of "example_fs (example_scenario\<lparr>cfg_Years := []\<rparr>)" "''scenario.cfg''"
      "example_scenario\<lparr>cfg_Years := []\<rparr>" example_env example_const "''cbc''" False "''/tmp/''"] h
  have 1: "example_init (example_scenario\<lparr>cfg_Years := []\<rparr>) ''/tmp/''
     = Inl (ValueError ''max() arg is an empty sequence'')"
    unfolding example_init_def by blast
  from empty_Years_raises [of "example_fs example_scenario" "''scenario.cfg''" example_scenario
      example_env example_const "''cbc''" False "''/tmp/''" self] s
  have 2: "Years self \<noteq> []" unfolding example_init_def by blast
  from 1 2 s show ?thesis by blast
qed

text \<open>
  Claim C6. When a per-year policy series is present in the scenario (\<open>cost_emit\<close>,
  \<open>nem_ret_ratio\<close>, \<open>nem_ret_gwh\<close>, the series of some region of
  \<open>region_ret_ratio\<close>, \<open>emitlimit\<close>, \<open>nem_disp_ratio\<close> or
  \<open>nem_re_disp_ratio\<close>) and its length differs from the number of years, the
  constructor raises, whichever series it is; it returns no object.
\<close>

theorem series_length_mismatch_raises:
  assumes "fs cfg = Some (ScenarioFile config)"
    and "(\<exists>d. cfg_cost_emit config = Some d \<and> length d \<noteq> length (cfg_Years config)) \<or>
         (\<exists>d. cfg_nem_ret_ratio config = Some d \<and> length d \<noteq> length (cfg_Years config)) \<or>
         (\<exists>d. cfg_nem_ret_gwh config = Some d \<and> length d \<noteq> length (cfg_Years config)) \<or>
         (\<exists>d r xs. cfg_region_ret_ratio config = Some d \<and> (r, xs) \<in> set (py_dict d) \<and>
                   length xs \<noteq> length (cfg_Years config)) \<or>
         (\<exists>d. cfg_emitlimit config = Some d \<and> length d \<noteq> length (cfg_Years config)) \<or>
         (\<exists>d. cfg_nem_disp_ratio config = Some d \<and> length d \<noteq> length (cfg_Years config)) \<or>
         (\<exists>d. cfg_nem_re_disp_ratio config = Some d \<and> length d \<noteq> length (cfg_Years config))"
  shows "\<exists>e. SolveTemplate_init env c fs cfg sv lg td = Inl e"
proof (cases "SolveTemplate_init env c fs cfg sv lg td")
  case (Inl e)
  then show ?thesis by blast
next
  case (Inr self)
  from init_Inr_D [OF Inr] assms(1) have
    y: "Years_setter (cfg_Years config) = Inr (Years self)" and
    s1: "nem_ret_ratio_setter (Years self) (cfg_nem_ret_ratio config) = Inr (nem_ret_ratio self)" and
    s2: "nem_ret_gwh_setter (Years self) (cfg_nem_ret_gwh config) = Inr (nem_ret_gwh self)" and
    s3: "region_ret_ratio_setter (Years self) (map_option py_dict (cfg_region_ret_ratio config))
           = Inr (region_ret_ratio self)" and
    s4: "emitlimit_setter (Years self) (cfg_emitlimit config) = Inr (emitlimit self)" and
    s5: "nem_disp_ratio_setter (Years self) (cfg_nem_disp_ratio config) = Inr (nem_disp_ratio self)" and
    s6: "nem_re_disp_ratio_setter (Years self) (cfg_nem_re_disp_ratio config)
           = Inr (nem_re_disp_ratio self)" and
    s7: "cost_emit_setter (Years self) (cfg_cost_emit config) = Inr (cost_emit self)"
    by auto
  from y have len: "length (Years self) = length (cfg_Years config)"
    by (rule length_sort_years)
  have False
    using assms(2)
  proof (elim disjE exE conjE)
    fix d assume "cfg_cost_emit config = Some d" "length d \<noteq> length (cfg_Years config)"
    with s7 len show False by (auto dest: series_setter_lengths(1))
  next
    fix d assume "cfg_nem_ret_ratio config = Some d" "length d \<noteq> length (cfg_Years config)"
    with s1 len show False by (auto dest: series_setter_lengths(2))
  next
    fix d assume "cfg_nem_ret_gwh config = Some d" "length d \<noteq> length (cfg_Years config)"
    with s2 len show False by (auto dest: series_setter_lengths(3))
  next
    fix d r xs
    assume d: "cfg_region_ret_ratio config = Some d" and m: "(r, xs) \<in> set (py_dict d)"
      and l: "length xs \<noteq> length (cfg_Years config)"
    from s3 d have "\<forall>p \<in> set (py_dict d). length (snd p) = length (Years self)"
      by (auto dest: region_setter_lengths)
    with m have "length xs = length (Years self)" by force
    with l len show False by simp
  next
    fix d assume "cfg_emitlimit config = Some d" "length d \<noteq> length (cfg_Years config)"
    with s4 len show False by (auto dest: series_setter_lengths(4))
  next
    fix d assume "cfg_nem_disp_ratio config = Some d" "length d \<noteq> length (cfg_Years config)"
    with s5 len show False by (auto dest: series_setter_lengths(5))
  next
    fix d assume "cfg_nem_re_disp_ratio config = Some d" "length d \<noteq> length (cfg_Years config)"
    with s6 len show False by (auto dest: series_setter_lengths(6))
  qed
  then show ?thesis ..
qed

theorem series_length_mismatch_raises_witness:
  "\<exists>e. example_init (example_scenario\<lparr>cfg_nem_re_disp_ratio := Some [1 / 2]\<rparr>) ''/tmp/'' = Inl e"
proof -
  have "\<exists>d. cfg_nem_re_disp_ratio (example_scenario\<lparr>cfg_nem_re_disp_ratio := Some [1 / 2]\<rparr>) = Some d
          \<and> length d \<noteq> length (cfg_Years (example_scenario\<lparr>cfg_nem_re_disp_ratio := Some [1 / 2]\<rparr>))"
    by (simp add: example_scenario_def)
  with series_length_mismatch_raises [where fs = "example_fs (example_scenario\<lparr>cfg_nem_re_disp_ratio := Some [1 / 2]\<rparr>)"
      and cfg = "''scenario.cfg''" and config = "example_scenario\<lparr>cfg_nem_re_disp_ratio := Some [1 / 2]\<rparr>"
      and env = example_env and c = example_const
      and sv = "''cbc''" and lg = False and td = "''/tmp/''"]
  show ?thesis unfolding example_init_def using example_fs_cfg by blast
qed

section \<open>Properties of the template generator\<close>

lemma index_of_Some_iff:
  "index_of x xs = Some i \<longleftrightarrow> i < length xs \<and> xs ! i = x \<and> (\<forall>j<i. xs ! j \<noteq> x)"
proof (induction xs arbitrary: i)
  case Nil
  then show ?case by simp
next
  case (Cons a xs)
  show ?case
  proof (cases "x = a")
    case True
    then show ?thesis by (cases i) auto
  next
    case False
    show ?thesis
    proof (cases i)
      case 0
      with False show ?thesis by auto
    next
      case (Suc k)
      have "(\<forall>j<Suc k. (a # xs) ! j \<noteq> x) \<longleftrightarrow> (\<forall>j<k. xs ! j \<noteq> x)"
        using False by (auto simp: less_Suc_eq_0_disj)
      with False Suc Cons.IH [of k] show ?thesis by auto
    qed
  qed
qed

lemma Years_index_Inr:
  "index_of y (Years self) = Some i \<Longrightarrow> Years_index self y = Inr i"
  by (simp add: Years_index_def)

lemma py_getitem_nat: "i < length xs \<Longrightarrow> py_getitem xs (int i) = Inr (xs ! i)"
  by (simp add: py_getitem_def Let_def)

lemma py_getitem_pred:
  "0 < i \<Longrightarrow> i < length xs \<Longrightarrow> py_getitem xs (int i - 1) = Inr (xs ! (i - 1))"
  using py_getitem_nat [of "i - 1" xs] by (simp add: of_nat_diff)

lemma py_getitem_last: "xs \<noteq> [] \<Longrightarrow> py_getitem xs (- 1) = Inr (last xs)"
  by (cases xs rule: rev_cases) (auto simp: py_getitem_def Let_def nat_add_distrib)

lemma length_str_nat_pos: "0 < length (str_nat n)"
  by (subst str_nat.simps) simp

lemma str_datetime_Inr:
  "1 \<le> y \<Longrightarrow> y \<le> 9999 \<Longrightarrow> \<exists>d. str_datetime y rest = Inr d"
  by (simp add: str_datetime_def)

lemma policy_block_None: "policy_block env self y header None = Inr []"
  by (simp add: policy_block_def)

lemma policy_block_Some:
  assumes "index_of y (Years self) = Some i" and "length d = length (Years self)"
  shows "policy_block env self y header (Some d) = Inr (header @ str_num env (d ! i) @ '';'' @ nl)"
proof -
  from assms have i: "i < length d" by (simp add: index_of_Some_iff)
  then have "d \<noteq> []" by auto
  with assms i show ?thesis
    by (simp add: policy_block_def Years_index_Inr and_then_def py_getitem_nat)
qed

lemma map_result_Inr:
  assumes "\<And>x. x \<in> set xs \<Longrightarrow> f x = Inr (g x)"
  shows "map_result f xs = Inr (map g xs)"
  using assms by (induction xs) (simp_all add: and_then_def)

lemma region_policy_block_None: "region_policy_block env self y None = Inr []"
  by (simp add: region_policy_block_def)

lemma region_policy_block_Some:
  assumes "index_of y (Years self) = Some i"
    and "\<forall>p \<in> set d. length (snd p) = length (Years self)"
  shows "region_policy_block env self y (Some d) =
     (if d = [] then Inr [] else
     Inr (nl @ '' #Regional based RET'' @ nl @ ''param region_ret_ratio := ''
          @ join '' '' (map (\<lambda>(r, xs). str_int r @ '' '' @ str_num env (xs ! i)) d) @ '';'' @ nl))"
proof -
  from assms(1) have i: "i < length (Years self)" by (simp add: index_of_Some_iff)
  have "map_result (\<lambda>(r, xs). and_then (Years_index self y) (\<lambda>k.
                                and_then (py_getitem xs (int k)) (\<lambda>v.
                                  Inr (str_int r @ '' '' @ str_num env v)))) d
        = Inr (map (\<lambda>(r, xs). str_int r @ '' '' @ str_num env (xs ! i)) d)"
  proof (rule map_result_Inr)
    fix x assume "x \<in> set d"
    with assms(2) i have "i < length (snd x)" by auto
    then show "(case x of (r, xs) \<Rightarrow> and_then (Years_index self y) (\<lambda>k.
                                and_then (py_getitem xs (int k)) (\<lambda>v.
                                  Inr (str_int r @ '' '' @ str_num env v))))
               = Inr (case x of (r, xs) \<Rightarrow> str_int r @ '' '' @ str_num env (xs ! i))"
      using assms(1)
      by (cases x) (simp add: Years_index_Inr and_then_def py_getitem_nat)
  qed
  then show ?thesis
    by (simp add: region_policy_block_def and_then_def)
qed

lemma series_setter_value:
  "cost_emit_setter ys d = Inr v \<Longrightarrow> v = d"
  "nem_ret_ratio_setter ys d = Inr v \<Longrightarrow> v = d"
  "nem_ret_gwh_setter ys d = Inr v \<Longrightarrow> v = d"
  "emitlimit_setter ys d = Inr v \<Longrightarrow> v = d"
  "nem_disp_ratio_setter ys d = Inr v \<Longrightarrow> v = d"
  "nem_re_disp_ratio_setter ys d = Inr v \<Longrightarrow> v = d"
  "region_ret_ratio_setter ys rd = Inr rv \<Longrightarrow> rv = rd"
  by (auto simp: cost_emit_setter_def nem_ret_ratio_setter_def nem_ret_gwh_setter_def
      emitlimit_setter_def nem_disp_ratio_setter_def nem_re_disp_ratio_setter_def
      region_ret_ratio_setter_def and_then_Inr_iff
      split: if_splits option.splits)

lemma init_series_lengths:
  assumes "SolveTemplate_init env c fs cfg sv lg td = Inr self"
  shows "cost_emit self = Some d \<Longrightarrow> length d = length (Years self)"
    and "nem_ret_ratio self = Some d \<Longrightarrow> length d = length (Years self)"
    and "nem_ret_gwh self = Some d \<Longrightarrow> length d = length (Years self)"
    and "emitlimit self = Some d \<Longrightarrow> length d = length (Years self)"
    and "nem_disp_ratio self = Some d \<Longrightarrow> length d = length (Years self)"
    and "nem_re_disp_ratio self = Some d \<Longrightarrow> length d = length (Years self)"
    and "region_ret_ratio self = Some rd \<Longrightarrow> \<forall>p \<in> set rd. length (snd p) = length (Years self)"
proof -
  from init_Inr_D [OF assms] obtain config :: scenario where
    s1: "nem_ret_ratio_setter (Years self) (cfg_nem_ret_ratio config) = Inr (nem_ret_ratio self)" and
    s2: "nem_ret_gwh_setter (Years self) (cfg_nem_ret_gwh config) = Inr (nem_ret_gwh self)" and
    s3: "region_ret_ratio_setter (Years self) (map_option py_dict (cfg_region_ret_ratio config))
           = Inr (region_ret_ratio self)" and
    s4: "emitlimit_setter (Years self) (cfg_emitlimit config) = Inr (emitlimit self)" and
    s5: "nem_disp_ratio_setter (Years self) (cfg_nem_disp_ratio config) = Inr (nem_disp_ratio self)" and
    s6: "nem_re_disp_ratio_setter (Years self) (cfg_nem_re_disp_ratio config)
           = Inr (nem_re_disp_ratio self)" and
    s7: "cost_emit_setter (Years self) (cfg_cost_emit config) = Inr (cost_emit self)"
    by auto
  show "cost_emit self = Some d \<Longrightarrow> length d = length (Years self)"
    using s7 series_setter_value(1) [OF s7] by (auto dest: series_setter_lengths(1))
  show "nem_ret_ratio self = Some d \<Longrightarrow> length d = length (Years self)"
    using s1 series_setter_value(2) [OF s1] by (auto dest: series_setter_lengths(2))
  show "nem_ret_gwh self = Some d \<Longrightarrow> length d = length (Years self)"
    using s2 series_setter_value(3) [OF s2] by (auto dest: series_setter_lengths(3))
  show "emitlimit self = Some d \<Longrightarrow> length d = length (Years self)"
    using s4 series_setter_value(4) [OF s4] by (auto dest: series_setter_lengths(4))
  show "nem_disp_ratio self = Some d \<Longrightarrow> length d = length (Years self)"
    using s5 series_setter_value(5) [OF s5] by (auto dest: series_setter_lengths(5))
  show "nem_re_disp_ratio self = Some d \<Longrightarrow> length d = length (Years self)"
    using s6 series_setter_value(6) [OF s6] by (auto dest: series_setter_lengths(6))
  show "region_ret_ratio self = Some rd \<Longrightarrow> \<forall>p \<in> set rd. length (snd p) = length (Years self)"
  proof -
    assume a: "region_ret_ratio self = Some rd"
    with s3 series_setter_value(7) [OF s3]
    have "region_ret_ratio_setter (Years self) (Some rd) = Inr (Some rd)" by simp
    then show ?thesis by (rule region_setter_lengths)
  qed
qed

lemma init_Years_range:
  assumes "SolveTemplate_init env c fs cfg sv lg td = Inr self"
  shows "Years self \<noteq> []" and "\<forall>v \<in> set (Years self). 2018 \<le> v \<and> v \<le> 2050"
    and "sorted (Years self)"
proof -
  from init_Inr_D [OF assms] obtain config :: scenario where
    "Years_setter (cfg_Years config) = Inr (Years self)" by auto
  then have ne: "cfg_Years config \<noteq> []" and y: "Years self = sort (cfg_Years config)"
    and r: "\<forall>v \<in> set (cfg_Years config). 2018 \<le> v \<and> v \<le> 2050"
    by (simp_all add: Years_setter_Inr_iff)
  from y have "length (Years self) = length (cfg_Years config)" by simp
  with ne show "Years self \<noteq> []" by auto
  from y r show "\<forall>v \<in> set (Years self). 2018 \<le> v \<and> v \<le> 2050" by simp
  from y show "sorted (Years self)" by simp
qed

lemma policy_block_entry:
  assumes "index_of y (Years self) = Some i"
    and "\<And>d. series = Some d \<Longrightarrow> length d = length (Years self)"
  shows "policy_block env self y header series =
           Inr (case series of None \<Rightarrow> [] | Some d \<Rightarrow> header @ str_num env (d ! i) @ '';'' @ nl)"
  using assms by (cases series) (simp_all add: policy_block_None policy_block_Some)

lemma carryforwardcap_Inr:
  assumes "index_of y (Years self) = Some i"
  shows "\<exists>t. carryforwardcap self y = Inr t"
proof -
  from assms have "i < length (Years self)" by (simp add: index_of_Some_iff)
  with assms show ?thesis
    by (cases "i = 0") (simp_all add: carryforwardcap_def Years_index_Inr and_then_def py_getitem_pred)
qed

lemma carry_forward_cap_costs_eq:
  assumes "index_of y (Years self) = Some i"
  shows "carry_forward_cap_costs self y =
     Inr (if i \<noteq> 0 then ''#Carry forward annualised capital costs'' @ nl
                @ ''load '' @ sq @ tmpdir self @ ''gen_cap_op'' @ str_int (Years self ! (i - 1))
                @ ''.json'' @ sq @ '' : cost_cap_carry_forward;'' @ nl
          else [])"
proof -
  from assms have "i < length (Years self)" by (simp add: index_of_Some_iff)
  with assms show ?thesis
    by (cases "i = 0") (simp_all add: carry_forward_cap_costs_def Years_index_Inr and_then_def py_getitem_pred)
qed

lemma produce_custom_costs_Inr:
  assumes "custom_costs self = None \<or> (\<exists>p t j. custom_costs self = Some p \<and> fs p = Some (CostCsv t j))"
  shows "\<exists>t. produce_custom_costs env fs self y = Inr t"
  using assms
  by (auto simp: produce_custom_costs_def read_cost_csv_def and_then_def Let_def)

lemma produce_exogenous_capacity_Inr:
  assumes "index_of y (Years self) = Some i"
    and "exogenous_capacity self = None \<or>
         (\<exists>p t j. exogenous_capacity self = Some p \<and> fs p = Some (CapacityCsv t j))"
  shows "\<exists>t. produce_exogenous_capacity env fs self y = Inr t"
proof -
  from assms(1) have i: "i < length (Years self)" by (simp add: index_of_Some_iff)
  then have ne: "Years self \<noteq> []" by auto
  have "\<exists>v. py_getitem (Years self) (int i - 1) = Inr v"
  proof (cases "i = 0")
    case True
    with ne show ?thesis by (simp add: py_getitem_last)
  next
    case False
    with i show ?thesis by (simp add: py_getitem_pred)
  qed
  with assms show ?thesis
    by (auto simp: produce_exogenous_capacity_def read_capacity_csv_def and_then_def
        Years_index_Inr)
qed

lemma prevyear_Inr:
  assumes "index_of y (Years self) = Some i"
  shows "\<exists>v. (if i = 0 then Inr 2017 else py_getitem (Years self) (int i - 1)) = Inr v"
proof -
  from assms have "i < length (Years self)" by (simp add: index_of_Some_iff)
  then show ?thesis by (cases "i = 0") (simp_all add: py_getitem_pred)
qed

lemma template_text_shape:
  assumes init: "SolveTemplate_init env c fs0 cfg sv lg td = Inr self"
    and i: "i < length (Years self)" "Years self ! i = y" "\<forall>j<i. Years self ! j \<noteq> y"
    and tpl: "fs (Template self) = Some (TextFile tpl)"
    and cc: "custom_costs self = None \<or>
             (\<exists>p t j. custom_costs self = Some p \<and> fs p = Some (CostCsv t j))"
    and ex: "exogenous_capacity self = None \<or>
             (\<exists>p t j. exogenous_capacity self = Some p \<and> fs p = Some (CapacityCsv t j))"
  shows "\<exists>pre. template_text env c fs self y test =
     Inr (pre
       @ (case cost_emit self of None \<Rightarrow> []
          | Some d \<Rightarrow> ''#Cost of emissions $/Mhw'' @ nl @ ''param cost_emit:= ''
                      @ str_num env (d ! i) @ '';'' @ nl)
       @ (if i \<noteq> 0 then ''#Carry forward annualised capital costs'' @ nl
                @ ''load '' @ sq @ tmpdir self @ ''gen_cap_op'' @ str_int (Years self ! (i - 1))
                @ ''.json'' @ sq @ '' : cost_cap_carry_forward;'' @ nl
          else [])
       @ (case nem_ret_ratio self of None \<Rightarrow> []
          | Some d \<Rightarrow> nl @ '' # NEM wide RET'' @ nl @ ''param nem_ret_ratio :=''
                      @ str_num env (d ! i) @ '';'' @ nl)
       @ (case nem_ret_gwh self of None \<Rightarrow> []
          | Some d \<Rightarrow> nl @ '' # NEM wide RET'' @ nl @ ''param nem_ret_gwh :=''
                      @ str_num env (d ! i) @ '';'' @ nl)
       @ (case region_ret_ratio self of None \<Rightarrow> []
          | Some rd \<Rightarrow>
              if rd = [] then []
              else nl @ '' #Regional based RET'' @ nl @ ''param region_ret_ratio := ''
                   @ join '' '' (map (\<lambda>(r, xs). str_int r @ '' '' @ str_num env (xs ! i)) rd)
                   @ '';'' @ nl)
       @ (case emitlimit self of None \<Rightarrow> []
          | Some d \<Rightarrow> nl @ '' #NEM wide emission limit (in GT)'' @ nl
                      @ ''param nem_year_emit_limit := '' @ str_num env (d ! i) @ '';'' @ nl)
       @ (case nem_disp_ratio self of None \<Rightarrow> []
          | Some d \<Rightarrow> nl @ '' #NEM wide minimum generation ratio from dispatchable tech'' @ nl
                      @ ''param nem_disp_ratio := '' @ str_num env (d ! i) @ '';'' @ nl)
       @ (case nem_re_disp_ratio self of None \<Rightarrow> []
          | Some d \<Rightarrow> nl @ '' #NEM wide minimum generation ratio from dispatchable tech'' @ nl
                      @ ''param nem_re_disp_ratio := '' @ str_num env (d ! i) @ '';'' @ nl))"
proof -
  from i have idx: "index_of y (Years self) = Some i" by (simp add: index_of_Some_iff)
  from i have "y \<in> set (Years self)" by auto
  with init_Years_range(2) [OF init] have yr: "2018 \<le> y" "y \<le> 2050" by auto
  from yr obtain d1 where d1: "str_datetime (y - 1) ''-07-01 00:00:00'' = Inr d1"
    using str_datetime_Inr [of "y - 1"] by force
  from yr obtain d2 where d2: "str_datetime y ''-06-30 23:00:00'' = Inr d2"
    using str_datetime_Inr [of y] by force
  from yr obtain d3 where d3: "str_datetime (y - 1) ''-07-03 23:00:00'' = Inr d3"
    using str_datetime_Inr [of "y - 1"] by force
  obtain opcap0 where a: "carryforwardcap self y = Inr opcap0"
    using carryforwardcap_Inr [OF idx] by blast
  note b = carry_forward_cap_costs_eq [OF idx]
  obtain ccs where c: "produce_custom_costs env fs self y = Inr ccs"
    using produce_custom_costs_Inr [OF cc] by blast
  obtain exs where e: "produce_exogenous_capacity env fs self y = Inr exs"
    using produce_exogenous_capacity_Inr [OF idx ex] by blast
  obtain prev where p: "(if i = 0 then Inr 2017 else py_getitem (Years self) (int i - 1)) = Inr prev"
    using prevyear_Inr [OF idx] by blast
  note len = init_series_lengths [OF init]
  have b1: "\<And>h. policy_block env self y h (cost_emit self) =
      Inr (case cost_emit self of None \<Rightarrow> [] | Some d \<Rightarrow> h @ str_num env (d ! i) @ '';'' @ nl)"
    by (rule policy_block_entry [OF idx]) (rule len(1))
  have b2: "\<And>h. policy_block env self y h (nem_ret_ratio self) =
      Inr (case nem_ret_ratio self of None \<Rightarrow> [] | Some d \<Rightarrow> h @ str_num env (d ! i) @ '';'' @ nl)"
    by (rule policy_block_entry [OF idx]) (rule len(2))
  have b3: "\<And>h. policy_block env self y h (nem_ret_gwh self) =
      Inr (case nem_ret_gwh self of None \<Rightarrow> [] | Some d \<Rightarrow> h @ str_num env (d ! i) @ '';'' @ nl)"
    by (rule policy_block_entry [OF idx]) (rule len(3))
  have b4: "\<And>h. policy_block env self y h (emitlimit self) =
      Inr (case emitlimit self of None \<Rightarrow> [] | Some d \<Rightarrow> h @ str_num env (d ! i) @ '';'' @ nl)"
    by (rule policy_block_entry [OF idx]) (rule len(4))
  have b5: "\<And>h. policy_block env self y h (nem_disp_ratio self) =
      Inr (case nem_disp_ratio self of None \<Rightarrow> [] | Some d \<Rightarrow> h @ str_num env (d ! i) @ '';'' @ nl)"
    by (rule policy_block_entry [OF idx]) (rule len(5))
  have b6: "\<And>h. policy_block env self y h (nem_re_disp_ratio self) =
      Inr (case nem_re_disp_ratio self of None \<Rightarrow> [] | Some d \<Rightarrow> h @ str_num env (d ! i) @ '';'' @ nl)"
    by (rule policy_block_entry [OF idx]) (rule len(6))
  have b7: "region_policy_block env self y (region_ret_ratio self) =
      Inr (case region_ret_ratio self of None \<Rightarrow> []
          | Some rd \<Rightarrow>
              if rd = [] then []
              else nl @ '' #Regional based RET'' @ nl @ ''param region_ret_ratio := ''
                   @ join '' '' (map (\<lambda>(r, xs). str_int r @ '' '' @ str_num env (xs ! i)) rd)
                   @ '';'' @ nl)"
  proof (cases "region_ret_ratio self")
    case None
    then show ?thesis by (simp add: region_policy_block_None)
  next
    case (Some rd)
    with len(7) [OF Some] region_policy_block_Some [OF idx, of rd env] show ?thesis by simp
  qed
  have r: "read_text fs (Template self) = Inr tpl" using tpl by (simp add: read_text_def)
  have "template_text env c fs self y test =
     Inr ((concat (map (fill_line c self y prev opcap0
                     (''BETWEEN '' @ sq @ d1 @ sq @ '' AND '' @ sq @ (if test then d3 else d2) @ sq))
                      (if tmpdir self @ ''Sim'' @ str_int y @ ''.dat'' = Template self
                       then [] else py_lines tpl))
            @ ccs @ exs @ nl @ ''#Discount rate for project'' @ nl
               @ ''param all_tech_discount_rate := '' @ discountrate self @ '';'' @ nl)
       @ (case cost_emit self of None \<Rightarrow> []
          | Some d \<Rightarrow> ''#Cost of emissions $/Mhw'' @ nl @ ''param cost_emit:= ''
                      @ str_num env (d ! i) @ '';'' @ nl)
       @ (if i \<noteq> 0 then ''#Carry forward annualised capital costs'' @ nl
                @ ''load '' @ sq @ tmpdir self @ ''gen_cap_op'' @ str_int (Years self ! (i - 1))
                @ ''.json'' @ sq @ '' : cost_cap_carry_forward;'' @ nl
          else [])
       @ (case nem_ret_ratio self of None \<Rightarrow> []
          | Some d \<Rightarrow> nl @ '' # NEM wide RET'' @ nl @ ''param nem_ret_ratio :=''
                      @ str_num env (d ! i) @ '';'' @ nl)
       @ (case nem_ret_gwh self of None \<Rightarrow> []
          | Some d \<Rightarrow> nl @ '' # NEM wide RET'' @ nl @ ''param nem_ret_gwh :=''
                      @ str_num env (d ! i) @ '';'' @ nl)
       @ (case region_ret_ratio self of None \<Rightarrow> []
          | Some rd \<Rightarrow>
              if rd = [] then []
              else nl @ '' #Regional based RET'' @ nl @ ''param region_ret_ratio := ''
                   @ join '' '' (map (\<lambda>(r, xs). str_int r @ '' '' @ str_num env (xs ! i)) rd)
                   @ '';'' @ nl)
       @ (case emitlimit self of None \<Rightarrow> []
          | Some d \<Rightarrow> nl @ '' #NEM wide emission limit (in GT)'' @ nl
                      @ ''param nem_year_emit_limit := '' @ str_num env (d ! i) @ '';'' @ nl)
       @ (case nem_disp_ratio self of None \<Rightarrow> []
          | Some d \<Rightarrow> nl @ '' #NEM wide minimum generation ratio from dispatchable tech'' @ nl
                      @ ''param nem_disp_ratio := '' @ str_num env (d ! i) @ '';'' @ nl)
       @ (case nem_re_disp_ratio self of None \<Rightarrow> []
          | Some d \<Rightarrow> nl @ '' #NEM wide minimum generation ratio from dispatchable tech'' @ nl
                      @ ''param nem_re_disp_ratio := '' @ str_num env (d ! i) @ '';'' @ nl))"
    unfolding template_text_def Let_def
    by (simp only: d1 d2 d3 a b c e b1 b2 b3 b4 b5 b6 b7 p r
        Years_index_Inr [OF idx] and_then_def sum.case if_True if_False
        append_assoc split: if_split) auto
  then show ?thesis by blast
qed


lemma generateyeartemplate_of_text:
  assumes "template_text env c fs self y test = Inr tx"
  shows "generateyeartemplate env c fs self y test =
           Inr (fs(tmpdir self @ ''Sim'' @ str_int y @ ''.dat'' := Some (TextFile tx)),
                tmpdir self @ ''Sim'' @ str_int y @ ''.dat'')"
  using assms by (simp add: generateyeartemplate_def and_then_def Let_def)

text \<open>
  Claim C3. Let the constructor have accepted the configuration, and let \<open>i\<close> be the
  position of the year \<open>y\<close> in the sorted list of years (the first one, should the year
  be listed twice). With the template file and the configured tables readable, the
  template for \<open>y\<close> is generated, and it ends with the policy blocks, where every
  configured series (\<open>cost_emit\<close>, \<open>nem_ret_ratio\<close>, \<open>nem_ret_gwh\<close>, each region of
  \<open>region_ret_ratio\<close>, \<open>emitlimit\<close>, \<open>nem_disp_ratio\<close>, \<open>nem_re_disp_ratio\<close>)
  contributes the text of its element at position \<open>i\<close>: the year itself is never used
  as a key. For years \<open>[2030, 2040]\<close> and \<open>nem_ret_ratio = [0.1, 0.5]\<close> the template of
  2040 ends with \<open>param nem_ret_ratio :=0.5;\<close>.
\<close>

theorem policy_positional_index:
  assumes init: "SolveTemplate_init env c fs0 cfg sv lg td = Inr self"
    and i: "i < length (Years self)" "Years self ! i = y" "\<forall>j<i. Years self ! j \<noteq> y"
    and tpl: "fs (Template self) = Some (TextFile tpl)"
    and cc: "custom_costs self = None \<or>
             (\<exists>p t j. custom_costs self = Some p \<and> fs p = Some (CostCsv t j))"
    and ex: "exogenous_capacity self = None \<or>
             (\<exists>p t j. exogenous_capacity self = Some p \<and> fs p = Some (CapacityCsv t j))"
  shows "\<exists>pre carry. generateyeartemplate env c fs self y test =
     Inr (fs(tmpdir self @ ''Sim'' @ str_int y @ ''.dat'' := Some (TextFile (pre
       @ (case cost_emit self of None \<Rightarrow> []
          | Some d \<Rightarrow> ''#Cost of emissions $/Mhw'' @ nl @ ''param cost_emit:= ''
                      @ str_num env (d ! i) @ '';'' @ nl)
       @ carry
       @ (case nem_ret_ratio self of None \<Rightarrow> []
          | Some d \<Rightarrow> nl @ '' # NEM wide RET'' @ nl @ ''param nem_ret_ratio :=''
                      @ str_num env (d ! i) @ '';'' @ nl)
       @ (case nem_ret_gwh self of None \<Rightarrow> []
          | Some d \<Rightarrow> nl @ '' # NEM wide RET'' @ nl @ ''param nem_ret_gwh :=''
                      @ str_num env (d ! i) @ '';'' @ nl)
       @ (case region_ret_ratio self of None \<Rightarrow> []
          | Some rd \<Rightarrow>
              if rd = [] then []
              else nl @ '' #Regional based RET'' @ nl @ ''param region_ret_ratio := ''
                   @ join '' '' (map (\<lambda>(r, xs). str_int r @ '' '' @ str_num env (xs ! i)) rd)
                   @ '';'' @ nl)
       @ (case emitlimit self of None \<Rightarrow> []
          | Some d \<Rightarrow> nl @ '' #NEM wide emission limit (in GT)'' @ nl
                      @ ''param nem_year_emit_limit := '' @ str_num env (d ! i) @ '';'' @ nl)
       @ (case nem_disp_ratio self of None \<Rightarrow> []
          | Some d \<Rightarrow> nl @ '' #NEM wide minimum generation ratio from dispatchable tech'' @ nl
                      @ ''param nem_disp_ratio := '' @ str_num env (d ! i) @ '';'' @ nl)
       @ (case nem_re_disp_ratio self of None \<Rightarrow> []
          | Some d \<Rightarrow> nl @ '' #NEM wide minimum generation ratio from dispatchable tech'' @ nl
                      @ ''param nem_re_disp_ratio := '' @ str_num env (d ! i) @ '';'' @ nl)))),
          tmpdir self @ ''Sim'' @ str_int y @ ''.dat'')"
proof -
  from template_text_shape [where fs = fs, OF init i tpl cc ex]
  obtain pre where t: "template_text env c fs self y test =
     Inr (pre
       @ (case cost_emit self of None \<Rightarrow> []
          | Some d \<Rightarrow> ''#Cost of emissions $/Mhw'' @ nl @ ''param cost_emit:= ''
                      @ str_num env (d ! i) @ '';'' @ nl)
       @ (if i \<noteq> 0 then ''#Carry forward annualised capital costs'' @ nl
                @ ''load '' @ sq @ tmpdir self @ ''gen_cap_op'' @ str_int (Years self ! (i - 1))
                @ ''.json'' @ sq @ '' : cost_cap_carry_forward;'' @ nl
          else [])
       @ (case nem_ret_ratio self of None \<Rightarrow> []
          | Some d \<Rightarrow> nl @ '' # NEM wide RET'' @ nl @ ''param nem_ret_ratio :=''
                      @ str_num env (d ! i) @ '';'' @ nl)
       @ (case nem_ret_gwh self of None \<Rightarrow> []
          | Some d \<Rightarrow> nl @ '' # NEM wide RET'' @ nl @ ''param nem_ret_gwh :=''
                      @ str_num env (d ! i) @ '';'' @ nl)
       @ (case region_ret_ratio self of None \<Rightarrow> []
          | Some rd \<Rightarrow>
              if rd = [] then []
              else nl @ '' #Regional based RET'' @ nl @ ''param region_ret_ratio := ''
                   @ join '' '' (map (\<lambda>(r, xs). str_int r @ '' '' @ str_num env (xs ! i)) rd)
                   @ '';'' @ nl)
       @ (case emitlimit self of None \<Rightarrow> []
          | Some d \<Rightarrow> nl @ '' #NEM wide emission limit (in GT)'' @ nl
                      @ ''param nem_year_emit_limit := '' @ str_num env (d ! i) @ '';'' @ nl)
       @ (case nem_disp_ratio self of None \<Rightarrow> []
          | Some d \<Rightarrow> nl @ '' #NEM wide minimum generation ratio from dispatchable tech'' @ nl
                      @ ''param nem_disp_ratio := '' @ str_num env (d ! i) @ '';'' @ nl)
       @ (case nem_re_disp_ratio self of None \<Rightarrow> []
          | Some d \<Rightarrow> nl @ '' #NEM wide minimum generation ratio from dispatchable tech'' @ nl
                      @ ''param nem_re_disp_ratio := '' @ str_num env (d ! i) @ '';'' @ nl))"
    by blast
  show ?thesis
    by (rule exI, rule exI, rule generateyeartemplate_of_text [OF t])
qed

lemma policy_init_ok: "\<not> isl (example_init policy_scenario ''/tmp/'')"
  by code_simp

lemma policy_init_fields:
  "Years (projr (example_init policy_scenario ''/tmp/'')) = [2030, 2040]"
  "nem_ret_ratio (projr (example_init policy_scenario ''/tmp/'')) = Some [1 / 10, 1 / 2]"
  "cost_emit (projr (example_init policy_scenario ''/tmp/'')) = None"
  "nem_ret_gwh (projr (example_init policy_scenario ''/tmp/'')) = None"
  "region_ret_ratio (projr (example_init policy_scenario ''/tmp/'')) = None"
  "emitlimit (projr (example_init policy_scenario ''/tmp/'')) = None"
  "nem_disp_ratio (projr (example_init policy_scenario ''/tmp/'')) = None"
  "nem_re_disp_ratio (projr (example_init policy_scenario ''/tmp/'')) = None"
  "custom_costs (projr (example_init policy_scenario ''/tmp/'')) = None"
  "exogenous_capacity (projr (example_init policy_scenario ''/tmp/'')) = None"
  "Template (projr (example_init policy_scenario ''/tmp/'')) = ''template.dat''"
  "tmpdir (projr (example_init policy_scenario ''/tmp/'')) = ''/tmp/''"
  by code_simp+

lemma example_str_num_half: "example_str_num (1 / 2) = ''0.5''"
  by code_simp

lemma str_int_2040: "str_int 2040 = ''2040''"
  by code_simp

theorem policy_positional_index_witness:
  "\<exists>self pre fs'. example_init policy_scenario ''/tmp/'' = Inr self \<and>
     Years self = [2030, 2040] \<and> nem_ret_ratio self = Some [1 / 10, 1 / 2] \<and>
     generateyeartemplate example_env example_const (example_fs policy_scenario) self 2040 False =
       Inr (fs', ''/tmp/Sim2040.dat'') \<and>
     fs' ''/tmp/Sim2040.dat'' =
       Some (TextFile (pre @ nl @ '' # NEM wide RET'' @ nl @ ''param nem_ret_ratio :=0.5;'' @ nl))"
proof -
  obtain self where s: "example_init policy_scenario ''/tmp/'' = Inr self"
    using policy_init_ok by (cases "example_init policy_scenario ''/tmp/''") auto
  then have p: "projr (example_init policy_scenario ''/tmp/'') = self" by simp
  note f = policy_init_fields [unfolded p]
  have td: "tmpdir self = ''/tmp/''" by (rule f(12))
  have i: "(1::nat) < length (Years self)" "Years self ! 1 = 2040" "\<forall>j<1. Years self ! j \<noteq> 2040"
    by (simp_all add: f)
  have tpl: "example_fs policy_scenario (Template self)
      = Some (TextFile (''#year XXXX'' @ [CHR 0x0A] @ ''[carryforwardcap]'' @ [CHR 0x0A]))"
    by (simp add: f example_fs_def)
  have cc: "custom_costs self = None \<or>
      (\<exists>p t j. custom_costs self = Some p \<and> example_fs policy_scenario p = Some (CostCsv t j))"
    by (simp add: f)
  have ex: "exogenous_capacity self = None \<or>
      (\<exists>p t j. exogenous_capacity self = Some p \<and> example_fs policy_scenario p = Some (CapacityCsv t j))"
    by (simp add: f)
  from policy_positional_index [where env = example_env and c = example_const
      and ?fs0.0 = "example_fs policy_scenario" and cfg = "''scenario.cfg''" and sv = "''cbc''"
      and lg = False and td = "''/tmp/''" and self = self and i = 1 and y = 2040
      and fs = "example_fs policy_scenario"
      and tpl = "''#year XXXX'' @ [CHR 0x0A] @ ''[carryforwardcap]'' @ [CHR 0x0A]"
      and test = False, OF s [unfolded example_init_def] i tpl cc ex]
  obtain pre carry where g:
    "generateyeartemplate example_env example_const (example_fs policy_scenario) self 2040 False =
       Inr ((example_fs policy_scenario)(''/tmp/Sim2040.dat'' :=
              Some (TextFile (pre @ carry @ nl @ '' # NEM wide RET'' @ nl
                 @ ''param nem_ret_ratio :='' @ str_num example_env (1 / 2) @ '';'' @ nl))),
            ''/tmp/Sim2040.dat'')"
    by (auto simp: f td str_int_2040)
  have w: "((example_fs policy_scenario)(''/tmp/Sim2040.dat'' :=
              Some (TextFile (pre @ carry @ nl @ '' # NEM wide RET'' @ nl
                 @ ''param nem_ret_ratio :='' @ str_num example_env (1 / 2) @ '';'' @ nl))))
             ''/tmp/Sim2040.dat''
           = Some (TextFile ((pre @ carry) @ nl @ '' # NEM wide RET'' @ nl
                 @ ''param nem_ret_ratio :=0.5;'' @ nl))"
    by (simp add: example_env_def example_str_num_half)
  show ?thesis
    apply (rule exI [where x = self])
    apply (rule exI [where x = "pre @ carry"])
    apply (rule exI)
    apply (intro conjI)
        apply (rule s)
       apply (rule f(1))
      apply (rule f(2))
     apply (rule g)
    apply (rule w)
    done
qed

text \<open>
  The exogenous-capacity block. For a year at a position \<open>i > 0\<close> the rows selected
  are those of the half-open interval that starts at the year before. For the first
  year the index \<open>0 - 1\<close> wraps to the last year, and the block is empty whatever the
  table holds.
\<close>

lemma exogenous_rows_empty:
  "y \<le> prev \<Longrightarrow> exogenous_rows self capacity prev y key = []"
  by (auto simp: exogenous_rows_def filter_empty_conv)

lemma exogenous_first_year_block_empty:
  assumes init: "SolveTemplate_init env c fs0 cfg sv lg td = Inr self"
    and tab: "exogenous_capacity self = Some p" "fs p = Some (CapacityCsv capacity j)"
  shows "produce_exogenous_capacity env fs self (Years self ! 0) = Inr nl"
proof -
  note r = init_Years_range [OF init]
  from r(1) have idx: "index_of (Years self ! 0) (Years self) = Some 0"
    by (simp add: index_of_Some_iff)
  from r(1) have lastv: "py_getitem (Years self) (int 0 - 1) = Inr (last (Years self))"
    by (simp add: py_getitem_last)
  from r(1) r(3) have le: "Years self ! 0 \<le> last (Years self)"
    by (simp add: last_conv_nth sorted_nth_mono)
  have blk: "\<And>key. exogenous_block env self capacity (last (Years self)) (Years self ! 0) key = []"
    by (simp add: exogenous_block_def exogenous_rows_empty [OF le])
  show ?thesis
    using tab lastv
    by (simp add: produce_exogenous_capacity_def read_capacity_csv_def and_then_def
        Years_index_Inr [OF idx] blk exogenous_keywords_def)
qed

lemma exogenous_later_year_rows:
  assumes idx: "index_of y (Years self) = Some i" and pos: "0 < i"
    and tab: "exogenous_capacity self = Some p" "fs p = Some (CapacityCsv capacity j)"
  shows "produce_exogenous_capacity env fs self y =
           Inr (foldl (\<lambda>out key. out @ exogenous_block env self capacity (Years self ! (i - 1)) y key)
                  nl exogenous_keywords)"
    and "set (exogenous_rows self capacity (Years self ! (i - 1)) y key) =
           {r \<in> set capacity. Years self ! (i - 1) < exo_year r \<and> exo_year r \<le> y \<and>
              exo_name r = key \<and> exo_tech r \<in> set (all_tech self) \<and>
              exo_zone r \<in> set (zones self)}"
proof -
  from idx have "i < length (Years self)" by (simp add: index_of_Some_iff)
  with pos have "py_getitem (Years self) (int i - 1) = Inr (Years self ! (i - 1))"
    by (simp add: py_getitem_pred)
  with tab show "produce_exogenous_capacity env fs self y =
           Inr (foldl (\<lambda>out key. out @ exogenous_block env self capacity (Years self ! (i - 1)) y key)
                  nl exogenous_keywords)"
    by (simp add: produce_exogenous_capacity_def read_capacity_csv_def and_then_def
        Years_index_Inr [OF idx])
  show "set (exogenous_rows self capacity (Years self ! (i - 1)) y key) =
           {r \<in> set capacity. Years self ! (i - 1) < exo_year r \<and> exo_year r \<le> y \<and>
              exo_name r = key \<and> exo_tech r \<in> set (all_tech self) \<and>
              exo_zone r \<in> set (zones self)}"
    by (auto simp: exogenous_rows_def)
qed

text \<open>
  Claim C2 fails on the code for the first configured year. With years \<open>[2020, 2022]\<close>
  and a capacity table holding a \<open>gen_cap_exo\<close> row of the year 2020 for a configured zone
  and technology, the block for 2020 is empty: \<open>self.Years[self.Years.index(year) - 1]\<close>
  is \<open>self.Years[-1]\<close>, the last year 2022, and no row lies in \<open>(2022, 2020]\<close>. With
  the year 2017 that \<open>generateyeartemplate\<close> takes before the first year, the row is
  selected. For 2022 the block holds the rows of \<open>(2020, 2022]\<close>.
\<close>

theorem exogenous_first_year_empty:
  "\<not> isl (example_init capacity_scenario ''/tmp/'') \<and>
   Years (projr (example_init capacity_scenario ''/tmp/'')) = [2020, 2022] \<and>
   produce_exogenous_capacity example_env (example_fs capacity_scenario)
     (projr (example_init capacity_scenario ''/tmp/'')) 2020 = Inr nl \<and>
   exogenous_rows (projr (example_init capacity_scenario ''/tmp/'')) example_capacity 2022 2020
     ''gen_cap_exo'' = [] \<and>
   exogenous_rows (projr (example_init capacity_scenario ''/tmp/'')) example_capacity 2017 2020
     ''gen_cap_exo''
     = [\<lparr>exo_name = ''gen_cap_exo'', exo_tech = 1, exo_zone = 1, exo_year = 2020, exo_value = 100\<rparr>] \<and>
   produce_exogenous_capacity example_env (example_fs capacity_scenario)
     (projr (example_init capacity_scenario ''/tmp/'')) 2022
     = Inr (nl @ ''#Exogenous capacity entry gen_cap_exo'' @ nl @ ''param gen_cap_exo:='' @ nl
            @ ''2 3 50.0'' @ nl @ '';'' @ nl)"
  by code_simp

lemma template_text_cong:
  assumes "Years s1 = Years s2" and "tmpdir s1 = tmpdir s2"
    and "discountrate s1 = discountrate s2" and "Template s1 = Template s2"
    and "cost_emit s1 = cost_emit s2" and "nem_ret_ratio s1 = nem_ret_ratio s2"
    and "nem_ret_gwh s1 = nem_ret_gwh s2" and "region_ret_ratio s1 = region_ret_ratio s2"
    and "emitlimit s1 = emitlimit s2" and "nem_disp_ratio s1 = nem_disp_ratio s2"
    and "nem_re_disp_ratio s1 = nem_re_disp_ratio s2"
    and "custom_costs s1 = custom_costs s2" and "exogenous_capacity s1 = exogenous_capacity s2"
    and "regions s1 = regions s2" and "zones s1 = zones s2" and "all_tech s1 = all_tech s2"
    and "fueltech s1 = fueltech s2" and "committech s1 = committech s2"
    and "regentech s1 = regentech s2" and "dispgentech s1 = dispgentech s2"
    and "redispgentech s1 = redispgentech s2" and "hybtech s1 = hybtech s2"
    and "gentech s1 = gentech s2" and "stortech s1 = stortech s2"
    and "retiretech s1 = retiretech s2"
    and "fs1 (Template s1) = fs2 (Template s1)"
    and "\<forall>p. custom_costs s1 = Some p \<longrightarrow> fs1 p = fs2 p"
    and "\<forall>p. exogenous_capacity s1 = Some p \<longrightarrow> fs1 p = fs2 p"
  shows "template_text env c fs1 s1 y test = template_text env c fs2 s2 y test"
proof -
  have yi: "Years_index s1 = Years_index s2"
    using assms by (simp add: Years_index_def fun_eq_iff)
  have a: "carryforwardcap s1 y = carryforwardcap s2 y"
    using assms by (simp add: carryforwardcap_def yi cong: if_cong)
  have b: "carry_forward_cap_costs s1 y = carry_forward_cap_costs s2 y"
    using assms by (simp add: carry_forward_cap_costs_def yi cong: if_cong)
  have cr: "custom_cost_rows s1 = custom_cost_rows s2"
    using assms by (simp add: custom_cost_rows_def fun_eq_iff cong: if_cong)
  have cb: "custom_cost_block env s1 = custom_cost_block env s2"
    by (simp add: custom_cost_block_def fun_eq_iff cr cong: if_cong)
  have cc: "produce_custom_costs env fs1 s1 y = produce_custom_costs env fs2 s2 y"
    using assms
    by (cases "custom_costs s2") (simp_all add: produce_custom_costs_def cb read_cost_csv_def)
  have er: "exogenous_rows s1 = exogenous_rows s2"
    using assms by (simp add: exogenous_rows_def fun_eq_iff)
  have eb: "exogenous_block env s1 = exogenous_block env s2"
    by (simp add: exogenous_block_def fun_eq_iff er cong: if_cong)
  have ex: "produce_exogenous_capacity env fs1 s1 y = produce_exogenous_capacity env fs2 s2 y"
    using assms
    by (cases "exogenous_capacity s2")
       (simp_all add: produce_exogenous_capacity_def eb read_capacity_csv_def yi)
  have pb: "policy_block env s1 = policy_block env s2"
    by (simp add: policy_block_def fun_eq_iff yi cong: if_cong option.case_cong)
  have rb: "region_policy_block env s1 = region_policy_block env s2"
    by (simp add: region_policy_block_def fun_eq_iff yi cong: if_cong option.case_cong)
  have fl: "fill_line c s1 = fill_line c s2"
    using assms by (simp add: fill_line_def fun_eq_iff)
  have rt: "read_text fs1 (Template s1) = read_text fs2 (Template s2)"
    using assms by (simp add: read_text_def)
  show ?thesis
    unfolding template_text_def a b cc ex pb rb fl rt yi
    using assms by (simp cong: if_cong)
qed


lemma path_setter_value:
  "Template_setter fs a = Inr v \<Longrightarrow> v = a"
  "custom_costs_setter fs b = Inr w \<Longrightarrow> w = b"
  "exogenous_capacity_setter fs b = Inr w \<Longrightarrow> w = b"
  "discountrate_setter env d = Inr u \<Longrightarrow> u = d"
  by (auto simp: Template_setter_def custom_costs_setter_def exogenous_capacity_setter_def
      discountrate_setter_def split: if_splits option.splits)

lemma init_fields:
  assumes "SolveTemplate_init env c fs cfg sv lg td = Inr self"
    and "fs cfg = Some (ScenarioFile config)"
  shows "Years self = sort (cfg_Years config)"
    and "nem_ret_ratio self = cfg_nem_ret_ratio config"
    and "nem_ret_gwh self = cfg_nem_ret_gwh config"
    and "region_ret_ratio self = map_option py_dict (cfg_region_ret_ratio config)"
    and "emitlimit self = cfg_emitlimit config"
    and "nem_disp_ratio self = cfg_nem_disp_ratio config"
    and "nem_re_disp_ratio self = cfg_nem_re_disp_ratio config"
    and "cost_emit self = cfg_cost_emit config"
    and "Template self = cfg_Template config"
    and "custom_costs self = cfg_custom_costs config"
    and "exogenous_capacity self = cfg_exogenous_capacity config"
    and "discountrate self = cfg_discountrate config"
    and "tmpdir self = td"
    and "cfgfile self = cfg"
proof -
  from init_Inr_D [OF assms(1)] assms(2) have
    y: "Years_setter (cfg_Years config) = Inr (Years self)" and
    s1: "nem_ret_ratio_setter (Years self) (cfg_nem_ret_ratio config) = Inr (nem_ret_ratio self)" and
    s2: "nem_ret_gwh_setter (Years self) (cfg_nem_ret_gwh config) = Inr (nem_ret_gwh self)" and
    s3: "region_ret_ratio_setter (Years self) (map_option py_dict (cfg_region_ret_ratio config))
           = Inr (region_ret_ratio self)" and
    s4: "emitlimit_setter (Years self) (cfg_emitlimit config) = Inr (emitlimit self)" and
    s5: "nem_disp_ratio_setter (Years self) (cfg_nem_disp_ratio config) = Inr (nem_disp_ratio self)" and
    s6: "nem_re_disp_ratio_setter (Years self) (cfg_nem_re_disp_ratio config)
           = Inr (nem_re_disp_ratio self)" and
    s7: "cost_emit_setter (Years self) (cfg_cost_emit config) = Inr (cost_emit self)" and
    s8: "discountrate_setter env (cfg_discountrate config) = Inr (discountrate self)" and
    s9: "Template_setter fs (cfg_Template config) = Inr (Template self)" and
    s10: "custom_costs_setter fs (cfg_custom_costs config) = Inr (custom_costs self)" and
    s11: "exogenous_capacity_setter fs (cfg_exogenous_capacity config)
           = Inr (exogenous_capacity self)" and
    t: "tmpdir self = td" "cfgfile self = cfg"
    by auto
  from y show "Years self = sort (cfg_Years config)" by (simp add: Years_setter_Inr_iff)
  from s1 show "nem_ret_ratio self = cfg_nem_ret_ratio config" by (rule series_setter_value)
  from s2 show "nem_ret_gwh self = cfg_nem_ret_gwh config" by (rule series_setter_value)
  from s3 show "region_ret_ratio self = map_option py_dict (cfg_region_ret_ratio config)"
    by (rule series_setter_value)
  from s4 show "emitlimit self = cfg_emitlimit config" by (rule series_setter_value)
  from s5 show "nem_disp_ratio self = cfg_nem_disp_ratio config" by (rule series_setter_value)
  from s6 show "nem_re_disp_ratio self = cfg_nem_re_disp_ratio config"
    by (rule series_setter_value)
  from s7 show "cost_emit self = cfg_cost_emit config" by (rule series_setter_value)
  from s9 show "Template self = cfg_Template config" by (rule path_setter_value)
  from s10 show "custom_costs self = cfg_custom_costs config" by (rule path_setter_value)
  from s11 show "exogenous_capacity self = cfg_exogenous_capacity config"
    by (rule path_setter_value)
  from s8 show "discountrate self = cfg_discountrate config" by (rule path_setter_value)
  from t show "tmpdir self = td" "cfgfile self = cfg" by simp_all
qed

lemma example_init_any_dir: "\<not> isl (example_init example_scenario dir)"
proof -
  have "\<not> isl (example_init example_scenario [])" by code_simp
  then obtain s0 where "example_init example_scenario [] = Inr s0"
    by (cases "example_init example_scenario []") auto
  then have "example_init example_scenario dir = Inr (s0\<lparr>tmpdir := dir\<rparr>)"
    by (auto simp: example_init_def SolveTemplate_init_def and_then_Inr_iff tracetechs_def
        example_fs_cfg split: option.splits file_content.splits)
  then show ?thesis by simp
qed

text \<open>
  Claim C8, as amended. Two runs of \<open>generateyeartemplate\<close> for the same year write
  the same text under the same name as soon as the two objects agree on the years, the
  discount rate, the policy series, the template and table paths, the region, zone and
  technology sets and the working directory \<open>tmpdir\<close>, and the two file stores agree on
  the template file and on the configured override tables. Nothing else matters: not the
  name, the description, the clustering options, the solver or the logging flag, nor any
  other file, the carry-forward artifact of the year before included.
\<close>

theorem template_deterministic:
  assumes "Years s1 = Years s2" and "tmpdir s1 = tmpdir s2"
    and "discountrate s1 = discountrate s2" and "Template s1 = Template s2"
    and "cost_emit s1 = cost_emit s2" and "nem_ret_ratio s1 = nem_ret_ratio s2"
    and "nem_ret_gwh s1 = nem_ret_gwh s2" and "region_ret_ratio s1 = region_ret_ratio s2"
    and "emitlimit s1 = emitlimit s2" and "nem_disp_ratio s1 = nem_disp_ratio s2"
    and "nem_re_disp_ratio s1 = nem_re_disp_ratio s2"
    and "custom_costs s1 = custom_costs s2" and "exogenous_capacity s1 = exogenous_capacity s2"
    and "regions s1 = regions s2" and "zones s1 = zones s2" and "all_tech s1 = all_tech s2"
    and "fueltech s1 = fueltech s2" and "committech s1 = committech s2"
    and "regentech s1 = regentech s2" and "dispgentech s1 = dispgentech s2"
    and "redispgentech s1 = redispgentech s2" and "hybtech s1 = hybtech s2"
    and "gentech s1 = gentech s2" and "stortech s1 = stortech s2"
    and "retiretech s1 = retiretech s2"
    and "fs1 (Template s1) = fs2 (Template s1)"
    and "\<forall>p. custom_costs s1 = Some p \<longrightarrow> fs1 p = fs2 p"
    and "\<forall>p. exogenous_capacity s1 = Some p \<longrightarrow> fs1 p = fs2 p"
  shows "template_text env c fs1 s1 y test = template_text env c fs2 s2 y test \<and>
         (case generateyeartemplate env c fs1 s1 y test of
            Inl e \<Rightarrow> generateyeartemplate env c fs2 s2 y test = Inl e
          | Inr (f1, n1) \<Rightarrow>
              (\<exists>f2. generateyeartemplate env c fs2 s2 y test = Inr (f2, n1) \<and> f2 n1 = f1 n1))"
proof -
  have t: "template_text env c fs1 s1 y test = template_text env c fs2 s2 y test"
    using assms by (rule template_text_cong)
  show ?thesis
  proof (cases "template_text env c fs2 s2 y test")
    case (Inl e)
    with t assms(2) show ?thesis
      by (simp add: generateyeartemplate_def and_then_def)
  next
    case (Inr tx)
    with t assms(2) show ?thesis
      by (simp add: generateyeartemplate_def and_then_def Let_def)
  qed
qed

lemma example_init_obtain:
  obtains self where "example_init example_scenario dir = Inr self"
    and "Years self = [2020, 2022]" and "tmpdir self = dir"
    and "Template self = ''template.dat''"
    and "cost_emit self = None" and "nem_ret_ratio self = None" and "nem_ret_gwh self = None"
    and "region_ret_ratio self = None" and "emitlimit self = None"
    and "nem_disp_ratio self = None" and "nem_re_disp_ratio self = None"
    and "custom_costs self = None" and "exogenous_capacity self = None"
    and "cfgfile self = ''scenario.cfg''"
proof -
  obtain self where s: "example_init example_scenario dir = Inr self"
    using example_init_any_dir [of dir] by (cases "example_init example_scenario dir") auto
  note f = init_fields [OF s [unfolded example_init_def] example_fs_cfg]
  show thesis
    by (rule that [OF s]) (simp_all add: f example_scenario_def)
qed

theorem template_deterministic_witness:
  "\<exists>text.
     template_text example_env example_const (example_fs example_scenario)
       (projr (example_init example_scenario ''/tmp/'')) 2022 False = Inr text \<and>
     template_text example_env example_const
       ((example_fs example_scenario)(''/tmp/gen_cap_op2020.json'' := Some (JsonFile JNull)))
       ((projr (example_init example_scenario ''/tmp/''))
          \<lparr>Name := ''renamed'', cluster := True, solver := ''glpk'', log_opt := True\<rparr>)
       2022 False = Inr text"
proof -
  obtain self where s: "example_init example_scenario ''/tmp/'' = Inr self"
    and f: "Years self = [2020, 2022]" "Template self = ''template.dat''"
      "custom_costs self = None" "exogenous_capacity self = None"
    by (rule example_init_obtain [of "''/tmp/''"])
  have i: "(1::nat) < length (Years self)" "Years self ! 1 = 2022" "\<forall>j<1. Years self ! j \<noteq> 2022"
    by (simp_all add: f)
  have tpl: "example_fs example_scenario (Template self)
      = Some (TextFile (''#year XXXX'' @ [CHR 0x0A] @ ''[carryforwardcap]'' @ [CHR 0x0A]))"
    by (simp add: f example_fs_def)
  have cc: "custom_costs self = None \<or>
      (\<exists>p t j. custom_costs self = Some p \<and> example_fs example_scenario p = Some (CostCsv t j))"
    by (simp add: f)
  have ex: "exogenous_capacity self = None \<or>
      (\<exists>p t j. exogenous_capacity self = Some p \<and> example_fs example_scenario p = Some (CapacityCsv t j))"
    by (simp add: f)
  from template_text_shape [where env = example_env and c = example_const
      and ?fs0.0 = "example_fs example_scenario" and cfg = "''scenario.cfg''" and sv = "''cbc''"
      and lg = False and td = "''/tmp/''" and self = self and i = 1 and y = 2022
      and fs = "example_fs example_scenario"
      and tpl = "''#year XXXX'' @ [CHR 0x0A] @ ''[carryforwardcap]'' @ [CHR 0x0A]"
      and test = False, OF s [unfolded example_init_def] i tpl cc ex]
  obtain tx where t:
    "template_text example_env example_const (example_fs example_scenario) self 2022 False = Inr tx"
    by blast
  have agree: "example_fs example_scenario (Template self)
      = ((example_fs example_scenario)(''/tmp/gen_cap_op2020.json'' := Some (JsonFile JNull)))
          (Template self)"
    by (simp add: f)
  from template_deterministic [where ?s1.0 = self
      and ?s2.0 = "self\<lparr>Name := ''renamed'', cluster := True, solver := ''glpk'', log_opt := True\<rparr>"
      and ?fs1.0 = "example_fs example_scenario"
      and ?fs2.0 = "(example_fs example_scenario)(''/tmp/gen_cap_op2020.json'' := Some (JsonFile JNull))"
      and env = example_env and c = example_const and y = 2022 and test = False] agree f
  have "template_text example_env example_const (example_fs example_scenario) self 2022 False
      = template_text example_env example_const
          ((example_fs example_scenario)(''/tmp/gen_cap_op2020.json'' := Some (JsonFile JNull)))
          (self\<lparr>Name := ''renamed'', cluster := True, solver := ''glpk'', log_opt := True\<rparr>)
          2022 False"
    by simp
  with t s show ?thesis by auto
qed


lemma str_int_2020: "str_int 2020 = ''2020''"
  by code_simp

lemma example_carry_text:
  assumes "example_init example_scenario dir = Inr self"
  shows "\<exists>pre. template_text example_env example_const (example_fs example_scenario) self 2022 False
           = Inr (pre @ ''#Carry forward annualised capital costs'' @ nl @ ''load '' @ sq @ dir
                  @ ''gen_cap_op2020.json'' @ sq @ '' : cost_cap_carry_forward;'' @ nl)"
proof -
  note f = init_fields [OF assms [unfolded example_init_def] example_fs_cfg]
  have y: "Years self = [2020, 2022]" by (simp add: f example_scenario_def)
  have i: "(1::nat) < length (Years self)" "Years self ! 1 = 2022" "\<forall>j<1. Years self ! j \<noteq> 2022"
    by (simp_all add: y)
  have tpl: "example_fs example_scenario (Template self)
      = Some (TextFile (''#year XXXX'' @ [CHR 0x0A] @ ''[carryforwardcap]'' @ [CHR 0x0A]))"
    by (simp add: f example_scenario_def example_fs_def)
  have cc: "custom_costs self = None \<or>
      (\<exists>p t j. custom_costs self = Some p \<and> example_fs example_scenario p = Some (CostCsv t j))"
    by (simp add: f example_scenario_def)
  have ex: "exogenous_capacity self = None \<or>
      (\<exists>p t j. exogenous_capacity self = Some p \<and> example_fs example_scenario p = Some (CapacityCsv t j))"
    by (simp add: f example_scenario_def)
  from template_text_shape [where env = example_env and c = example_const
      and ?fs0.0 = "example_fs example_scenario" and cfg = "''scenario.cfg''" and sv = "''cbc''"
      and lg = False and td = dir and self = self and i = 1 and y = 2022
      and fs = "example_fs example_scenario"
      and tpl = "''#year XXXX'' @ [CHR 0x0A] @ ''[carryforwardcap]'' @ [CHR 0x0A]"
      and test = False, OF assms [unfolded example_init_def] i tpl cc ex]
  show ?thesis
    by (simp add: f y example_scenario_def str_int_2020)
qed

text \<open>
  Claim C8 as first stated does not mention the working directory. Two objects built
  from the same scenario file over the same file store, one with \<open>tmpdir = /tmp/a/\<close> and
  one with \<open>tmpdir = /tmp/b/\<close>, agree on every attribute but \<open>tmpdir\<close>, and the
  carry-forward artifact of 2020 has the same content in both directories; yet the two
  templates generated for 2022 differ, since each names its own directory.
\<close>

theorem template_tmpdir_counterexample:
  "\<not> isl (example_init example_scenario ''/tmp/a/'') \<and>
   \<not> isl (example_init example_scenario ''/tmp/b/'') \<and>
   (projr (example_init example_scenario ''/tmp/a/''))\<lparr>tmpdir := []\<rparr>
     = (projr (example_init example_scenario ''/tmp/b/''))\<lparr>tmpdir := []\<rparr> \<and>
   example_fs example_scenario ''/tmp/a/gen_cap_op2020.json''
     = example_fs example_scenario ''/tmp/b/gen_cap_op2020.json'' \<and>
   \<not> isl (template_text example_env example_const (example_fs example_scenario)
       (projr (example_init example_scenario ''/tmp/a/'')) 2022 False) \<and>
   \<not> isl (template_text example_env example_const (example_fs example_scenario)
       (projr (example_init example_scenario ''/tmp/b/'')) 2022 False) \<and>
   template_text example_env example_const (example_fs example_scenario)
       (projr (example_init example_scenario ''/tmp/a/'')) 2022 False
     \<noteq> template_text example_env example_const (example_fs example_scenario)
       (projr (example_init example_scenario ''/tmp/b/'')) 2022 False"
proof -
  obtain sa where a: "example_init example_scenario ''/tmp/a/'' = Inr sa"
    using example_init_any_dir [of "''/tmp/a/''"]
    by (cases "example_init example_scenario ''/tmp/a/''") auto
  obtain sb where b: "example_init example_scenario ''/tmp/b/'' = Inr sb"
    using example_init_any_dir [of "''/tmp/b/''"]
    by (cases "example_init example_scenario ''/tmp/b/''") auto
  have eq: "(projr (example_init example_scenario ''/tmp/a/''))\<lparr>tmpdir := []\<rparr>
     = (projr (example_init example_scenario ''/tmp/b/''))\<lparr>tmpdir := []\<rparr>"
    by code_simp
  have fs: "example_fs example_scenario ''/tmp/a/gen_cap_op2020.json''
     = example_fs example_scenario ''/tmp/b/gen_cap_op2020.json''"
    by (simp add: example_fs_def)
  from example_carry_text [OF a] obtain pa where ta:
    "template_text example_env example_const (example_fs example_scenario) sa 2022 False
       = Inr (pa @ ''#Carry forward annualised capital costs'' @ nl @ ''load '' @ sq @ ''/tmp/a/''
              @ ''gen_cap_op2020.json'' @ sq @ '' : cost_cap_carry_forward;'' @ nl)"
    by blast
  from example_carry_text [OF b] obtain pb where tb:
    "template_text example_env example_const (example_fs example_scenario) sb 2022 False
       = Inr (pb @ ''#Carry forward annualised capital costs'' @ nl @ ''load '' @ sq @ ''/tmp/b/''
              @ ''gen_cap_op2020.json'' @ sq @ '' : cost_cap_carry_forward;'' @ nl)"
    by blast
  have ne: "template_text example_env example_const (example_fs example_scenario) sa 2022 False
     \<noteq> template_text example_env example_const (example_fs example_scenario) sb 2022 False"
    unfolding ta tb by (simp add: nl_def sq_def)
  from a b eq fs ta tb ne show ?thesis by simp
qed

section \<open>Properties of the sequential solve\<close>

lemma carry_forward_writes_append:
  "carry_forward_writes (xs @ ys) = carry_forward_writes xs @ carry_forward_writes ys"
  by (induction xs rule: carry_forward_writes.induct) simp_all

lemma py_getitem_last_Inr:
  "py_getitem xs (- 1) = Inr v \<Longrightarrow> xs \<noteq> [] \<and> v = last xs"
  by (cases xs rule: rev_cases) (auto simp: py_getitem_def Let_def nat_add_distrib split: if_splits)

lemma solve_year_writes:
  assumes "solve_year ext env c self y st = Inr st'"
  shows "carry_forward_writes (snd st') =
           carry_forward_writes (snd st)
           @ (if y \<noteq> last (Years self)
              then [(y, tmpdir self @ ''gen_cap_op'' @ str_int y @ ''.json'')] else [])"
  using assms
  by (auto simp: solve_year_def and_then_Inr_iff Let_def write_file_def
      carry_forward_writes_append generateyeartemplate_def
      dest!: py_getitem_last_Inr split: prod.splits if_splits)

lemma fold_solve_year_writes:
  assumes "fold_result (solve_year ext env c self) ys st = Inr st'"
  shows "carry_forward_writes (snd st') =
           carry_forward_writes (snd st)
           @ map (\<lambda>y. (y, tmpdir self @ ''gen_cap_op'' @ str_int y @ ''.json''))
               (filter (\<lambda>y. y \<noteq> last (Years self)) ys)"
  using assms
proof (induction ys arbitrary: st)
  case Nil
  then show ?case by simp
next
  case (Cons y ys)
  from Cons.prems obtain st1 where
    1: "solve_year ext env c self y st = Inr st1" and
    2: "fold_result (solve_year ext env c self) ys st1 = Inr st'"
    by (auto simp: and_then_Inr_iff)
  from solve_year_writes [OF 1] Cons.IH [OF 2] show ?case by simp
qed

lemma mergejsonyears_writes:
  assumes "mergejsonyears self st = Inr st'"
  shows "carry_forward_writes (snd st') = carry_forward_writes (snd st)"
  using assms
  by (auto simp: mergejsonyears_def and_then_Inr_iff write_file_def carry_forward_writes_append)

lemma solve_writes:
  assumes "solve ext env c fs self = Inr (fs', tr)"
  shows "carry_forward_writes tr =
           map (\<lambda>y. (y, tmpdir self @ ''gen_cap_op'' @ str_int y @ ''.json''))
             (filter (\<lambda>y. y \<noteq> last (Years self)) (Years self))"
proof -
  from assms obtain st1 where
    1: "fold_result (solve_year ext env c self) (Years self) (fs, []) = Inr st1" and
    2: "mergejsonyears self st1 = Inr (fs', tr)"
    by (auto simp: solve_def and_then_Inr_iff)
  from fold_solve_year_writes [OF 1] mergejsonyears_writes [OF 2] show ?thesis by simp
qed

lemma update_params_keys: "map fst (update_params out kv) = map fst out"
proof (cases "map_of out ''params''")
  case None
  then show ?thesis by (simp add: update_params_def)
next
  case (Some j)
  then have "''params'' \<in> set (map fst out)"
    by (metis domI dom_map_of_conv_image_fst set_map)
  then show ?thesis
    using Some by (cases j) (simp_all add: update_params_def update_keys)
qed

lemma add_optional_keys: "map fst (add_optional ext inst name out) = map fst out"
  by (simp add: add_optional_def update_params_keys split: option.splits)

lemma jsonify_keys:
  assumes "jsonify ext inst = Inr j"
  shows "\<exists>d. j = JDict d \<and>
           map fst d = [''sets'', ''params'', ''vars'', ''duals'', ''objective_value'']"
  using assms
  by (auto simp: jsonify_def and_then_Inr_iff Let_def add_optional_keys)

lemma jsonify_Inr:
  assumes "\<not> isl (sets_of ext inst)" "\<not> isl (params_of ext inst)" "\<not> isl (vars_of ext inst)"
    "\<not> isl (srmc_of ext inst)" "\<not> isl (objective_of ext inst)"
  shows "\<exists>j. jsonify ext inst = Inr j"
proof -
  from assms obtain a b c d e where
    "sets_of ext inst = Inr a" "params_of ext inst = Inr b" "vars_of ext inst = Inr c"
    "srmc_of ext inst = Inr d" "objective_of ext inst = Inr e"
    by (metis sum.collapse(2))
  then show ?thesis by (simp add: jsonify_def and_then_def Let_def)
qed

lemma solve_year_eq:
  assumes "template_text env c (fst st) self y False = Inr tx"
    and "create_instance ext y (model_options self)
           ((fst st)(tmpdir self @ ''Sim'' @ str_int y @ ''.dat'' := Some (TextFile tx)))
           (tmpdir self @ ''Sim'' @ str_int y @ ''.dat'') = Inr inst0"
    and "\<not> cluster self"
    and "opt_solve ext (solver self) inst0 (log_opt self) = Inr inst1"
    and "carry_forward_of ext inst1 = Inr opcap"
    and "Years self \<noteq> []"
    and "jsonify ext inst1 = Inr out"
    and "printstats ext inst1 = Inr u"
  shows "solve_year ext env c self y st =
     Inr (write_file
            (if y \<noteq> last (Years self)
             then write_file
                    ((fst st)(tmpdir self @ ''Sim'' @ str_int y @ ''.dat'' := Some (TextFile tx)),
                     snd st @ [TemplateWritten y (tmpdir self @ ''Sim'' @ str_int y @ ''.dat'')])
                    (tmpdir self @ ''gen_cap_op'' @ str_int y @ ''.json'') (JsonFile opcap)
                    (CarryForwardWritten y (tmpdir self @ ''gen_cap_op'' @ str_int y @ ''.json''))
             else ((fst st)(tmpdir self @ ''Sim'' @ str_int y @ ''.dat'' := Some (TextFile tx)),
                   snd st @ [TemplateWritten y (tmpdir self @ ''Sim'' @ str_int y @ ''.dat'')]))
            (tmpdir self @ str_int y @ ''.json'') (JsonFile out)
            (YearResultWritten y (tmpdir self @ str_int y @ ''.json'')))"
  using assms
  by (simp add: solve_year_def generateyeartemplate_def and_then_def Let_def
      json_carry_forward_cap_def py_getitem_last)

lemma str_int_2022: "str_int 2022 = ''2022''"
  by code_simp

lemma generate_metadata_no_tables:
  assumes "custom_costs self = None" "exogenous_capacity self = None"
  shows "\<exists>meta. generate_metadata fs self = Inr [(''meta'', JDict meta)] \<and>
           map_of meta ''Years'' = Some (JList (map JInt (Years self)))"
  using assms by (simp add: generate_metadata_def table_records_def and_then_def Let_def)

lemma solve_two_years:
  assumes init: "SolveTemplate_init env c fs0 cfg sv lg td = Inr self"
    and years: "Years self = [2020, 2022]"
    and nc: "\<not> cluster self"
    and tables: "custom_costs self = None" "exogenous_capacity self = None"
    and tpl: "fs (Template self) = Some (TextFile tpl)"
    and distinct_paths: "Template self \<noteq> tmpdir self @ ''gen_cap_op2020.json''"
               "Template self \<noteq> tmpdir self @ ''2020.json''"
    and ext: "\<forall>y opts f t. \<not> isl (create_instance ext y opts f t)"
             "\<forall>s i l. \<not> isl (opt_solve ext s i l)"
             "\<forall>i. \<not> isl (carry_forward_of ext i)"
             "\<forall>i. \<not> isl (sets_of ext i)" "\<forall>i. \<not> isl (params_of ext i)"
             "\<forall>i. \<not> isl (vars_of ext i)" "\<forall>i. \<not> isl (srmc_of ext i)"
             "\<forall>i. \<not> isl (objective_of ext i)" "\<forall>i. \<not> isl (printstats ext i)"
  shows "\<exists>fs' meta r2020 r2022. 
           solve ext env c fs self =
             Inr (fs',
                  [TemplateWritten 2020 (tmpdir self @ ''Sim2020.dat''),
                   CarryForwardWritten 2020 (tmpdir self @ ''gen_cap_op2020.json''),
                   YearResultWritten 2020 (tmpdir self @ ''2020.json''),
                   TemplateWritten 2022 (tmpdir self @ ''Sim2022.dat''),
                   YearResultWritten 2022 (tmpdir self @ ''2022.json''),
                   ReportWritten (report_path self)]) \<and>
           fs' (report_path self) =
             Some (JsonFile (JDict [(''meta'', JDict meta), (''2020'', JDict r2020),
                                    (''2022'', JDict r2022)])) \<and>
           map_of meta ''Years'' = Some (JList [JInt 2020, JInt 2022]) \<and>
           map fst r2020 = [''sets'', ''params'', ''vars'', ''duals'', ''objective_value''] \<and>
           map fst r2022 = [''sets'', ''params'', ''vars'', ''duals'', ''objective_value'']"
proof -
  have ne: "Years self \<noteq> []" and lst: "last (Years self) = 2022" by (simp_all add: years)
  have cc: "\<And>f. custom_costs self = None \<or>
      (\<exists>p t j. custom_costs self = Some p \<and> f p = Some (CostCsv t j))"
    by (simp add: tables)
  have ex: "\<And>f. exogenous_capacity self = None \<or>
      (\<exists>p t j. exogenous_capacity self = Some p \<and> f p = Some (CapacityCsv t j))"
    by (simp add: tables)
  \<comment> \<open>the year 2020\<close>
  have i0: "(0::nat) < length (Years self)" "Years self ! 0 = 2020" "\<forall>j<0. Years self ! j \<noteq> 2020"
    by (simp_all add: years)
  from template_text_shape [where fs = fs and test = False, OF init i0 tpl cc ex]
  obtain tx1 where t1: "template_text env c fs self 2020 False = Inr tx1" by blast
  define fsa where "fsa = fs(tmpdir self @ ''Sim2020.dat'' := Some (TextFile tx1))"
  obtain a0 where c1: "create_instance ext 2020 (model_options self) fsa
      (tmpdir self @ ''Sim2020.dat'') = Inr a0"
    using ext(1) by (metis sum.collapse(2))
  obtain a1 where o1: "opt_solve ext (solver self) a0 (log_opt self) = Inr a1"
    using ext(2) by (metis sum.collapse(2))
  obtain cf1 where f1: "carry_forward_of ext a1 = Inr cf1"
    using ext(3) by (metis sum.collapse(2))
  obtain out1 where j1: "jsonify ext a1 = Inr out1"
    using jsonify_Inr [of ext a1] ext by blast
  obtain u1 where p1: "printstats ext a1 = Inr u1"
    using ext(9) by (metis sum.collapse(2))
  define st1 where "st1 =
     (fsa(tmpdir self @ ''gen_cap_op2020.json'' := Some (JsonFile cf1),
          tmpdir self @ ''2020.json'' := Some (JsonFile out1)),
      [TemplateWritten 2020 (tmpdir self @ ''Sim2020.dat''),
       CarryForwardWritten 2020 (tmpdir self @ ''gen_cap_op2020.json''),
       YearResultWritten 2020 (tmpdir self @ ''2020.json'')])"
  have t1': "template_text env c (fst (fs, [])) self 2020 False = Inr tx1"
    using t1 by simp
  have c1': "create_instance ext 2020 (model_options self)
           ((fst (fs, []))(tmpdir self @ ''Sim'' @ str_int 2020 @ ''.dat'' := Some (TextFile tx1)))
           (tmpdir self @ ''Sim'' @ str_int 2020 @ ''.dat'') = Inr a0"
    using c1 by (simp add: str_int_2020 fsa_def)
  have s1: "solve_year ext env c self 2020 (fs, []) = Inr st1"
    unfolding solve_year_eq [OF t1' c1' nc o1 f1 ne j1 p1]
    by (simp add: str_int_2020 lst write_file_def st1_def fsa_def)
  \<comment> \<open>the year 2022\<close>
  have "\<exists>tpl'. fst st1 (Template self) = Some (TextFile tpl')"
    using tpl distinct_paths by (simp add: st1_def fsa_def)
  then obtain tpl' where tpl1: "fst st1 (Template self) = Some (TextFile tpl')" by blast
  have i1: "(1::nat) < length (Years self)" "Years self ! 1 = 2022" "\<forall>j<1. Years self ! j \<noteq> 2022"
    by (simp_all add: years)
  from template_text_shape [where fs = "fst st1" and test = False, OF init i1 tpl1 cc ex]
  obtain tx2 where t2: "template_text env c (fst st1) self 2022 False = Inr tx2" by blast
  define fsb where "fsb = (fst st1)(tmpdir self @ ''Sim2022.dat'' := Some (TextFile tx2))"
  obtain b0 where c2: "create_instance ext 2022 (model_options self) fsb
      (tmpdir self @ ''Sim2022.dat'') = Inr b0"
    using ext(1) by (metis sum.collapse(2))
  obtain b1 where o2: "opt_solve ext (solver self) b0 (log_opt self) = Inr b1"
    using ext(2) by (metis sum.collapse(2))
  obtain cf2 where f2: "carry_forward_of ext b1 = Inr cf2"
    using ext(3) by (metis sum.collapse(2))
  obtain out2 where j2: "jsonify ext b1 = Inr out2"
    using jsonify_Inr [of ext b1] ext by blast
  obtain u2 where p2: "printstats ext b1 = Inr u2"
    using ext(9) by (metis sum.collapse(2))
  define st2 where "st2 =
     (fsb(tmpdir self @ ''2022.json'' := Some (JsonFile out2)),
      snd st1 @ [TemplateWritten 2022 (tmpdir self @ ''Sim2022.dat''),
                 YearResultWritten 2022 (tmpdir self @ ''2022.json'')])"
  have c2': "create_instance ext 2022 (model_options self)
           ((fst st1)(tmpdir self @ ''Sim'' @ str_int 2022 @ ''.dat'' := Some (TextFile tx2)))
           (tmpdir self @ ''Sim'' @ str_int 2022 @ ''.dat'') = Inr b0"
    using c2 by (simp add: str_int_2022 fsb_def)
  have s2: "solve_year ext env c self 2022 st1 = Inr st2"
    unfolding solve_year_eq [OF t2 c2' nc o2 f2 ne j2 p2]
    by (simp add: str_int_2022 lst write_file_def st2_def fsb_def)
  have loop: "fold_result (solve_year ext env c self) (Years self) (fs, []) = Inr st2"
    by (simp add: years s1 s2 and_then_def)
  \<comment> \<open>the merge\<close>
  from jsonify_keys [OF j1] obtain r2020 where
    r1c: "out1 = JDict r2020 \<and>
          map fst r2020 = [''sets'', ''params'', ''vars'', ''duals'', ''objective_value'']" ..
  note r1 = conjunct1 [OF r1c] conjunct2 [OF r1c]
  from jsonify_keys [OF j2] obtain r2022 where
    r2c: "out2 = JDict r2022 \<and>
          map fst r2022 = [''sets'', ''params'', ''vars'', ''duals'', ''objective_value'']" ..
  note r2 = conjunct1 [OF r2c] conjunct2 [OF r2c]
  from generate_metadata_no_tables [OF tables, of "fst st2"] obtain meta where
    m0c: "generate_metadata (fst st2) self = Inr [(''meta'', JDict meta)] \<and>
          map_of meta ''Years'' = Some (JList (map JInt (Years self)))" ..
  note m0 = conjunct1 [OF m0c] conjunct2 [OF m0c]
  from m0 have
    m: "generate_metadata (fst st2) self = Inr [(''meta'', JDict meta)]"
       "map_of meta ''Years'' = Some (JList [JInt 2020, JInt 2022])"
    by (simp_all add: years)
  have rd1: "read_json (fst st2) (tmpdir self @ ''2020.json'') = Inr out1"
    by (simp add: read_json_def st2_def fsb_def st1_def)
  have rd2: "read_json (fst st2) (tmpdir self @ ''2022.json'') = Inr out2"
    by (simp add: read_json_def st2_def)
  have mg: "mergejsonyears self st2 =
     Inr ((fst st2)(report_path self :=
             Some (JsonFile (JDict [(''meta'', JDict meta), (''2020'', JDict r2020),
                                    (''2022'', JDict r2022)]))),
          snd st2 @ [ReportWritten (report_path self)])"
    by (simp add: mergejsonyears_def m and_then_def years str_int_2020 str_int_2022 rd1 rd2
        write_file_def r1 r2)
  have "solve ext env c fs self =
     Inr ((fst st2)(report_path self :=
             Some (JsonFile (JDict [(''meta'', JDict meta), (''2020'', JDict r2020),
                                    (''2022'', JDict r2022)]))),
          snd st2 @ [ReportWritten (report_path self)])"
    by (simp add: solve_def loop and_then_def mg)
  with m(2) r1(2) r2(2) show ?thesis
    by (simp add: st2_def st1_def)
qed

lemma init_cluster:
  assumes "SolveTemplate_init env c fs cfg sv lg td = Inr self"
    and "fs cfg = Some (ScenarioFile config)"
  shows "cluster self = cfg_cluster config"
  using assms
  by (auto simp: SolveTemplate_init_def and_then_Inr_iff tracetechs_def
      split: option.splits file_content.splits)

lemma example_external_succeeds:
  "\<forall>y opts f t. \<not> isl (create_instance example_external y opts f t)"
  "\<forall>s i l. \<not> isl (opt_solve example_external s i l)"
  "\<forall>i. \<not> isl (carry_forward_of example_external i)"
  "\<forall>i. \<not> isl (sets_of example_external i)"
  "\<forall>i. \<not> isl (params_of example_external i)"
  "\<forall>i. \<not> isl (vars_of example_external i)"
  "\<forall>i. \<not> isl (srmc_of example_external i)"
  "\<forall>i. \<not> isl (objective_of example_external i)"
  "\<forall>i. \<not> isl (printstats example_external i)"
  by (simp_all add: example_external_def)

lemma carryforwardcap_later:
  assumes "index_of y (Years self) = Some i" and "0 < i"
  shows "carryforwardcap self y =
     Inr (''load '' @ sq @ tmpdir self @ ''gen_cap_op'' @ str_int (Years self ! (i - 1))
          @ ''.json'' @ sq
          @ '' : [zones,all_tech] gen_cap_initial stor_cap_initial hyb_cap_initial;'')"
proof -
  from assms have "i < length (Years self)" by (simp add: index_of_Some_iff)
  with assms show ?thesis
    by (simp add: carryforwardcap_def Years_index_Inr and_then_def py_getitem_pred)
qed

text \<open>
  Claim C7. Let the constructor have accepted a scenario whose years are 2020 and 2022,
  with clustering disabled and no override table, whatever its policy series. When the
  template file is readable and is not one of the two JSON artifacts of 2020, and the
  model builder, the solver and the marshalling raise nothing, \<open>solve\<close> completes and
  the report it writes is a dict with exactly the keys \<open>meta\<close>, \<open>2020\<close> and \<open>2022\<close>;
  \<open>meta\<close> holds \<open>Years = [2020, 2022]\<close>, and each of the two year entries is a dict
  with the keys \<open>sets\<close>, \<open>params\<close>, \<open>vars\<close>, \<open>duals\<close> and \<open>objective_value\<close>.
\<close>

theorem final_report_two_years:
  assumes "SolveTemplate_init env c fs0 cfg sv lg td = Inr self"
    and "Years self = [2020, 2022]"
    and "\<not> cluster self"
    and "custom_costs self = None" "exogenous_capacity self = None"
    and "fs (Template self) = Some (TextFile tpl)"
    and "Template self \<noteq> tmpdir self @ ''gen_cap_op2020.json''"
        "Template self \<noteq> tmpdir self @ ''2020.json''"
    and "\<forall>y opts f t. \<not> isl (create_instance ext y opts f t)"
        "\<forall>s i l. \<not> isl (opt_solve ext s i l)"
        "\<forall>i. \<not> isl (carry_forward_of ext i)"
        "\<forall>i. \<not> isl (sets_of ext i)" "\<forall>i. \<not> isl (params_of ext i)"
        "\<forall>i. \<not> isl (vars_of ext i)" "\<forall>i. \<not> isl (srmc_of ext i)"
        "\<forall>i. \<not> isl (objective_of ext i)" "\<forall>i. \<not> isl (printstats ext i)"
  shows "\<exists>fs' tr meta r2020 r2022.
           solve ext env c fs self = Inr (fs', tr) \<and>
           fs' (report_path self) =
             Some (JsonFile (JDict [(''meta'', JDict meta), (''2020'', JDict r2020),
                                    (''2022'', JDict r2022)])) \<and>
           map_of meta ''Years'' = Some (JList [JInt 2020, JInt 2022]) \<and>
           map fst r2020 = [''sets'', ''params'', ''vars'', ''duals'', ''objective_value''] \<and>
           map fst r2022 = [''sets'', ''params'', ''vars'', ''duals'', ''objective_value'']"
  using solve_two_years [where fs = fs and ext = ext and env = env and c = c, OF assms]
  by (elim exE conjE) (intro exI conjI, assumption+)

theorem final_report_two_years_witness:
  "\<exists>fs' tr meta r2020 r2022.
     solve example_external example_env example_const (example_fs example_scenario)
       (projr (example_init example_scenario ''/tmp/'')) = Inr (fs', tr) \<and>
     fs' (report_path (projr (example_init example_scenario ''/tmp/''))) =
       Some (JsonFile (JDict [(''meta'', JDict meta), (''2020'', JDict r2020),
                              (''2022'', JDict r2022)])) \<and>
     map_of meta ''Years'' = Some (JList [JInt 2020, JInt 2022]) \<and>
     map fst r2020 = [''sets'', ''params'', ''vars'', ''duals'', ''objective_value''] \<and>
     map fst r2022 = [''sets'', ''params'', ''vars'', ''duals'', ''objective_value'']"
proof -
  obtain self where s: "example_init example_scenario ''/tmp/'' = Inr self"
    and f: "Years self = [2020, 2022]" "tmpdir self = ''/tmp/''"
      "Template self = ''template.dat''"
      "custom_costs self = None" "exogenous_capacity self = None"
    by (rule example_init_obtain [of "''/tmp/''"])
  have p: "projr (example_init example_scenario ''/tmp/'') = self" using s by simp
  have nc: "\<not> cluster self"
    using init_cluster [OF s [unfolded example_init_def] example_fs_cfg]
    by (simp add: example_scenario_def)
  have tpl: "example_fs example_scenario (Template self)
      = Some (TextFile (''#year XXXX'' @ [CHR 0x0A] @ ''[carryforwardcap]'' @ [CHR 0x0A]))"
    by (simp add: f example_fs_def)
  have d: "Template self \<noteq> tmpdir self @ ''gen_cap_op2020.json''"
          "Template self \<noteq> tmpdir self @ ''2020.json''"
    by (simp_all add: f)
  show ?thesis
    unfolding p
    by (rule final_report_two_years [where fs = "example_fs example_scenario"
          and ext = example_external,
          OF s [unfolded example_init_def] f(1) nc f(4) f(5) tpl d example_external_succeeds])
qed

section \<open>Properties of the artifact paths\<close>

lemma lt10_cases:
  assumes "(d::nat) < 10"
  shows "d = 0 \<or> d = 1 \<or> d = 2 \<or> d = 3 \<or> d = 4 \<or> d = 5 \<or> d = 6 \<or> d = 7 \<or> d = 8 \<or> d = 9"
  using assms by arith

lemma digit_char_inj:
  assumes "a < 10" "b < 10" "digit_char a = digit_char b"
  shows "a = b"
  using lt10_cases [OF assms(1)] lt10_cases [OF assms(2)] assms(3)
  by (elim disjE) (simp_all add: digit_char_def)

lemma digit_char_not_letter:
  assumes "d < 10"
  shows "digit_char d \<noteq> CHR ''g''" and "digit_char d \<noteq> CHR ''S''"
  using lt10_cases [OF assms] by (elim disjE; simp add: digit_char_def)+

lemma str_nat_small: "n < 10 \<Longrightarrow> str_nat n = [digit_char n]"
  by (subst str_nat.simps) simp

lemma str_nat_big: "\<not> n < 10 \<Longrightarrow> str_nat n = str_nat (n div 10) @ [digit_char (n mod 10)]"
  by (subst str_nat.simps) simp

lemma str_nat_hd:
  "\<exists>d cs. d < 10 \<and> str_nat n = digit_char d # cs"
proof (induction n rule: str_nat.induct)
  case (1 n)
  show ?case
  proof (cases "n < 10")
    case True
    then show ?thesis by (auto simp: str_nat_small)
  next
    case False
    with 1 obtain d cs where "d < 10" "str_nat (n div 10) = digit_char d # cs" by blast
    with False show ?thesis by (auto simp: str_nat_big)
  qed
qed

lemma str_nat_inj: "str_nat m = str_nat n \<Longrightarrow> m = n"
proof (induction m arbitrary: n rule: str_nat.induct)
  case (1 m)
  show ?case
  proof (cases "m < 10")
    case m: True
    show ?thesis
    proof (cases "n < 10")
      case True
      with m "1.prems" show ?thesis by (simp add: str_nat_small digit_char_inj)
    next
      case False
      from str_nat_hd [of "n div 10"] have "str_nat (n div 10) \<noteq> []" by auto
      with m False "1.prems" show ?thesis by (simp add: str_nat_small str_nat_big)
    qed
  next
    case m: False
    show ?thesis
    proof (cases "n < 10")
      case True
      from str_nat_hd [of "m div 10"] have "str_nat (m div 10) \<noteq> []" by auto
      with m True "1.prems" show ?thesis by (simp add: str_nat_small str_nat_big)
    next
      case False
      with m "1.prems" have e: "str_nat (m div 10) = str_nat (n div 10)"
        and d: "digit_char (m mod 10) = digit_char (n mod 10)"
        by (simp_all add: str_nat_big)
      from "1.IH" [OF m e] have q: "m div 10 = n div 10" .
      from d have r: "m mod 10 = n mod 10" by (intro digit_char_inj) simp_all
      from q r show ?thesis by (metis div_mult_mod_eq)
    qed
  qed
qed

lemma str_int_nonneg: "0 \<le> y \<Longrightarrow> str_int y = str_nat (nat y)"
  by (simp add: str_int_def)

lemma str_int_inj: "0 \<le> a \<Longrightarrow> 0 \<le> b \<Longrightarrow> str_int a = str_int b \<Longrightarrow> a = b"
  by (auto simp: str_int_nonneg dest: str_nat_inj)

lemma str_int_hd:
  assumes "0 \<le> y"
  shows "\<exists>d cs. d < 10 \<and> str_int y = digit_char d # cs"
  using str_nat_hd [of "nat y"] assms by (simp add: str_int_nonneg)

lemma path_carry_forward_ne_template:
  "t @ ''gen_cap_op'' @ a @ ''.json'' \<noteq> t @ ''Sim'' @ b @ ''.dat''"
  by simp

lemma path_carry_forward_ne_result:
  assumes "0 \<le> y"
  shows "t @ ''gen_cap_op'' @ a @ ''.json'' \<noteq> t @ str_int y @ ''.json''"
proof -
  from str_int_hd [OF assms] obtain d cs where d: "d < 10" "str_int y = digit_char d # cs"
    by blast
  from digit_char_not_letter(1) [OF d(1)] show ?thesis by (simp add: d(2))
qed

lemma path_carry_forward_eq_iff:
  assumes "0 \<le> a" "0 \<le> b"
  shows "t @ ''gen_cap_op'' @ str_int a @ ''.json'' = t @ ''gen_cap_op'' @ str_int b @ ''.json''
           \<longleftrightarrow> a = b"
  using str_int_inj [OF assms] by auto

lemma solve_year_store:
  assumes "solve_year ext env c self y st = Inr st'"
  shows "\<exists>tx out inst0 inst1 inst opcap.
     template_text env c (fst st) self y False = Inr tx \<and>
     create_instance ext y (model_options self)
       ((fst st)(tmpdir self @ ''Sim'' @ str_int y @ ''.dat'' := Some (TextFile tx)))
       (tmpdir self @ ''Sim'' @ str_int y @ ''.dat'') = Inr inst0 \<and>
     (\<not> cluster self \<longrightarrow> inst1 = inst0) \<and>
     opt_solve ext (solver self) inst1 (log_opt self) = Inr inst \<and>
     json_carry_forward_cap ext inst = Inr opcap \<and>
     fst st' =
       (if y \<noteq> last (Years self)
        then (fst st)(tmpdir self @ ''Sim'' @ str_int y @ ''.dat'' := Some (TextFile tx),
                      tmpdir self @ ''gen_cap_op'' @ str_int y @ ''.json'' := Some (JsonFile opcap),
                      tmpdir self @ str_int y @ ''.json'' := Some (JsonFile out))
        else (fst st)(tmpdir self @ ''Sim'' @ str_int y @ ''.dat'' := Some (TextFile tx),
                      tmpdir self @ str_int y @ ''.json'' := Some (JsonFile out)))"
proof -
  let ?N = "tmpdir self @ ''Sim'' @ str_int y @ ''.dat''"
  note defs = solve_year_def generateyeartemplate_def and_then_def Let_def
  obtain tx where t: "template_text env c (fst st) self y False = Inr tx"
    using assms by (cases "template_text env c (fst st) self y False") (simp_all add: defs)
  let ?fs1 = "(fst st)(?N := Some (TextFile tx))"
  obtain inst0 where c: "create_instance ext y (model_options self) ?fs1 ?N = Inr inst0"
    using assms t
    by (cases "create_instance ext y (model_options self) ?fs1 ?N") (simp_all add: defs)
  let ?K = "if cluster self
         then and_then (run_cluster ext inst0 (cluster_max_d self) ?N
                          (model_options self) (solver self) (log_opt self) ?fs1)
                (\<lambda>ccap. setinstancecapacity ext inst0 ccap)
         else Inr inst0"
  have a1: "and_then ?K
      (\<lambda>inst. and_then (opt_solve ext (solver self) inst (log_opt self)) (\<lambda>inst.
         and_then (json_carry_forward_cap ext inst) (\<lambda>opcap.
         and_then (py_getitem (Years self) (- 1)) (\<lambda>lastyear.
         and_then (jsonify ext inst) (\<lambda>out.
         and_then (printstats ext inst) (\<lambda>_.
           Inr (write_file
             (if y \<noteq> lastyear
              then write_file (?fs1, snd st @ [TemplateWritten y ?N])
                     (tmpdir self @ ''gen_cap_op'' @ str_int y @ ''.json'') (JsonFile opcap)
                     (CarryForwardWritten y (tmpdir self @ ''gen_cap_op'' @ str_int y @ ''.json''))
              else (?fs1, snd st @ [TemplateWritten y ?N]))
             (tmpdir self @ str_int y @ ''.json'') (JsonFile out)
             (YearResultWritten y (tmpdir self @ str_int y @ ''.json'')))))))))
      = Inr st'"
    using assms t c unfolding solve_year_def generateyeartemplate_def Let_def
    by (simp add: and_then_def cong: if_cong)
  then obtain inst1 where k: "?K = Inr inst1" and
    a2: "and_then (opt_solve ext (solver self) inst1 (log_opt self)) (\<lambda>inst.
         and_then (json_carry_forward_cap ext inst) (\<lambda>opcap.
         and_then (py_getitem (Years self) (- 1)) (\<lambda>lastyear.
         and_then (jsonify ext inst) (\<lambda>out.
         and_then (printstats ext inst) (\<lambda>_.
           Inr (write_file
             (if y \<noteq> lastyear
              then write_file (?fs1, snd st @ [TemplateWritten y ?N])
                     (tmpdir self @ ''gen_cap_op'' @ str_int y @ ''.json'') (JsonFile opcap)
                     (CarryForwardWritten y (tmpdir self @ ''gen_cap_op'' @ str_int y @ ''.json''))
              else (?fs1, snd st @ [TemplateWritten y ?N]))
             (tmpdir self @ str_int y @ ''.json'') (JsonFile out)
             (YearResultWritten y (tmpdir self @ str_int y @ ''.json''))))))))
      = Inr st'"
    unfolding and_then_Inr_iff [of ?K] by (elim exE conjE)
  from a2 obtain inst where o: "opt_solve ext (solver self) inst1 (log_opt self) = Inr inst" and
    a3: "and_then (json_carry_forward_cap ext inst) (\<lambda>opcap.
         and_then (py_getitem (Years self) (- 1)) (\<lambda>lastyear.
         and_then (jsonify ext inst) (\<lambda>out.
         and_then (printstats ext inst) (\<lambda>_.
           Inr (write_file
             (if y \<noteq> lastyear
              then write_file (?fs1, snd st @ [TemplateWritten y ?N])
                     (tmpdir self @ ''gen_cap_op'' @ str_int y @ ''.json'') (JsonFile opcap)
                     (CarryForwardWritten y (tmpdir self @ ''gen_cap_op'' @ str_int y @ ''.json''))
              else (?fs1, snd st @ [TemplateWritten y ?N]))
             (tmpdir self @ str_int y @ ''.json'') (JsonFile out)
             (YearResultWritten y (tmpdir self @ str_int y @ ''.json'')))))))
      = Inr st'"
    unfolding and_then_Inr_iff [of "opt_solve ext (solver self) inst1 (log_opt self)"]
    by (elim exE conjE)
  from a3 obtain opcap where f: "json_carry_forward_cap ext inst = Inr opcap" and
    a4: "and_then (py_getitem (Years self) (- 1)) (\<lambda>lastyear.
         and_then (jsonify ext inst) (\<lambda>out.
         and_then (printstats ext inst) (\<lambda>_.
           Inr (write_file
             (if y \<noteq> lastyear
              then write_file (?fs1, snd st @ [TemplateWritten y ?N])
                     (tmpdir self @ ''gen_cap_op'' @ str_int y @ ''.json'') (JsonFile opcap)
                     (CarryForwardWritten y (tmpdir self @ ''gen_cap_op'' @ str_int y @ ''.json''))
              else (?fs1, snd st @ [TemplateWritten y ?N]))
             (tmpdir self @ str_int y @ ''.json'') (JsonFile out)
             (YearResultWritten y (tmpdir self @ str_int y @ ''.json''))))))
      = Inr st'"
    unfolding and_then_Inr_iff [of "json_carry_forward_cap ext inst"]
    by (elim exE conjE)
  from a4 obtain lastyear where l: "py_getitem (Years self) (- 1) = Inr lastyear" and
    a5: "and_then (jsonify ext inst) (\<lambda>out.
         and_then (printstats ext inst) (\<lambda>_.
           Inr (write_file
             (if y \<noteq> lastyear
              then write_file (?fs1, snd st @ [TemplateWritten y ?N])
                     (tmpdir self @ ''gen_cap_op'' @ str_int y @ ''.json'') (JsonFile opcap)
                     (CarryForwardWritten y (tmpdir self @ ''gen_cap_op'' @ str_int y @ ''.json''))
              else (?fs1, snd st @ [TemplateWritten y ?N]))
             (tmpdir self @ str_int y @ ''.json'') (JsonFile out)
             (YearResultWritten y (tmpdir self @ str_int y @ ''.json'')))))
      = Inr st'"
    unfolding and_then_Inr_iff [of "py_getitem (Years self) (- 1)"]
    by (elim exE conjE)
  from a5 obtain out where j: "jsonify ext inst = Inr out" and
    a6: "and_then (printstats ext inst) (\<lambda>_.
           Inr (write_file
             (if y \<noteq> lastyear
              then write_file (?fs1, snd st @ [TemplateWritten y ?N])
                     (tmpdir self @ ''gen_cap_op'' @ str_int y @ ''.json'') (JsonFile opcap)
                     (CarryForwardWritten y (tmpdir self @ ''gen_cap_op'' @ str_int y @ ''.json''))
              else (?fs1, snd st @ [TemplateWritten y ?N]))
             (tmpdir self @ str_int y @ ''.json'') (JsonFile out)
             (YearResultWritten y (tmpdir self @ str_int y @ ''.json''))))
      = Inr st'"
    unfolding and_then_Inr_iff [of "jsonify ext inst"]
    by (elim exE conjE)
  from a6 have r: "st' = write_file
             (if y \<noteq> lastyear
              then write_file (?fs1, snd st @ [TemplateWritten y ?N])
                     (tmpdir self @ ''gen_cap_op'' @ str_int y @ ''.json'') (JsonFile opcap)
                     (CarryForwardWritten y (tmpdir self @ ''gen_cap_op'' @ str_int y @ ''.json''))
              else (?fs1, snd st @ [TemplateWritten y ?N]))
             (tmpdir self @ str_int y @ ''.json'') (JsonFile out)
             (YearResultWritten y (tmpdir self @ str_int y @ ''.json''))"
    unfolding and_then_Inr_iff [of "printstats ext inst"]
    by (elim exE conjE) simp
  from l have ly: "lastyear = last (Years self)" by (auto dest: py_getitem_last_Inr)
  have k': "\<not> cluster self \<longrightarrow> inst1 = inst0" using k by auto
  have fs: "fst st' =
       (if y \<noteq> last (Years self)
        then (fst st)(tmpdir self @ ''Sim'' @ str_int y @ ''.dat'' := Some (TextFile tx),
                      tmpdir self @ ''gen_cap_op'' @ str_int y @ ''.json'' := Some (JsonFile opcap),
                      tmpdir self @ str_int y @ ''.json'' := Some (JsonFile out))
        else (fst st)(tmpdir self @ ''Sim'' @ str_int y @ ''.dat'' := Some (TextFile tx),
                      tmpdir self @ str_int y @ ''.json'' := Some (JsonFile out)))"
    unfolding r ly by (simp add: write_file_def)
  show ?thesis
    apply (rule exI [where x = tx])
    apply (rule exI [where x = out])
    apply (rule exI [where x = inst0])
    apply (rule exI [where x = inst1])
    apply (rule exI [where x = inst])
    apply (rule exI [where x = opcap])
    apply (intro conjI)
         apply (rule t)
        apply (rule c)
       apply (rule k')
      apply (rule o)
     apply (rule f)
    apply (rule fs)
    done
qed


lemma solve_year_frame:
  assumes s: "solve_year ext env c self y st = Inr st'"
    and p: "p \<noteq> tmpdir self @ ''Sim'' @ str_int y @ ''.dat''"
      "y \<noteq> last (Years self) \<longrightarrow> p \<noteq> tmpdir self @ ''gen_cap_op'' @ str_int y @ ''.json''"
      "p \<noteq> tmpdir self @ str_int y @ ''.json''"
  shows "fst st' p = fst st p"
proof -
  from solve_year_store [OF s] obtain tx out opcap where
    "fst st' =
       (if y \<noteq> last (Years self)
        then (fst st)(tmpdir self @ ''Sim'' @ str_int y @ ''.dat'' := Some (TextFile tx),
                      tmpdir self @ ''gen_cap_op'' @ str_int y @ ''.json'' := Some (JsonFile opcap),
                      tmpdir self @ str_int y @ ''.json'' := Some (JsonFile out))
        else (fst st)(tmpdir self @ ''Sim'' @ str_int y @ ''.dat'' := Some (TextFile tx),
                      tmpdir self @ str_int y @ ''.json'' := Some (JsonFile out)))"
    by (elim exE conjE)
  then show ?thesis using p by (cases "y = last (Years self)") simp_all
qed

lemma fold_solve_year_frame:
  assumes "fold_result (solve_year ext env c self) ys st = Inr st'"
    and "\<forall>y \<in> set ys. p \<noteq> tmpdir self @ ''Sim'' @ str_int y @ ''.dat'' \<and>
           (y \<noteq> last (Years self) \<longrightarrow> p \<noteq> tmpdir self @ ''gen_cap_op'' @ str_int y @ ''.json'') \<and>
           p \<noteq> tmpdir self @ str_int y @ ''.json''"
  shows "fst st' p = fst st p"
  using assms
proof (induction ys arbitrary: st)
  case Nil
  then show ?case by simp
next
  case (Cons y ys)
  from Cons.prems(1) obtain st1 where
    1: "solve_year ext env c self y st = Inr st1" and
    2: "fold_result (solve_year ext env c self) ys st1 = Inr st'"
    by (auto simp: and_then_Inr_iff)
  from Cons.prems(2) have
    a: "p \<noteq> tmpdir self @ ''Sim'' @ str_int y @ ''.dat''"
       "y \<noteq> last (Years self) \<longrightarrow> p \<noteq> tmpdir self @ ''gen_cap_op'' @ str_int y @ ''.json''"
       "p \<noteq> tmpdir self @ str_int y @ ''.json''" and
    b: "\<forall>y \<in> set ys. p \<noteq> tmpdir self @ ''Sim'' @ str_int y @ ''.dat'' \<and>
           (y \<noteq> last (Years self) \<longrightarrow> p \<noteq> tmpdir self @ ''gen_cap_op'' @ str_int y @ ''.json'') \<and>
           p \<noteq> tmpdir self @ str_int y @ ''.json''"
    by simp_all
  from solve_year_frame [OF 1 a] Cons.IH [OF 2 b] show ?case by simp
qed

lemma carry_forward_path_frame:
  assumes "0 \<le> y" and "\<forall>v \<in> set ys. 0 \<le> v" and "y \<notin> set ys \<or> y = last (Years self)"
  shows "\<forall>v \<in> set ys.
           tmpdir self @ ''gen_cap_op'' @ str_int y @ ''.json''
             \<noteq> tmpdir self @ ''Sim'' @ str_int v @ ''.dat'' \<and>
           (v \<noteq> last (Years self) \<longrightarrow>
              tmpdir self @ ''gen_cap_op'' @ str_int y @ ''.json''
                \<noteq> tmpdir self @ ''gen_cap_op'' @ str_int v @ ''.json'') \<and>
           tmpdir self @ ''gen_cap_op'' @ str_int y @ ''.json''
             \<noteq> tmpdir self @ str_int v @ ''.json''"
proof
  fix v assume v: "v \<in> set ys"
  with assms(2) have v0: "0 \<le> v" by simp
  from v assms(3) have ne: "v \<noteq> last (Years self) \<longrightarrow> y \<noteq> v" by auto
  show "tmpdir self @ ''gen_cap_op'' @ str_int y @ ''.json''
             \<noteq> tmpdir self @ ''Sim'' @ str_int v @ ''.dat'' \<and>
           (v \<noteq> last (Years self) \<longrightarrow>
              tmpdir self @ ''gen_cap_op'' @ str_int y @ ''.json''
                \<noteq> tmpdir self @ ''gen_cap_op'' @ str_int v @ ''.json'') \<and>
           tmpdir self @ ''gen_cap_op'' @ str_int y @ ''.json''
             \<noteq> tmpdir self @ str_int v @ ''.json''"
    using path_carry_forward_ne_template [of "tmpdir self" "str_int y" "str_int v"]
      path_carry_forward_ne_result [OF v0, of "tmpdir self" "str_int y"]
      path_carry_forward_eq_iff [OF assms(1) v0, of "tmpdir self"] ne
    by (intro conjI impI) (assumption, simp, assumption)
qed

lemma fold_solve_year_persist:
  assumes "fold_result (solve_year ext env c self) ys st = Inr st'"
    and "\<forall>v \<in> set ys. 0 \<le> v" and "y \<in> set ys" and "y \<noteq> last (Years self)"
  shows "\<exists>fsy tx inst0 inst1 inst opcap.
     template_text env c fsy self y False = Inr tx \<and>
     create_instance ext y (model_options self)
       (fsy(tmpdir self @ ''Sim'' @ str_int y @ ''.dat'' := Some (TextFile tx)))
       (tmpdir self @ ''Sim'' @ str_int y @ ''.dat'') = Inr inst0 \<and>
     (\<not> cluster self \<longrightarrow> inst1 = inst0) \<and>
     opt_solve ext (solver self) inst1 (log_opt self) = Inr inst \<and>
     json_carry_forward_cap ext inst = Inr opcap \<and>
     fst st' (tmpdir self @ ''gen_cap_op'' @ str_int y @ ''.json'') = Some (JsonFile opcap)"
  using assms(1-3)
proof (induction ys arbitrary: st)
  case Nil
  then show ?case by simp
next
  case (Cons a ys)
  from Cons.prems(1) obtain st1 where
    1: "solve_year ext env c self a st = Inr st1" and
    2: "fold_result (solve_year ext env c self) ys st1 = Inr st'"
    by (auto simp: and_then_Inr_iff)
  from Cons.prems(2) have nn: "\<forall>v \<in> set ys. 0 \<le> v" and a0: "0 \<le> a" by simp_all
  show ?case
  proof (cases "y \<in> set ys")
    case True
    from Cons.IH [OF 2 nn True] show ?thesis .
  next
    case False
    with Cons.prems(3) have ay: "a = y" by simp
    from solve_year_store [OF 1 [unfolded ay]] obtain tx out inst0 inst1 inst opcap where
      t: "template_text env c (fst st) self y False = Inr tx" and
      c: "create_instance ext y (model_options self)
            ((fst st)(tmpdir self @ ''Sim'' @ str_int y @ ''.dat'' := Some (TextFile tx)))
            (tmpdir self @ ''Sim'' @ str_int y @ ''.dat'') = Inr inst0" and
      k: "\<not> cluster self \<longrightarrow> inst1 = inst0" and
      o: "opt_solve ext (solver self) inst1 (log_opt self) = Inr inst" and
      f: "json_carry_forward_cap ext inst = Inr opcap" and
      s: "fst st1 =
       (if y \<noteq> last (Years self)
        then (fst st)(tmpdir self @ ''Sim'' @ str_int y @ ''.dat'' := Some (TextFile tx),
                      tmpdir self @ ''gen_cap_op'' @ str_int y @ ''.json'' := Some (JsonFile opcap),
                      tmpdir self @ str_int y @ ''.json'' := Some (JsonFile out))
        else (fst st)(tmpdir self @ ''Sim'' @ str_int y @ ''.dat'' := Some (TextFile tx),
                      tmpdir self @ str_int y @ ''.json'' := Some (JsonFile out)))"
      by (elim exE conjE)
    from a0 ay have y0: "0 \<le> y" by simp
    have w: "fst st1 (tmpdir self @ ''gen_cap_op'' @ str_int y @ ''.json'') = Some (JsonFile opcap)"
      unfolding s using assms(4) path_carry_forward_ne_result [OF y0, of "tmpdir self" "str_int y"]
      by (simp only: if_True fun_upd_apply) simp
    have "y \<notin> set ys \<or> y = last (Years self)" using False by simp
    from fold_solve_year_frame [OF 2 carry_forward_path_frame [OF y0 nn this]] w
    have e: "fst st' (tmpdir self @ ''gen_cap_op'' @ str_int y @ ''.json'') = Some (JsonFile opcap)"
      by simp
    show ?thesis
      apply (rule exI [where x = "fst st"])
      apply (rule exI [where x = tx])
      apply (rule exI [where x = inst0])
      apply (rule exI [where x = inst1])
      apply (rule exI [where x = inst])
      apply (rule exI [where x = opcap])
      apply (intro conjI)
           apply (rule t)
          apply (rule c)
         apply (rule k)
        apply (rule o)
       apply (rule f)
      apply (rule e)
      done
  qed
qed

lemma mergejsonyears_frame:
  assumes "mergejsonyears self st = Inr st'" and "p \<noteq> report_path self"
  shows "fst st' p = fst st p"
  using assms by (auto simp: mergejsonyears_def and_then_Inr_iff write_file_def)

lemma filter_not_last_distinct:
  assumes "distinct ys"
  shows "filter (\<lambda>y. y \<noteq> last ys) ys = butlast ys"
proof (cases ys rule: rev_cases)
  case Nil
  then show ?thesis by simp
next
  case (snoc xs x)
  with assms have "x \<notin> set xs" by simp
  then have "filter (\<lambda>y. y \<noteq> x) xs = xs" by (induction xs) auto
  with snoc show ?thesis by simp
qed

subsection \<open>The carry-forward chain\<close>

text \<open>
  Claim C4, as amended. Let the constructor have accepted a configuration that lists no
  year twice. For the year at a position \<open>i > 0\<close> of the sorted years, with the
  template file and the configured tables readable, the carry-forward clause and the
  template file that \<open>generateyeartemplate\<close> writes both load the artifact
  \<open>tmpdir + 'gen_cap_op' + str(prev) + '.json'\<close>, where \<open>prev\<close> is the year at position
  \<open>i - 1\<close>. And in every completed run of \<open>solve\<close>, the carry-forward artifacts written
  are exactly those of the years other than the last year, in order, each under the path
  keyed by its own year. When the loop over the years ends, the file store holds under
  the path keyed by each year but the last the carry-forward state marshalled from the
  instance that was built from that year's template and solved, and holds under the
  path keyed by the last year what it held before the run; the report, written last,
  changes the file store at no other path than its own.
\<close>

theorem carry_forward_chain:
  assumes init: "SolveTemplate_init env c fs0 cfg sv lg td = Inr self"
    and dist: "distinct (Years self)"
  shows "(\<forall>i tpl. 0 < i \<and> i < length (Years self) \<and>
             fs (Template self) = Some (TextFile tpl) \<and>
             (custom_costs self = None \<or>
                (\<exists>p t j. custom_costs self = Some p \<and> fs p = Some (CostCsv t j))) \<and>
             (exogenous_capacity self = None \<or>
                (\<exists>p t j. exogenous_capacity self = Some p \<and> fs p = Some (CapacityCsv t j)))
           \<longrightarrow>
             carryforwardcap self (Years self ! i) =
               Inr (''load '' @ sq @ tmpdir self @ ''gen_cap_op'' @ str_int (Years self ! (i - 1))
                    @ ''.json'' @ sq
                    @ '' : [zones,all_tech] gen_cap_initial stor_cap_initial hyb_cap_initial;'') \<and>
             (\<exists>pre post. generateyeartemplate env c fs self (Years self ! i) test =
                Inr (fs(tmpdir self @ ''Sim'' @ str_int (Years self ! i) @ ''.dat'' :=
                          Some (TextFile (pre @ ''load '' @ sq @ tmpdir self @ ''gen_cap_op''
                             @ str_int (Years self ! (i - 1)) @ ''.json'' @ sq
                             @ '' : cost_cap_carry_forward;'' @ nl @ post))),
                     tmpdir self @ ''Sim'' @ str_int (Years self ! i) @ ''.dat''))) \<and>
         (\<forall>fs1 fs' tr. solve ext env c fs1 self = Inr (fs', tr) \<longrightarrow>
             carry_forward_writes tr =
               map (\<lambda>y. (y, tmpdir self @ ''gen_cap_op'' @ str_int y @ ''.json''))
                 (butlast (Years self)) \<and>
             (\<exists>st1. fold_result (solve_year ext env c self) (Years self) (fs1, []) = Inr st1 \<and>
                mergejsonyears self st1 = Inr (fs', tr) \<and>
                (\<forall>p. p \<noteq> report_path self \<longrightarrow> fs' p = fst st1 p) \<and>
                (\<forall>i. i + 1 < length (Years self) \<longrightarrow>
                   (\<exists>fsy tx inst0 inst1 inst opcap.
                       template_text env c fsy self (Years self ! i) False = Inr tx \<and>
                       create_instance ext (Years self ! i) (model_options self)
                         (fsy(tmpdir self @ ''Sim'' @ str_int (Years self ! i) @ ''.dat'' :=
                                Some (TextFile tx)))
                         (tmpdir self @ ''Sim'' @ str_int (Years self ! i) @ ''.dat'') = Inr inst0 \<and>
                       (\<not> cluster self \<longrightarrow> inst1 = inst0) \<and>
                       opt_solve ext (solver self) inst1 (log_opt self) = Inr inst \<and>
                       json_carry_forward_cap ext inst = Inr opcap \<and>
                       fst st1 (tmpdir self @ ''gen_cap_op'' @ str_int (Years self ! i) @ ''.json'')
                         = Some (JsonFile opcap))) \<and>
                fst st1 (tmpdir self @ ''gen_cap_op'' @ str_int (last (Years self)) @ ''.json'')
                  = fs1 (tmpdir self @ ''gen_cap_op'' @ str_int (last (Years self)) @ ''.json'')))"
proof (intro conjI allI impI)
  fix i tpl
  assume h: "0 < i \<and> i < length (Years self) \<and>
             fs (Template self) = Some (TextFile tpl) \<and>
             (custom_costs self = None \<or>
                (\<exists>p t j. custom_costs self = Some p \<and> fs p = Some (CostCsv t j))) \<and>
             (exogenous_capacity self = None \<or>
                (\<exists>p t j. exogenous_capacity self = Some p \<and> fs p = Some (CapacityCsv t j)))"
  define y where "y = Years self ! i"
  from h have pos: "0 < i" and i0: "i < length (Years self)"
    and tpl: "fs (Template self) = Some (TextFile tpl)"
    and cc: "custom_costs self = None \<or>
                (\<exists>p t j. custom_costs self = Some p \<and> fs p = Some (CostCsv t j))"
    and ex: "exogenous_capacity self = None \<or>
                (\<exists>p t j. exogenous_capacity self = Some p \<and> fs p = Some (CapacityCsv t j))"
    by simp_all
  from dist i0 have first: "\<forall>j<i. Years self ! j \<noteq> y"
    by (auto simp: y_def nth_eq_iff_index_eq)
  note i = i0 y_def [symmetric] first
  from i have idx: "index_of y (Years self) = Some i" by (simp add: index_of_Some_iff)
  show "carryforwardcap self (Years self ! i) =
               Inr (''load '' @ sq @ tmpdir self @ ''gen_cap_op'' @ str_int (Years self ! (i - 1))
                    @ ''.json'' @ sq
                    @ '' : [zones,all_tech] gen_cap_initial stor_cap_initial hyb_cap_initial;'')"
    using carryforwardcap_later [OF idx pos] by (simp only: y_def)
  from template_text_shape [where fs = fs and test = test and env = env and c = c,
      OF init i tpl cc ex]
  obtain pre where t: "template_text env c fs self y test =
     Inr (pre
       @ (case cost_emit self of None \<Rightarrow> []
          | Some d \<Rightarrow> ''#Cost of emissions $/Mhw'' @ nl @ ''param cost_emit:= ''
                      @ str_num env (d ! i) @ '';'' @ nl)
       @ (if i \<noteq> 0 then ''#Carry forward annualised capital costs'' @ nl
                @ ''load '' @ sq @ tmpdir self @ ''gen_cap_op'' @ str_int (Years self ! (i - 1))
                @ ''.json'' @ sq @ '' : cost_cap_carry_forward;'' @ nl
          else [])
       @ (case nem_ret_ratio self of None \<Rightarrow> []
          | Some d \<Rightarrow> nl @ '' # NEM wide RET'' @ nl @ ''param nem_ret_ratio :=''
                      @ str_num env (d ! i) @ '';'' @ nl)
       @ (case nem_ret_gwh self of None \<Rightarrow> []
          | Some d \<Rightarrow> nl @ '' # NEM wide RET'' @ nl @ ''param nem_ret_gwh :=''
                      @ str_num env (d ! i) @ '';'' @ nl)
       @ (case region_ret_ratio self of None \<Rightarrow> []
          | Some rd \<Rightarrow>
              if rd = [] then []
              else nl @ '' #Regional based RET'' @ nl @ ''param region_ret_ratio := ''
                   @ join '' '' (map (\<lambda>(r, xs). str_int r @ '' '' @ str_num env (xs ! i)) rd)
                   @ '';'' @ nl)
       @ (case emitlimit self of None \<Rightarrow> []
          | Some d \<Rightarrow> nl @ '' #NEM wide emission limit (in GT)'' @ nl
                      @ ''param nem_year_emit_limit := '' @ str_num env (d ! i) @ '';'' @ nl)
       @ (case nem_disp_ratio self of None \<Rightarrow> []
          | Some d \<Rightarrow> nl @ '' #NEM wide minimum generation ratio from dispatchable tech'' @ nl
                      @ ''param nem_disp_ratio := '' @ str_num env (d ! i) @ '';'' @ nl)
       @ (case nem_re_disp_ratio self of None \<Rightarrow> []
          | Some d \<Rightarrow> nl @ '' #NEM wide minimum generation ratio from dispatchable tech'' @ nl
                      @ ''param nem_re_disp_ratio := '' @ str_num env (d ! i) @ '';'' @ nl))" ..
  have tt: "template_text env c fs self y test =
     Inr ((pre
       @ (case cost_emit self of None \<Rightarrow> []
          | Some d \<Rightarrow> ''#Cost of emissions $/Mhw'' @ nl @ ''param cost_emit:= ''
                      @ str_num env (d ! i) @ '';'' @ nl)
       @ ''#Carry forward annualised capital costs'' @ nl)
          @ ''load '' @ sq @ tmpdir self @ ''gen_cap_op''
          @ str_int (Years self ! (i - 1)) @ ''.json'' @ sq
          @ '' : cost_cap_carry_forward;'' @ nl
          @ ((case nem_ret_ratio self of None \<Rightarrow> []
          | Some d \<Rightarrow> nl @ '' # NEM wide RET'' @ nl @ ''param nem_ret_ratio :=''
                      @ str_num env (d ! i) @ '';'' @ nl)
       @ (case nem_ret_gwh self of None \<Rightarrow> []
          | Some d \<Rightarrow> nl @ '' # NEM wide RET'' @ nl @ ''param nem_ret_gwh :=''
                      @ str_num env (d ! i) @ '';'' @ nl)
       @ (case region_ret_ratio self of None \<Rightarrow> []
          | Some rd \<Rightarrow>
              if rd = [] then []
              else nl @ '' #Regional based RET'' @ nl @ ''param region_ret_ratio := ''
                   @ join '' '' (map (\<lambda>(r, xs). str_int r @ '' '' @ str_num env (xs ! i)) rd)
                   @ '';'' @ nl)
       @ (case emitlimit self of None \<Rightarrow> []
          | Some d \<Rightarrow> nl @ '' #NEM wide emission limit (in GT)'' @ nl
                      @ ''param nem_year_emit_limit := '' @ str_num env (d ! i) @ '';'' @ nl)
       @ (case nem_disp_ratio self of None \<Rightarrow> []
          | Some d \<Rightarrow> nl @ '' #NEM wide minimum generation ratio from dispatchable tech'' @ nl
                      @ ''param nem_disp_ratio := '' @ str_num env (d ! i) @ '';'' @ nl)
       @ (case nem_re_disp_ratio self of None \<Rightarrow> []
          | Some d \<Rightarrow> nl @ '' #NEM wide minimum generation ratio from dispatchable tech'' @ nl
                      @ ''param nem_re_disp_ratio := '' @ str_num env (d ! i) @ '';'' @ nl)))"
    using pos by (simp only: t) simp
  show "\<exists>pre post. generateyeartemplate env c fs self (Years self ! i) test =
                Inr (fs(tmpdir self @ ''Sim'' @ str_int (Years self ! i) @ ''.dat'' :=
                          Some (TextFile (pre @ ''load '' @ sq @ tmpdir self @ ''gen_cap_op''
                             @ str_int (Years self ! (i - 1)) @ ''.json'' @ sq
                             @ '' : cost_cap_carry_forward;'' @ nl @ post))),
                     tmpdir self @ ''Sim'' @ str_int (Years self ! i) @ ''.dat'')"
    unfolding y_def [symmetric]
    by (rule exI, rule exI, rule generateyeartemplate_of_text [OF tt])
next
  fix fs1 fs' tr
  assume run: "solve ext env c fs1 self = Inr (fs', tr)"
  from solve_writes [OF run] init_Years_range(1) [OF init]
  show "carry_forward_writes tr =
               map (\<lambda>y. (y, tmpdir self @ ''gen_cap_op'' @ str_int y @ ''.json''))
                 (butlast (Years self))"
    by (simp add: filter_not_last_distinct [OF dist])
  from run obtain st1 where
    loop: "fold_result (solve_year ext env c self) (Years self) (fs1, []) = Inr st1" and
    merge: "mergejsonyears self st1 = Inr (fs', tr)"
    by (auto simp: solve_def and_then_Inr_iff)
  from init_Years_range(2) [OF init] have nn: "\<forall>v \<in> set (Years self). 0 \<le> v" by auto
  from init_Years_range(1) [OF init] have ne: "Years self \<noteq> []" .
  have frame: "\<forall>p. p \<noteq> report_path self \<longrightarrow> fs' p = fst st1 p"
    using mergejsonyears_frame [OF merge] by simp
  have persist: "\<forall>i. i + 1 < length (Years self) \<longrightarrow>
                   (\<exists>fsy tx inst0 inst1 inst opcap.
                       template_text env c fsy self (Years self ! i) False = Inr tx \<and>
                       create_instance ext (Years self ! i) (model_options self)
                         (fsy(tmpdir self @ ''Sim'' @ str_int (Years self ! i) @ ''.dat'' :=
                                Some (TextFile tx)))
                         (tmpdir self @ ''Sim'' @ str_int (Years self ! i) @ ''.dat'') = Inr inst0 \<and>
                       (\<not> cluster self \<longrightarrow> inst1 = inst0) \<and>
                       opt_solve ext (solver self) inst1 (log_opt self) = Inr inst \<and>
                       json_carry_forward_cap ext inst = Inr opcap \<and>
                       fst st1 (tmpdir self @ ''gen_cap_op'' @ str_int (Years self ! i) @ ''.json'')
                         = Some (JsonFile opcap))"
  proof (intro allI impI)
    fix i assume i: "i + 1 < length (Years self)"
    then have mem: "Years self ! i \<in> set (Years self)" by simp
    from ne have "last (Years self) = Years self ! (length (Years self) - 1)"
      by (rule last_conv_nth)
    with dist i have nl: "Years self ! i \<noteq> last (Years self)"
      by (simp add: nth_eq_iff_index_eq)
    from fold_solve_year_persist [OF loop nn mem nl]
    show "\<exists>fsy tx inst0 inst1 inst opcap.
                       template_text env c fsy self (Years self ! i) False = Inr tx \<and>
                       create_instance ext (Years self ! i) (model_options self)
                         (fsy(tmpdir self @ ''Sim'' @ str_int (Years self ! i) @ ''.dat'' :=
                                Some (TextFile tx)))
                         (tmpdir self @ ''Sim'' @ str_int (Years self ! i) @ ''.dat'') = Inr inst0 \<and>
                       (\<not> cluster self \<longrightarrow> inst1 = inst0) \<and>
                       opt_solve ext (solver self) inst1 (log_opt self) = Inr inst \<and>
                       json_carry_forward_cap ext inst = Inr opcap \<and>
                       fst st1 (tmpdir self @ ''gen_cap_op'' @ str_int (Years self ! i) @ ''.json'')
                         = Some (JsonFile opcap)" .
  qed
  from ne nn have l0: "0 \<le> last (Years self)" by simp
  have "last (Years self) \<notin> set (Years self) \<or> last (Years self) = last (Years self)" by simp
  from fold_solve_year_frame [OF loop carry_forward_path_frame [OF l0 nn this]]
  have lastf: "fst st1 (tmpdir self @ ''gen_cap_op'' @ str_int (last (Years self)) @ ''.json'')
                  = fs1 (tmpdir self @ ''gen_cap_op'' @ str_int (last (Years self)) @ ''.json'')"
    by simp
  show "\<exists>st1. fold_result (solve_year ext env c self) (Years self) (fs1, []) = Inr st1 \<and>
                mergejsonyears self st1 = Inr (fs', tr) \<and>
                (\<forall>p. p \<noteq> report_path self \<longrightarrow> fs' p = fst st1 p) \<and>
                (\<forall>i. i + 1 < length (Years self) \<longrightarrow>
                   (\<exists>fsy tx inst0 inst1 inst opcap.
                       template_text env c fsy self (Years self ! i) False = Inr tx \<and>
                       create_instance ext (Years self ! i) (model_options self)
                         (fsy(tmpdir self @ ''Sim'' @ str_int (Years self ! i) @ ''.dat'' :=
                                Some (TextFile tx)))
                         (tmpdir self @ ''Sim'' @ str_int (Years self ! i) @ ''.dat'') = Inr inst0 \<and>
                       (\<not> cluster self \<longrightarrow> inst1 = inst0) \<and>
                       opt_solve ext (solver self) inst1 (log_opt self) = Inr inst \<and>
                       json_carry_forward_cap ext inst = Inr opcap \<and>
                       fst st1 (tmpdir self @ ''gen_cap_op'' @ str_int (Years self ! i) @ ''.json'')
                         = Some (JsonFile opcap))) \<and>
                fst st1 (tmpdir self @ ''gen_cap_op'' @ str_int (last (Years self)) @ ''.json'')
                  = fs1 (tmpdir self @ ''gen_cap_op'' @ str_int (last (Years self)) @ ''.json'')"
    apply (rule exI [where x = st1])
    apply (intro conjI)
        apply (rule loop)
       apply (rule merge)
      apply (rule frame)
     apply (rule persist)
    apply (rule lastf)
    done
qed

theorem carry_forward_chain_witness:
  "\<exists>self fs' tr pre post gs.
     example_init example_scenario ''/tmp/'' = Inr self \<and> Years self = [2020, 2022] \<and>
     distinct (Years self) \<and>
     generateyeartemplate example_env example_const (example_fs example_scenario) self 2022 False =
       Inr (gs, ''/tmp/Sim2022.dat'') \<and>
     gs ''/tmp/Sim2022.dat'' =
       Some (TextFile (pre @ ''load '' @ sq @ ''/tmp/gen_cap_op2020.json'' @ sq
                       @ '' : cost_cap_carry_forward;'' @ nl @ post)) \<and>
     solve example_external example_env example_const (example_fs example_scenario) self
       = Inr (fs', tr) \<and>
     carry_forward_writes tr = [(2020, ''/tmp/gen_cap_op2020.json'')] \<and>
     example_fs example_scenario ''/tmp/gen_cap_op2020.json'' = None \<and>
     fs' ''/tmp/gen_cap_op2020.json'' = Some (JsonFile (JDict [(''gen_cap_initial'', JList [])])) \<and>
     fs' ''/tmp/gen_cap_op2022.json'' = None"
proof -
  obtain self where s: "example_init example_scenario ''/tmp/'' = Inr self"
    and f: "Years self = [2020, 2022]" "tmpdir self = ''/tmp/''"
      "Template self = ''template.dat''"
      "custom_costs self = None" "exogenous_capacity self = None"
      "cfgfile self = ''scenario.cfg''"
    by (rule example_init_obtain [of "''/tmp/''"])
  note init = s [unfolded example_init_def]
  have dist: "distinct (Years self)" by (simp add: f)
  have nc: "\<not> cluster self"
    using init_cluster [OF init example_fs_cfg] by (simp add: example_scenario_def)
  have tpl: "example_fs example_scenario (Template self)
      = Some (TextFile (''#year XXXX'' @ [CHR 0x0A] @ ''[carryforwardcap]'' @ [CHR 0x0A]))"
    by (simp add: f example_fs_def)
  have d: "Template self \<noteq> tmpdir self @ ''gen_cap_op2020.json''"
          "Template self \<noteq> tmpdir self @ ''2020.json''"
    by (simp_all add: f)
  from solve_two_years [where fs = "example_fs example_scenario" and ext = example_external
      and env = example_env and c = example_const,
      OF init f(1) nc f(4) f(5) tpl d example_external_succeeds]
  obtain fs' tr where run:
    "solve example_external example_env example_const (example_fs example_scenario) self
       = Inr (fs', tr)"
    by (elim exE conjE)
  note chain = carry_forward_chain [where fs = "example_fs example_scenario"
      and ext = example_external and env = example_env and c = example_const
      and test = False, OF init dist]
  have hyp: "0 < (1::nat) \<and> 1 < length (Years self) \<and>
             example_fs example_scenario (Template self)
               = Some (TextFile (''#year XXXX'' @ [CHR 0x0A] @ ''[carryforwardcap]'' @ [CHR 0x0A])) \<and>
             (custom_costs self = None \<or>
                (\<exists>p t j. custom_costs self = Some p \<and>
                   example_fs example_scenario p = Some (CostCsv t j))) \<and>
             (exogenous_capacity self = None \<or>
                (\<exists>p t j. exogenous_capacity self = Some p \<and>
                   example_fs example_scenario p = Some (CapacityCsv t j)))"
    using tpl by (simp add: f)
  from chain [THEN conjunct1, rule_format, OF hyp, THEN conjunct2]
  obtain pre post where t:
    "generateyeartemplate example_env example_const (example_fs example_scenario) self
         (Years self ! 1) False =
       Inr ((example_fs example_scenario)(tmpdir self @ ''Sim'' @ str_int (Years self ! 1) @ ''.dat'' :=
              Some (TextFile (pre @ ''load '' @ sq @ tmpdir self @ ''gen_cap_op''
                 @ str_int (Years self ! (1 - 1)) @ ''.json'' @ sq
                 @ '' : cost_cap_carry_forward;'' @ nl @ post))),
            tmpdir self @ ''Sim'' @ str_int (Years self ! 1) @ ''.dat'')"
    by (elim exE)
  define gs where "gs = (example_fs example_scenario)(''/tmp/Sim2022.dat'' :=
              Some (TextFile (pre @ ''load '' @ sq @ ''/tmp/gen_cap_op2020.json'' @ sq
                 @ '' : cost_cap_carry_forward;'' @ nl @ post)))"
  from t have t':
    "generateyeartemplate example_env example_const (example_fs example_scenario) self 2022 False =
       Inr (gs, ''/tmp/Sim2022.dat'')"
    by (simp add: f str_int_2020 str_int_2022 gs_def)
  have g: "gs ''/tmp/Sim2022.dat'' =
       Some (TextFile (pre @ ''load '' @ sq @ ''/tmp/gen_cap_op2020.json'' @ sq
                       @ '' : cost_cap_carry_forward;'' @ nl @ post))"
    by (simp add: gs_def)
  note both = chain [THEN conjunct2, rule_format, OF run]
  from both [THEN conjunct1]
  have w: "carry_forward_writes tr = [(2020, ''/tmp/gen_cap_op2020.json'')]"
    by (simp add: f str_int_2020)
  from both [THEN conjunct2] obtain st1 :: store where
    frame: "\<forall>p. p \<noteq> report_path self \<longrightarrow> fs' p = fst st1 p" and
    persist: "\<forall>i. i + 1 < length (Years self) \<longrightarrow>
       (\<exists>fsy tx inst0 inst1 inst opcap.
           template_text example_env example_const fsy self (Years self ! i) False = Inr tx \<and>
           create_instance example_external (Years self ! i) (model_options self)
             (fsy(tmpdir self @ ''Sim'' @ str_int (Years self ! i) @ ''.dat'' :=
                    Some (TextFile tx)))
             (tmpdir self @ ''Sim'' @ str_int (Years self ! i) @ ''.dat'') = Inr inst0 \<and>
           (\<not> cluster self \<longrightarrow> inst1 = inst0) \<and>
           opt_solve example_external (solver self) inst1 (log_opt self) = Inr inst \<and>
           json_carry_forward_cap example_external inst = Inr opcap \<and>
           fst st1 (tmpdir self @ ''gen_cap_op'' @ str_int (Years self ! i) @ ''.json'')
             = Some (JsonFile opcap))" and
    lastf: "fst st1 (tmpdir self @ ''gen_cap_op'' @ str_int (last (Years self)) @ ''.json'')
              = example_fs example_scenario
                  (tmpdir self @ ''gen_cap_op'' @ str_int (last (Years self)) @ ''.json'')"
    by (elim exE conjE) (rule that, assumption+)
  have "(0::nat) + 1 < length (Years self)" by (simp add: f)
  from persist [rule_format, OF this] obtain inst opcap where
    m: "json_carry_forward_cap example_external inst = Inr opcap" and
    e: "fst st1 (tmpdir self @ ''gen_cap_op'' @ str_int (Years self ! 0) @ ''.json'')
             = Some (JsonFile opcap)"
    by (elim exE conjE) (rule that, assumption+)
  from m have o: "opcap = JDict [(''gen_cap_initial'', JList [])]"
    by (simp add: json_carry_forward_cap_def example_external_def)
  have rp: "report_path self = ''scenario.json''" by (simp add: report_path_def f)
  have p0: "fst st1 ''/tmp/gen_cap_op2020.json'' = Some (JsonFile (JDict [(''gen_cap_initial'', JList [])]))"
    using e by (simp add: f str_int_2020 o)
  have p1: "fst st1 ''/tmp/gen_cap_op2022.json'' = None"
    using lastf by (simp add: f str_int_2022 example_fs_def)
  have before: "example_fs example_scenario ''/tmp/gen_cap_op2020.json'' = None"
    by (simp add: example_fs_def)
  have q0: "fs' ''/tmp/gen_cap_op2020.json'' = Some (JsonFile (JDict [(''gen_cap_initial'', JList [])]))"
    using frame [rule_format, of "''/tmp/gen_cap_op2020.json''"] p0 by (simp add: rp)
  have q1: "fs' ''/tmp/gen_cap_op2022.json'' = None"
    using frame [rule_format, of "''/tmp/gen_cap_op2022.json''"] p1 by (simp add: rp)
  show ?thesis
    apply (rule exI [where x = self])
    apply (rule exI [where x = fs'])
    apply (rule exI [where x = tr])
    apply (rule exI [where x = pre])
    apply (rule exI [where x = post])
    apply (rule exI [where x = gs])
    apply (intro conjI)
             apply (rule s)
            apply (rule f(1))
           apply (rule dist)
          apply (rule t')
         apply (rule g)
        apply (rule run)
       apply (rule w)
      apply (rule before)
     apply (rule q0)
    apply (rule q1)
    done
qed

text \<open>
  Claim C4 as first stated covers every configuration with at least two years. The
  constructor accepts the years \<open>[2020, 2020]\<close>. The year at position 1 is then 2020,
  a non-first year whose preceding year is 2020; the template generated for it does not
  load \<open>gen_cap_op2020.json\<close>: \<open>Years.index(2020)\<close> is 0, so it holds the three
  database queries of a first year and no carry-forward cost clause.
\<close>

theorem carry_forward_repeated_year_counterexample:
  "\<not> isl (example_init repeated_year_scenario ''/tmp/'') \<and>
   Years (projr (example_init repeated_year_scenario ''/tmp/'')) = [2020, 2020] \<and>
   carry_forward_cap_costs (projr (example_init repeated_year_scenario ''/tmp/''))
     (Years (projr (example_init repeated_year_scenario ''/tmp/'')) ! 1) = Inr [] \<and>
   carryforwardcap (projr (example_init repeated_year_scenario ''/tmp/''))
     (Years (projr (example_init repeated_year_scenario ''/tmp/'')) ! 1)
     \<noteq> Inr (''load '' @ sq @ ''/tmp/gen_cap_op2020.json'' @ sq
            @ '' : [zones,all_tech] gen_cap_initial stor_cap_initial hyb_cap_initial;'') \<and>
   \<not> isl (generateyeartemplate example_env example_const (example_fs repeated_year_scenario)
     (projr (example_init repeated_year_scenario ''/tmp/''))
     (Years (projr (example_init repeated_year_scenario ''/tmp/'')) ! 1) False) \<and>
   fst (projr (generateyeartemplate example_env example_const (example_fs repeated_year_scenario)
     (projr (example_init repeated_year_scenario ''/tmp/''))
     (Years (projr (example_init repeated_year_scenario ''/tmp/'')) ! 1) False))
     ''/tmp/Sim2020.dat'' =
     Some (TextFile (''#year 2020'' @ nl
       @ bootstrap_query ''#operating capacity for all technilogies and regions''
           ''gen_cap_initial'' ''((1, 1), (1, 3))'' @ nl
       @ bootstrap_query ''# operating capacity for all technilogies and regions''
           ''stor_cap_initial'' ''((2, 4))'' @ nl
       @ bootstrap_query ''# operating capacity for all technilogies and regions''
           ''hyb_cap_initial'' ''((99, 99))''
       @ nl @ nl @ nl @ nl @ ''#Discount rate for project'' @ nl
       @ ''param all_tech_discount_rate := 0.05;'' @ nl))"
proof -
  have i: "\<not> isl (example_init repeated_year_scenario ''/tmp/'')"
    by code_simp
  have y: "Years (projr (example_init repeated_year_scenario ''/tmp/'')) = [2020, 2020]"
    by code_simp
  have td: "tmpdir (projr (example_init repeated_year_scenario ''/tmp/'')) = ''/tmp/''"
    by code_simp
  have cst: "carry_forward_cap_costs (projr (example_init repeated_year_scenario ''/tmp/'')) 2020
      = Inr []"
    by code_simp
  have cap: "carryforwardcap (projr (example_init repeated_year_scenario ''/tmp/'')) 2020
     \<noteq> Inr (''load '' @ sq @ ''/tmp/gen_cap_op2020.json'' @ sq
            @ '' : [zones,all_tech] gen_cap_initial stor_cap_initial hyb_cap_initial;'')"
    by code_simp
  have tx: "template_text example_env example_const (example_fs repeated_year_scenario)
     (projr (example_init repeated_year_scenario ''/tmp/'')) 2020 False =
     Inr (''#year 2020'' @ nl
       @ bootstrap_query ''#operating capacity for all technilogies and regions''
           ''gen_cap_initial'' ''((1, 1), (1, 3))'' @ nl
       @ bootstrap_query ''# operating capacity for all technilogies and regions''
           ''stor_cap_initial'' ''((2, 4))'' @ nl
       @ bootstrap_query ''# operating capacity for all technilogies and regions''
           ''hyb_cap_initial'' ''((99, 99))''
       @ nl @ nl @ nl @ nl @ ''#Discount rate for project'' @ nl
       @ ''param all_tech_discount_rate := 0.05;'' @ nl)"
    by code_simp
  note g = generateyeartemplate_of_text [OF tx]
  have g1: "\<not> isl (generateyeartemplate example_env example_const
     (example_fs repeated_year_scenario)
     (projr (example_init repeated_year_scenario ''/tmp/'')) 2020 False)"
    by (simp add: g)
  have g2: "fst (projr (generateyeartemplate example_env example_const
     (example_fs repeated_year_scenario)
     (projr (example_init repeated_year_scenario ''/tmp/'')) 2020 False))
     ''/tmp/Sim2020.dat'' =
     Some (TextFile (''#year 2020'' @ nl
       @ bootstrap_query ''#operating capacity for all technilogies and regions''
           ''gen_cap_initial'' ''((1, 1), (1, 3))'' @ nl
       @ bootstrap_query ''# operating capacity for all technilogies and regions''
           ''stor_cap_initial'' ''((2, 4))'' @ nl
       @ bootstrap_query ''# operating capacity for all technilogies and regions''
           ''hyb_cap_initial'' ''((99, 99))''
       @ nl @ nl @ nl @ nl @ ''#Discount rate for project'' @ nl
       @ ''param all_tech_discount_rate := 0.05;'' @ nl))"
    by (simp add: g td str_int_2020)
  have n: "Years (projr (example_init repeated_year_scenario ''/tmp/'')) ! 1 = 2020"
    by (simp add: y)
  show ?thesis
    unfolding n by (intro conjI i y cst cap g1 g2)
qed

end
